theory Spec2Isabelle
  imports Main
begin

section \<open>Domain model (models.py)\<close>

datatype UserRole = USER | ADMIN | SUPER_ADMIN

datatype EventStatus = DRAFT | PENDING | ACTIVE | ARCHIVED

text \<open>\<open>RequestStatus.PENDING\<close> is written \<open>REQ_PENDING\<close>: the name \<open>PENDING\<close> is taken by
  \<open>EventStatus\<close>.\<close>

datatype RequestStatus = REQ_PENDING | APPROVED | REJECTED

type_synonym timestamp = nat

text \<open>A \<open>datetime.date\<close>: year, month, day.\<close>

type_synonym date = "nat \<times> nat \<times> nat"

text \<open>The exceptions the modelled code can raise: the two constraint violations of the
  schema, the driver's refusal of an integer that does not fit its column, the Python errors
  of \<open>int(...)\<close>, of a missing dict key and of an attribute read on \<open>None\<close>, and a failed
  \<open>bot.send_message\<close>.\<close>

datatype error =
    UniqueViolation | ForeignKeyViolation | DataError | ValueError | TypeError | KeyError
  | AttributeError | TelegramError

text \<open>JSON values of a request payload. The payloads this program writes hold integers and
  strings; null and booleans are kept for Python's truthiness test.\<close>

datatype json = JNull | JBool bool | JInt int | JStr string

text \<open>The texts the bot produces. The source builds them as (Russian) f-strings; each
  template is a constructor that carries the interpolated values. \<open>Plain\<close> is text typed by a
  user, \<open>Json\<close> a payload value passed on as message text.\<close>

datatype Text =
    Plain string
  | Json json
  | MSG_please_start
  | MSG_no_access
  | MSG_already_handled int
  | MSG_decided int string bool string
  | MSG_requester_notice int string bool
  | MSG_event_not_found
  | MSG_no_seats string
  | MSG_reg_name_prefilled string string
  | MSG_reg_name_prompt string
  | MSG_ask_phone
  | MSG_ask_level
  | MSG_reg_confirm_prompt string "string option" "string option" "string option"
  | MSG_reg_cancelled
  | MSG_registered string
  | MSG_reg_error
  | MSG_evt_ask_title
  | MSG_evt_ask_date
  | MSG_evt_bad_date
  | MSG_evt_ask_time
  | MSG_evt_ask_place
  | MSG_evt_ask_desc
  | MSG_evt_ask_max
  | MSG_evt_confirm_prompt string date "string option" "string option"
  | MSG_evt_cancelled
  | MSG_evt_creation_cancelled
  | MSG_evt_created_active string int
  | MSG_evt_created_pending string int
  | MSG_evt_request_notice int string date "string option"
  | MSG_info_ask_category
  | MSG_info_ask_title
  | MSG_info_ask_content
  | MSG_info_confirm_prompt string string string
  | MSG_info_cancelled
  | MSG_info_creation_cancelled
  | MSG_info_saved int
  | MSG_bc_ask_text
  | MSG_bc_confirm_prompt string
  | MSG_bc_cancelled
  | MSG_bc_sent nat nat
  | MSG_welcome string
  | MSG_ai_ask_command
  | MSG_ai_cancelled
  | MSG_ai_command_cancelled
  | COMMENT_new_event string

datatype LogEntry =
    LOG_granted_admin string
  | LOG_activated_event json
  | LOG_broadcast_sent nat nat
  | LOG_notify_requester_failed int
  | LOG_notify_super_admin_failed int
  | LOG_registration_failed

record User =
  u_telegram_id :: int
  u_username :: "string option"
  u_full_name :: string
  u_phone :: "string option"
  u_role :: UserRole
  u_created_at :: timestamp

record Event =
  e_id :: int
  e_title :: string
  e_type :: "string option"
  e_date_start :: date
  e_date_end :: "date option"
  e_time :: "string option"
  e_place :: "string option"
  e_description :: "string option"
  e_max_participants :: int
  e_status :: EventStatus
  e_created_by :: "string option"
  e_created_at :: timestamp

record EventRegistration =
  r_id :: int
  r_event_id :: int
  r_username :: "string option"
  r_telegram_id :: "int option"
  r_full_name :: string
  r_phone :: "string option"
  r_level :: "string option"
  r_comment :: "string option"
  r_registered_at :: timestamp

record Info =
  i_id :: int
  i_category :: string
  i_title :: string
  i_content :: string
  i_updated_at :: timestamp

text \<open>\<open>payload_json\<close> is a dict with string keys, kept as an association list read with
  \<open>map_of\<close>.\<close>

record AdminRequest =
  q_id :: int
  q_username :: string
  q_request_type :: string
  q_telegram_id :: "int option"
  q_full_name :: "string option"
  q_phone :: "string option"
  q_requested_table :: "string option"
  q_payload_json :: "(string \<times> json) list option"
  q_comment :: "Text option"
  q_status :: RequestStatus
  q_reviewed_by :: "string option"
  q_created_at :: timestamp
  q_reviewed_at :: "timestamp option"

section \<open>The store (db.py)\<close>

text \<open>The tables of \<open>SCHEMA_SQL\<close> that the modelled code touches, each a list of rows in
  insertion order, with the \<open>SERIAL\<close> sequence of each table and the clock that \<open>now()\<close>
  reads. A row of \<open>admin_table_access\<close> is its pair (username, table_name); its \<open>id\<close> and
  \<open>granted_at\<close> columns are never read. Every statement runs on the pool in autocommit mode: a
  statement that succeeds is committed at once, one that fails changes no table.\<close>

record DB =
  users :: "User list"
  events :: "Event list"
  events_id_seq :: int
  event_registrations :: "EventRegistration list"
  event_registrations_id_seq :: int
  info :: "Info list"
  info_id_seq :: int
  admin_requests :: "AdminRequest list"
  admin_requests_id_seq :: int
  admin_table_access :: "(string \<times> string) list"
  clock :: timestamp

text \<open>A call that can raise returns the error or the value, and the store as the call left
  it.\<close>

type_synonym 'a dbres = "(error + 'a) \<times> DB"

text \<open>An \<open>INTEGER\<close> column holds 32 bits, and the driver refuses a parameter outside that
  range before the statement is sent. Of the integers this program hands to the store only
  \<open>max_participants\<close> is typed in by a user, and it is checked here; identifiers come from
  the sequences and from the buttons the bot itself has made, and are taken to fit.\<close>

definition int4 :: "int \<Rightarrow> bool" where
  "int4 n = (- 2147483648 \<le> n \<and> n \<le> 2147483647)"

subsection \<open>Users\<close>

text \<open>\<open>username TEXT UNIQUE\<close>: a non-null username held by a row with another key.\<close>

definition username_taken :: "DB \<Rightarrow> int \<Rightarrow> string option \<Rightarrow> bool" where
  "username_taken db tid un =
     (case un of
        None \<Rightarrow> False
      | Some n \<Rightarrow> list_ex (\<lambda>u. u_telegram_id u \<noteq> tid \<and> u_username u = Some n) (users db))"

text \<open>\<open>ON UPDATE CASCADE\<close> of the foreign keys on \<open>users(username)\<close>: when a username changes,
  \<open>events.created_by\<close> and \<open>admin_table_access.username\<close> follow.\<close>

definition cascade_username :: "string option \<Rightarrow> string option \<Rightarrow> DB \<Rightarrow> DB" where
  "cascade_username old new db =
     (case (old, new) of
        (Some a, Some b) \<Rightarrow>
          (if a = b then db
           else db\<lparr>events :=
                      map (\<lambda>e. if e_created_by e = Some a then e\<lparr>e_created_by := Some b\<rparr> else e)
                        (events db),
                    admin_table_access :=
                      map (\<lambda>(n, t). if n = a then (b, t) else (n, t)) (admin_table_access db)\<rparr>)
      | _ \<Rightarrow> db)"

text \<open>\<open>COALESCE(EXCLUDED.username, users.username)\<close>.\<close>

definition coalesce :: "'a option \<Rightarrow> 'a option \<Rightarrow> 'a option" where
  "coalesce a b = (case a of Some x \<Rightarrow> Some x | None \<Rightarrow> b)"

definition upsert_user ::
  "DB \<Rightarrow> int \<Rightarrow> string option \<Rightarrow> string \<Rightarrow> string option \<Rightarrow> User dbres" where
  "upsert_user db telegram_id username full_name phone =
     (case find (\<lambda>u. u_telegram_id u = telegram_id) (users db) of
        None \<Rightarrow>
          (if username_taken db telegram_id username then (Inl UniqueViolation, db)
           else
             let row = \<lparr>u_telegram_id = telegram_id, u_username = username,
                        u_full_name = full_name, u_phone = phone, u_role = USER,
                        u_created_at = clock db\<rparr>
             in (Inr row, db\<lparr>users := users db @ [row]\<rparr>))
      | Some old \<Rightarrow>
          (let upd = (\<lambda>u. u\<lparr>u_username := coalesce username (u_username u),
                               u_full_name := full_name\<rparr>)
           in if username_taken db telegram_id (u_username (upd old))
              then (Inl UniqueViolation, db)
              else (Inr (upd old),
                    cascade_username (u_username old) (u_username (upd old))
                      (db\<lparr>users :=
                            map (\<lambda>u. if u_telegram_id u = telegram_id then upd u else u)
                              (users db)\<rparr>))))"

definition get_user :: "DB \<Rightarrow> int \<Rightarrow> User option" where
  "get_user db telegram_id = find (\<lambda>u. u_telegram_id u = telegram_id) (users db)"

definition get_user_by_username :: "DB \<Rightarrow> string \<Rightarrow> User option" where
  "get_user_by_username db username = find (\<lambda>u. u_username u = Some username) (users db)"

text \<open>Returns whether the command tag is \<open>UPDATE 1\<close>.\<close>

definition set_user_role :: "DB \<Rightarrow> string \<Rightarrow> UserRole \<Rightarrow> bool \<times> DB" where
  "set_user_role db username role =
     (length (filter (\<lambda>u. u_username u = Some username) (users db)) = 1,
      db\<lparr>users :=
           map (\<lambda>u. if u_username u = Some username then u\<lparr>u_role := role\<rparr> else u)
             (users db)\<rparr>)"

definition get_all_telegram_ids :: "DB \<Rightarrow> int list" where
  "get_all_telegram_ids db = map u_telegram_id (users db)"

definition get_super_admin_ids :: "DB \<Rightarrow> int list" where
  "get_super_admin_ids db = map u_telegram_id (filter (\<lambda>u. u_role u = SUPER_ADMIN) (users db))"

subsection \<open>Events\<close>

text \<open>\<open>created_by TEXT REFERENCES users(username)\<close>.\<close>

definition username_exists :: "DB \<Rightarrow> string \<Rightarrow> bool" where
  "username_exists db n = list_ex (\<lambda>u. u_username u = Some n) (users db)"

text \<open>The defaults of the keyword arguments are the callers' business: every argument is
  passed. \<open>nextval\<close> is taken when the row is formed, before the constraint is checked, and a
  sequence is not rolled back.\<close>

definition create_event ::
  "DB \<Rightarrow> string \<Rightarrow> date \<Rightarrow> string option \<Rightarrow> date option \<Rightarrow> string option \<Rightarrow> string option \<Rightarrow>
   string option \<Rightarrow> int \<Rightarrow> EventStatus \<Rightarrow> string option \<Rightarrow> Event dbres" where
  "create_event db title date_start type date_end time place description max_participants
     status created_by =
     (if \<not> int4 max_participants then (Inl DataError, db)
      else
        (let db1 = db\<lparr>events_id_seq := events_id_seq db + 1\<rparr>;
             row = \<lparr>e_id = events_id_seq db1, e_title = title, e_type = type,
                    e_date_start = date_start, e_date_end = date_end, e_time = time,
                    e_place = place, e_description = description,
                    e_max_participants = max_participants, e_status = status,
                    e_created_by = created_by, e_created_at = clock db\<rparr>
         in (case created_by of
               None \<Rightarrow> (Inr row, db1\<lparr>events := events db1 @ [row]\<rparr>)
             | Some n \<Rightarrow>
                 if username_exists db n then (Inr row, db1\<lparr>events := events db1 @ [row]\<rparr>)
                 else (Inl ForeignKeyViolation, db1))))"

definition get_event :: "DB \<Rightarrow> int \<Rightarrow> Event option" where
  "get_event db event_id = find (\<lambda>e. e_id e = event_id) (events db)"

text \<open>The keyword arguments of \<open>update_event\<close>, one constructor per column a caller may
  name (\<open>flds\<close> below is the source's \<open>fields\<close>); this program only ever passes
  \<open>status\<close>.\<close>

datatype EventField =
    F_title string
  | F_type "string option"
  | F_date_start date
  | F_date_end "date option"
  | F_time "string option"
  | F_place "string option"
  | F_description "string option"
  | F_max_participants int
  | F_status EventStatus

fun set_field :: "EventField \<Rightarrow> Event \<Rightarrow> Event" where
  "set_field (F_title v) e = e\<lparr>e_title := v\<rparr>"
| "set_field (F_type v) e = e\<lparr>e_type := v\<rparr>"
| "set_field (F_date_start v) e = e\<lparr>e_date_start := v\<rparr>"
| "set_field (F_date_end v) e = e\<lparr>e_date_end := v\<rparr>"
| "set_field (F_time v) e = e\<lparr>e_time := v\<rparr>"
| "set_field (F_place v) e = e\<lparr>e_place := v\<rparr>"
| "set_field (F_description v) e = e\<lparr>e_description := v\<rparr>"
| "set_field (F_max_participants v) e = e\<lparr>e_max_participants := v\<rparr>"
| "set_field (F_status v) e = e\<lparr>e_status := v\<rparr>"

definition update_event :: "DB \<Rightarrow> int \<Rightarrow> EventField list \<Rightarrow> Event option \<times> DB" where
  "update_event db event_id flds =
     (if flds = [] then (get_event db event_id, db)
      else
        let upd = (\<lambda>e. fold set_field flds e)
        in (map_option upd (find (\<lambda>e. e_id e = event_id) (events db)),
            db\<lparr>events := map (\<lambda>e. if e_id e = event_id then upd e else e) (events db)\<rparr>))"

definition activate_event :: "DB \<Rightarrow> int \<Rightarrow> Event option \<times> DB" where
  "activate_event db event_id = update_event db event_id [F_status ACTIVE]"

definition archive_event :: "DB \<Rightarrow> int \<Rightarrow> Event option \<times> DB" where
  "archive_event db event_id = update_event db event_id [F_status ARCHIVED]"

text \<open>Returns whether the command tag is \<open>DELETE 1\<close>. The registrations of the event go with
  it (\<open>event_id ... REFERENCES events(id) ON DELETE CASCADE\<close>). No handler calls it.\<close>

definition delete_event :: "DB \<Rightarrow> int \<Rightarrow> bool \<times> DB" where
  "delete_event db event_id =
     (length (filter (\<lambda>e. e_id e = event_id) (events db)) = 1,
      db\<lparr>events := filter (\<lambda>e. e_id e \<noteq> event_id) (events db),
         event_registrations :=
           filter (\<lambda>r. r_event_id r \<noteq> event_id) (event_registrations db)\<rparr>)"

subsection \<open>Event registrations\<close>

text \<open>\<open>UNIQUE (event_id, telegram_id)\<close>: the conflict target of the upsert. A null
  \<open>telegram_id\<close> never conflicts.\<close>

definition reg_conflict :: "int \<Rightarrow> int option \<Rightarrow> EventRegistration \<Rightarrow> bool" where
  "reg_conflict event_id telegram_id r =
     (r_event_id r = event_id \<and> telegram_id \<noteq> None \<and> r_telegram_id r = telegram_id)"

text \<open>On a conflict the existing row is updated (\<open>username\<close> is not in the \<open>SET\<close> list);
  otherwise the row is inserted, which needs the event and, for a non-null \<open>telegram_id\<close>, the
  user to exist (the two foreign keys of the table). The sequence advances in every case:
  \<open>nextval\<close> is taken before the conflict is seen.\<close>

definition register_for_event ::
  "DB \<Rightarrow> int \<Rightarrow> string \<Rightarrow> string option \<Rightarrow> int option \<Rightarrow> string option \<Rightarrow> string option \<Rightarrow>
   string option \<Rightarrow> EventRegistration dbres" where
  "register_for_event db event_id full_name username telegram_id phone level comment =
     (let db1 = db\<lparr>event_registrations_id_seq := event_registrations_id_seq db + 1\<rparr>;
          upd = (\<lambda>r. r\<lparr>r_full_name := full_name, r_phone := phone, r_level := level,
                          r_comment := comment\<rparr>)
      in case find (reg_conflict event_id telegram_id) (event_registrations db) of
           Some old \<Rightarrow>
             (Inr (upd old),
              db1\<lparr>event_registrations :=
                    map (\<lambda>r. if reg_conflict event_id telegram_id r then upd r else r)
                      (event_registrations db)\<rparr>)
         | None \<Rightarrow>
             if get_event db event_id = None then (Inl ForeignKeyViolation, db1)
             else if (case telegram_id of None \<Rightarrow> False | Some t \<Rightarrow> get_user db t = None)
             then (Inl ForeignKeyViolation, db1)
             else
               let row = \<lparr>r_id = event_registrations_id_seq db1, r_event_id = event_id,
                          r_username = username, r_telegram_id = telegram_id,
                          r_full_name = full_name, r_phone = phone, r_level = level,
                          r_comment = comment, r_registered_at = clock db\<rparr>
               in (Inr row, db1\<lparr>event_registrations := event_registrations db @ [row]\<rparr>))"

definition get_event_registrations :: "DB \<Rightarrow> int \<Rightarrow> EventRegistration list" where
  "get_event_registrations db event_id =
     filter (\<lambda>r. r_event_id r = event_id) (event_registrations db)"

definition count_event_registrations :: "DB \<Rightarrow> int \<Rightarrow> int" where
  "count_event_registrations db event_id =
     int (length (filter (\<lambda>r. r_event_id r = event_id) (event_registrations db)))"

subsection \<open>Info\<close>

definition create_info :: "DB \<Rightarrow> string \<Rightarrow> string \<Rightarrow> string \<Rightarrow> int \<times> DB" where
  "create_info db category title content =
     (let db1 = db\<lparr>info_id_seq := info_id_seq db + 1\<rparr>;
          row = \<lparr>i_id = info_id_seq db1, i_category = category, i_title = title,
                 i_content = content, i_updated_at = clock db\<rparr>
      in (i_id row, db1\<lparr>info := info db @ [row]\<rparr>))"

text \<open>The keyword arguments of \<open>update_info\<close>, one constructor per column a caller may
  name; the statement also sets \<open>updated_at = now()\<close>. No handler calls it.\<close>

datatype InfoField = I_category string | I_title string | I_content string

fun set_info_field :: "InfoField \<Rightarrow> Info \<Rightarrow> Info" where
  "set_info_field (I_category v) i = i\<lparr>i_category := v\<rparr>"
| "set_info_field (I_title v) i = i\<lparr>i_title := v\<rparr>"
| "set_info_field (I_content v) i = i\<lparr>i_content := v\<rparr>"

definition update_info :: "DB \<Rightarrow> int \<Rightarrow> InfoField list \<Rightarrow> bool \<times> DB" where
  "update_info db info_id flds =
     (if flds = [] then (False, db)
      else
        (length (filter (\<lambda>i. i_id i = info_id) (info db)) = 1,
         db\<lparr>info :=
              map (\<lambda>i. if i_id i = info_id
                        then (fold set_info_field flds i)\<lparr>i_updated_at := clock db\<rparr>
                        else i) (info db)\<rparr>))"

definition delete_info :: "DB \<Rightarrow> int \<Rightarrow> bool \<times> DB" where
  "delete_info db info_id =
     (length (filter (\<lambda>i. i_id i = info_id) (info db)) = 1,
      db\<lparr>info := filter (\<lambda>i. i_id i \<noteq> info_id) (info db)\<rparr>)"

subsection \<open>Admin requests\<close>

text \<open>\<open>json.dumps(payload_json) if payload_json else None\<close>: an empty dict is stored as
  null. \<open>telegram_id BIGINT REFERENCES users(telegram_id)\<close>. The new row has the column
  defaults: status pending, not reviewed.\<close>

definition create_admin_request ::
  "DB \<Rightarrow> string \<Rightarrow> string \<Rightarrow> int option \<Rightarrow> string option \<Rightarrow> string option \<Rightarrow> string option \<Rightarrow>
   (string \<times> json) list option \<Rightarrow> Text option \<Rightarrow> AdminRequest dbres" where
  "create_admin_request db username request_type telegram_id full_name phone requested_table
     payload_json comment =
     (let db1 = db\<lparr>admin_requests_id_seq := admin_requests_id_seq db + 1\<rparr>;
          row = \<lparr>q_id = admin_requests_id_seq db1, q_username = username,
                 q_request_type = request_type, q_telegram_id = telegram_id,
                 q_full_name = full_name, q_phone = phone,
                 q_requested_table = requested_table,
                 q_payload_json =
                   (case payload_json of
                      None \<Rightarrow> None
                    | Some kv \<Rightarrow> if kv = [] then None else Some kv),
                 q_comment = comment, q_status = REQ_PENDING, q_reviewed_by = None,
                 q_created_at = clock db, q_reviewed_at = None\<rparr>
      in if (case telegram_id of None \<Rightarrow> False | Some t \<Rightarrow> get_user db t = None)
         then (Inl ForeignKeyViolation, db1)
         else (Inr row, db1\<lparr>admin_requests := admin_requests db @ [row]\<rparr>))"

definition get_request :: "DB \<Rightarrow> int \<Rightarrow> AdminRequest option" where
  "get_request db request_id = find (\<lambda>q. q_id q = request_id) (admin_requests db)"

definition get_pending_requests :: "DB \<Rightarrow> AdminRequest list" where
  "get_pending_requests db = filter (\<lambda>q. q_status q = REQ_PENDING) (admin_requests db)"

text \<open>\<open>UPDATE ... WHERE id = $2 AND status = 'pending' RETURNING *\<close>: the rows that pass the
  guard are rewritten, and \<open>fetchrow\<close> hands back the first of them, or \<open>None\<close> when the
  update touched no row.\<close>

definition decide_guard :: "int \<Rightarrow> AdminRequest \<Rightarrow> bool" where
  "decide_guard request_id q = (q_id q = request_id \<and> q_status q = REQ_PENDING)"

definition approve_request :: "DB \<Rightarrow> int \<Rightarrow> string option \<Rightarrow> AdminRequest option \<times> DB" where
  "approve_request db request_id reviewed_by =
     (let upd = (\<lambda>q. q\<lparr>q_status := APPROVED, q_reviewed_by := reviewed_by,
                          q_reviewed_at := Some (clock db)\<rparr>)
      in (map_option upd (find (decide_guard request_id) (admin_requests db)),
          db\<lparr>admin_requests :=
               map (\<lambda>q. if decide_guard request_id q then upd q else q) (admin_requests db)\<rparr>))"

definition reject_request :: "DB \<Rightarrow> int \<Rightarrow> string option \<Rightarrow> AdminRequest option \<times> DB" where
  "reject_request db request_id reviewed_by =
     (let upd = (\<lambda>q. q\<lparr>q_status := REJECTED, q_reviewed_by := reviewed_by,
                          q_reviewed_at := Some (clock db)\<rparr>)
      in (map_option upd (find (decide_guard request_id) (admin_requests db)),
          db\<lparr>admin_requests :=
               map (\<lambda>q. if decide_guard request_id q then upd q else q) (admin_requests db)\<rparr>))"

subsection \<open>Admin table access\<close>

text \<open>\<open>ON CONFLICT DO NOTHING\<close> skips a pair that is already there; a new pair needs its
  username in \<open>users\<close> (\<open>username TEXT NOT NULL REFERENCES users(username)\<close>).\<close>

definition grant_table_access :: "DB \<Rightarrow> string \<Rightarrow> string \<Rightarrow> unit dbres" where
  "grant_table_access db username table_name =
     (if (username, table_name) \<in> set (admin_table_access db) then (Inr (), db)
      else if username_exists db username
      then (Inr (), db\<lparr>admin_table_access := admin_table_access db @ [(username, table_name)]\<rparr>)
      else (Inl ForeignKeyViolation, db))"

definition get_admin_tables :: "DB \<Rightarrow> string \<Rightarrow> string list" where
  "get_admin_tables db username =
     map snd (filter (\<lambda>(n, t). n = username) (admin_table_access db))"

section \<open>Python values\<close>

text \<open>Truthiness (\<open>if x:\<close>) of a JSON value and of a string.\<close>

fun truthy :: "json \<Rightarrow> bool" where
  "truthy JNull = False"
| "truthy (JBool b) = b"
| "truthy (JInt n) = (n \<noteq> 0)"
| "truthy (JStr s) = (s \<noteq> [])"

text \<open>\<open>int(x)\<close>. How Python reads a string as an integer is not code of this repository:
  \<open>int_of_str\<close> stands for it (\<open>None\<close> is its \<open>ValueError\<close>).\<close>

fun py_int :: "(string \<Rightarrow> int option) \<Rightarrow> json \<Rightarrow> error + int" where
  "py_int int_of_str (JInt n) = Inr n"
| "py_int int_of_str (JBool b) = Inr (if b then 1 else 0)"
| "py_int int_of_str (JStr s) = (case int_of_str s of None \<Rightarrow> Inl ValueError | Some n \<Rightarrow> Inr n)"
| "py_int int_of_str JNull = Inl TypeError"

text \<open>\<open>str(n)\<close> of an integer.\<close>

fun str_nat :: "nat \<Rightarrow> string" where
  "str_nat n =
     (if n < 10 then [char_of (48 + n)] else str_nat (n div 10) @ [char_of (48 + n mod 10)])"

definition str_int :: "int \<Rightarrow> string" where
  "str_int i = (if i < 0 then CHR ''-'' # str_nat (nat (- i)) else str_nat (nat i))"

text \<open>\<open>d.get(k)\<close> on a key that may hold \<open>None\<close>: an absent key and a stored \<open>None\<close> read the
  same.\<close>

definition dict_get :: "'a option option \<Rightarrow> 'a option" where
  "dict_get v = (case v of None \<Rightarrow> None | Some x \<Rightarrow> x)"

section \<open>Handler context\<close>

text \<open>\<open>update.effective_user\<close>.\<close>

record TgUser =
  tg_id :: int
  tg_username :: "string option"
  tg_full_name :: string
  tg_first_name :: string

text \<open>\<open>context.user_data\<close>, the per-user dict the conversations collect their fields in, with
  one field per key the handlers use: \<open>None\<close> is an absent key. A key whose stored value can
  itself be \<open>None\<close> has a nested option.\<close>

record UserData =
  db_user :: "User option"
  reg_event_id :: "int option"
  reg_event_title :: "string option"
  reg_name :: "string option"
  reg_phone :: "string option option"
  reg_level :: "string option option"
  evt_title :: "string option"
  evt_date :: "date option"
  evt_time :: "string option option"
  evt_place :: "string option option"
  evt_desc :: "string option option"
  evt_max :: "int option"
  info_cat :: "string option"
  info_title :: "string option"
  info_content :: "string option"
  bc_text :: "string option"

text \<open>What a handler run can read and change: the store, the actor's \<open>user_data\<close>, the
  \<open>bot.send_message\<close> calls made so far (chat, text, delivered or not), the texts shown to the
  actor (\<open>reply_text\<close>, \<open>edit_message_text\<close>) and the log.\<close>

record World =
  w_db :: DB
  w_user_data :: UserData
  w_outbox :: "(int \<times> Text \<times> bool) list"
  w_replies :: "Text list"
  w_log :: "LogEntry list"

text \<open>A handler returns the next conversation state, or \<open>None\<close>, or raises.\<close>

type_synonym HandlerResult = "(error + int option) \<times> World"

text \<open>The transport: whether the n-th \<open>send_message\<close> call (counted over the outbox) is
  delivered. Any pattern of failures is such a function.\<close>

type_synonym Bot = "nat \<Rightarrow> bool"

definition reply :: "Text \<Rightarrow> World \<Rightarrow> World" where
  "reply t w = w\<lparr>w_replies := w_replies w @ [t]\<rparr>"

definition log_add :: "LogEntry \<Rightarrow> World \<Rightarrow> World" where
  "log_add l w = w\<lparr>w_log := w_log w @ [l]\<rparr>"

definition send_message :: "Bot \<Rightarrow> int \<Rightarrow> Text \<Rightarrow> World \<Rightarrow> (error + unit) \<times> World" where
  "send_message bot_ok chat_id text w =
     (let ok = bot_ok (length (w_outbox w))
      in (if ok then Inr () else Inl TelegramError,
          w\<lparr>w_outbox := w_outbox w @ [(chat_id, text, ok)]\<rparr>))"

text \<open>Conversation states, the integers of the source.\<close>

definition END :: int where "END = - 1"
definition ASK_NAME :: int where "ASK_NAME = 0"
definition ASK_PHONE :: int where "ASK_PHONE = 1"
definition ASK_LEVEL :: int where "ASK_LEVEL = 2"
definition CONFIRM :: int where "CONFIRM = 3"
definition WAIT_TEXT_CMD :: int where "WAIT_TEXT_CMD = 0"
definition WAIT_CONFIRM :: int where "WAIT_CONFIRM = 1"
definition EVT_TITLE :: int where "EVT_TITLE = 10"
definition EVT_DATE :: int where "EVT_DATE = 11"
definition EVT_TIME :: int where "EVT_TIME = 12"
definition EVT_PLACE :: int where "EVT_PLACE = 13"
definition EVT_DESC :: int where "EVT_DESC = 14"
definition EVT_MAX :: int where "EVT_MAX = 15"
definition EVT_CONFIRM :: int where "EVT_CONFIRM = 16"
definition INFO_CATEGORY :: int where "INFO_CATEGORY = 20"
definition INFO_TITLE :: int where "INFO_TITLE = 21"
definition INFO_CONTENT :: int where "INFO_CONTENT = 22"
definition INFO_CONFIRM :: int where "INFO_CONFIRM = 23"
definition BC_TEXT :: int where "BC_TEXT = 50"
definition BC_CONFIRM :: int where "BC_CONFIRM = 51"

section \<open>Role guard (roles.py)\<close>

text \<open>The decorator: \<open>func\<close> is the wrapped handler with its update already applied.\<close>

definition require_role ::
  "UserRole list \<Rightarrow> (World \<Rightarrow> HandlerResult) \<Rightarrow> TgUser option \<Rightarrow> World \<Rightarrow> HandlerResult" where
  "require_role allowed func user_tg w =
     (case user_tg of
        None \<Rightarrow> (Inr None, w)
      | Some tg \<Rightarrow>
          (case get_user (w_db w) (tg_id tg) of
             None \<Rightarrow> (Inr None, reply MSG_please_start w)
           | Some u \<Rightarrow>
               if u_role u \<notin> set allowed then (Inr None, reply MSG_no_access w)
               else func (w\<lparr>w_user_data := (w_user_data w)\<lparr>db_user := Some u\<rparr>\<rparr>)))"

section \<open>User handlers (handlers/user.py)\<close>

definition cmd_start :: "TgUser \<Rightarrow> World \<Rightarrow> HandlerResult" where
  "cmd_start tg w =
     (let username = tg_username tg;
          full_name =
            (if tg_full_name tg \<noteq> [] then tg_full_name tg
             else if tg_first_name tg \<noteq> [] then tg_first_name tg
             else ''Unknown'')
      in (case upsert_user (w_db w) (tg_id tg) username full_name None of
            (Inl e, db1) \<Rightarrow> (Inl e, w\<lparr>w_db := db1\<rparr>)
          | (Inr user, db1) \<Rightarrow>
              (Inr None, reply (MSG_welcome (u_full_name user)) (w\<lparr>w_db := db1\<rparr>))))"

section \<open>Updates\<close>

text \<open>What the transport hands to a conversation: a text message that is not a command, a
  command (its name, as in \<open>CommandHandler("skip", ...)\<close>) or a button press with its
  \<open>query.data\<close>. The text carried is \<open>update.message.text.strip()\<close>, which is what every
  handler reads. A conversation looks for a handler among those of its current state, then
  among its fallbacks; \<open>None\<close> means that none matches and the update is left alone.\<close>

datatype Update = Message string | Command string string | Callback string

section \<open>Event registration (handlers/registration.py)\<close>

text \<open>\<open>event_id\<close> is \<open>int(query.data.split(":")[1])\<close>, a number by the pattern
  \<open>^reg_start:\<backslash>d+$\<close> of the entry point.\<close>

definition reg_start :: "int \<Rightarrow> TgUser \<Rightarrow> World \<Rightarrow> HandlerResult" where
  "reg_start event_id tg w =
     (case get_event (w_db w) event_id of
        None \<Rightarrow> (Inr (Some END), reply MSG_event_not_found w)
      | Some event \<Rightarrow>
          (if e_max_participants event > 0 \<and>
              count_event_registrations (w_db w) event_id \<ge> e_max_participants event
           then (Inr (Some END), reply (MSG_no_seats (e_title event)) w)
           else
             (let ud = (w_user_data w)\<lparr>reg_event_id := Some event_id,
                                         reg_event_title := Some (e_title event)\<rparr>
              in (case get_user (w_db w) (tg_id tg) of
                    None \<Rightarrow>
                      (Inr (Some ASK_NAME),
                       reply (MSG_reg_name_prompt (e_title event)) (w\<lparr>w_user_data := ud\<rparr>))
                  | Some user \<Rightarrow>
                      (if u_full_name user \<noteq> [] then
                         (Inr (Some ASK_NAME),
                          reply (MSG_reg_name_prefilled (e_title event) (u_full_name user))
                            (w\<lparr>w_user_data := ud\<lparr>reg_name := Some (u_full_name user)\<rparr>\<rparr>))
                       else
                         (Inr (Some ASK_NAME),
                          reply (MSG_reg_name_prompt (e_title event))
                            (w\<lparr>w_user_data := ud\<rparr>)))))))"

definition ask_name :: "string \<Rightarrow> World \<Rightarrow> HandlerResult" where
  "ask_name text w =
     (let w1 = (if text \<noteq> [] \<and> text \<noteq> ''/skip''
                then w\<lparr>w_user_data := (w_user_data w)\<lparr>reg_name := Some text\<rparr>\<rparr>
                else w)
      in (Inr (Some ASK_PHONE), reply MSG_ask_phone w1))"

definition ask_phone :: "string \<Rightarrow> World \<Rightarrow> HandlerResult" where
  "ask_phone text w =
     (let w1 = (if text \<noteq> [] \<and> text \<noteq> ''/skip''
                then w\<lparr>w_user_data := (w_user_data w)\<lparr>reg_phone := Some (Some text)\<rparr>\<rparr>
                else w\<lparr>w_user_data := (w_user_data w)\<lparr>reg_phone := Some None\<rparr>\<rparr>)
      in (Inr (Some ASK_LEVEL), reply MSG_ask_level w1))"

text \<open>\<open>x or filler\<close> inside a text: \<open>None\<close> stands for the filler, which replaces a
  missing and an empty value alike.\<close>

definition or_filler :: "string option \<Rightarrow> string option" where
  "or_filler x = (case x of None \<Rightarrow> None | Some s \<Rightarrow> if s = [] then None else Some s)"

text \<open>The confirmation text shows the name (a dash when the key is absent), the phone and
  the level (a filler when missing or empty) and the event title (default \<open>""\<close>).\<close>

definition ask_level :: "string \<Rightarrow> World \<Rightarrow> HandlerResult" where
  "ask_level text w =
     (let w1 = (if text \<noteq> [] \<and> text \<noteq> ''/skip''
                then w\<lparr>w_user_data := (w_user_data w)\<lparr>reg_level := Some (Some text)\<rparr>\<rparr>
                else w\<lparr>w_user_data := (w_user_data w)\<lparr>reg_level := Some None\<rparr>\<rparr>);
          ud = w_user_data w1;
          event_title = (case reg_event_title ud of None \<Rightarrow> [] | Some t \<Rightarrow> t)
      in (Inr (Some CONFIRM),
          reply (MSG_reg_confirm_prompt event_title (reg_name ud)
                   (or_filler (dict_get (reg_phone ud))) (or_filler (dict_get (reg_level ud))))
            w1))"

text \<open>\<open>confirm\<close>: the registration itself and the success text are inside the \<open>try\<close>, so a
  failure of either is logged and answered with the error text; \<open>user_data["reg_event_id"]\<close> is
  read before it.\<close>

definition confirm :: "string \<Rightarrow> TgUser \<Rightarrow> World \<Rightarrow> HandlerResult" where
  "confirm data tg w =
     (if data = ''reg_confirm:no'' then (Inr (Some END), reply MSG_reg_cancelled w)
      else
        (case reg_event_id (w_user_data w) of
           None \<Rightarrow> (Inl KeyError, w)
         | Some event_id \<Rightarrow>
             (let ud = w_user_data w;
                  name = (case reg_name ud of None \<Rightarrow> tg_full_name tg | Some n \<Rightarrow> n);
                  phone = dict_get (reg_phone ud);
                  level = dict_get (reg_level ud)
              in (case register_for_event (w_db w) event_id name (tg_username tg)
                         (Some (tg_id tg)) phone level None of
                    (Inl e, db1) \<Rightarrow>
                      (Inr (Some END),
                       reply MSG_reg_error (log_add LOG_registration_failed (w\<lparr>w_db := db1\<rparr>)))
                  | (Inr r, db1) \<Rightarrow>
                      (case reg_event_title ud of
                         None \<Rightarrow>
                           (Inr (Some END),
                            reply MSG_reg_error
                              (log_add LOG_registration_failed (w\<lparr>w_db := db1\<rparr>)))
                       | Some t \<Rightarrow>
                           (Inr (Some END), reply (MSG_registered t) (w\<lparr>w_db := db1\<rparr>)))))))"

definition cancel :: "World \<Rightarrow> HandlerResult" where
  "cancel w = (Inr (Some END), reply MSG_reg_cancelled w)"

text \<open>The \<open>ConversationHandler\<close> of \<open>register\<close>, from a state of the conversation.\<close>

definition registration_conv :: "TgUser \<Rightarrow> int \<Rightarrow> Update \<Rightarrow> World \<Rightarrow> HandlerResult option" where
  "registration_conv tg state upd w =
     (case upd of
        Message text \<Rightarrow>
          if state = ASK_NAME then Some (ask_name text w)
          else if state = ASK_PHONE then Some (ask_phone text w)
          else if state = ASK_LEVEL then Some (ask_level text w)
          else None
      | Command name text \<Rightarrow>
          if state = ASK_NAME \<and> name = ''skip'' then Some (ask_name text w)
          else if state = ASK_PHONE \<and> name = ''skip'' then Some (ask_phone text w)
          else if state = ASK_LEVEL \<and> name = ''skip'' then Some (ask_level text w)
          else if state \<in> {ASK_NAME, ASK_PHONE, ASK_LEVEL, CONFIRM} \<and> name = ''cancel''
          then Some (cancel w)
          else None
      | Callback data \<Rightarrow>
          if state = CONFIRM \<and> data \<in> {''reg_confirm:yes'', ''reg_confirm:no''}
          then Some (confirm data tg w)
          else None)"

section \<open>Super-admin handlers (handlers/super_admin.py)\<close>

text \<open>The fan-out loop that \<open>broadcast_confirm\<close> and the broadcast branch of
  \<open>_apply_approval\<close> both write out: one \<open>send_message\<close> per id, a failure swallowed by
  \<open>except Exception: pass\<close>, \<open>sent\<close> counting the deliveries.\<close>

fun broadcast_loop :: "Bot \<Rightarrow> int list \<Rightarrow> Text \<Rightarrow> nat \<Rightarrow> World \<Rightarrow> nat \<times> World" where
  "broadcast_loop bot_ok [] message sent w = (sent, w)"
| "broadcast_loop bot_ok (tid # ids) message sent w =
     (case send_message bot_ok tid message w of
        (Inr u, w1) \<Rightarrow> broadcast_loop bot_ok ids message (sent + 1) w1
      | (Inl e, w1) \<Rightarrow> broadcast_loop bot_ok ids message sent w1)"

text \<open>\<open>_apply_approval\<close>. \<open>req.payload_json or {}\<close> reads a missing payload as the empty
  dict. The \<open>scope\<close> the broadcast branch reads is never used.\<close>

definition apply_approval ::
  "Bot \<Rightarrow> (string \<Rightarrow> int option) \<Rightarrow> AdminRequest \<Rightarrow> World \<Rightarrow> (error + unit) \<times> World" where
  "apply_approval bot_ok int_of_str req w =
     (if q_request_type req = ''admin_access'' then
        (let (ok, db1) = set_user_role (w_db w) (q_username req) ADMIN;
             w1 = w\<lparr>w_db := db1\<rparr>
         in (case q_requested_table req of
               None \<Rightarrow> (Inr (), log_add (LOG_granted_admin (q_username req)) w1)
             | Some t \<Rightarrow>
                 (if t = [] then (Inr (), log_add (LOG_granted_admin (q_username req)) w1)
                  else
                    (case grant_table_access db1 (q_username req) t of
                       (Inl e, db2) \<Rightarrow> (Inl e, w1\<lparr>w_db := db2\<rparr>)
                     | (Inr u, db2) \<Rightarrow>
                         (Inr (),
                          log_add (LOG_granted_admin (q_username req)) (w1\<lparr>w_db := db2\<rparr>))))))
      else if q_request_type req \<in> {''event_creation'', ''event_activation''} then
        (let payload = (case q_payload_json req of None \<Rightarrow> [] | Some kv \<Rightarrow> kv)
         in (case map_of payload ''event_id'' of
               None \<Rightarrow> (Inr (), w)
             | Some event_id \<Rightarrow>
                 (if truthy event_id then
                    (case py_int int_of_str event_id of
                       Inl e \<Rightarrow> (Inl e, w)
                     | Inr n \<Rightarrow>
                         (let (ev, db1) = activate_event (w_db w) n
                          in (Inr (),
                              log_add (LOG_activated_event event_id) (w\<lparr>w_db := db1\<rparr>))))
                  else (Inr (), w))))
      else if q_request_type req = ''broadcast'' then
        (let payload = (case q_payload_json req of None \<Rightarrow> [] | Some kv \<Rightarrow> kv);
             message = (case map_of payload ''message'' of None \<Rightarrow> JStr [] | Some m \<Rightarrow> m)
         in if truthy message then
              let ids = get_all_telegram_ids (w_db w);
                  (sent, w1) = broadcast_loop bot_ok ids (Json message) 0 w
              in (Inr (), log_add (LOG_broadcast_sent sent (length ids)) w1)
            else (Inr (), w))
      else (Inr (), w))"

text \<open>The body of \<open>handle_request_decision\<close>. \<open>action\<close> and \<open>request_id\<close> are \<open>parts[1]\<close> and
  \<open>int(parts[2])\<close> of \<open>query.data\<close>, which the pattern \<open>^sa:(approve|reject):\<backslash>d+$\<close> lets
  through. \<open>MSG_decided\<close> and \<open>MSG_requester_notice\<close> carry \<open>True\<close> for the status text of an
  approval.\<close>

definition handle_request_decision_body ::
  "Bot \<Rightarrow> (string \<Rightarrow> int option) \<Rightarrow> string \<Rightarrow> int \<Rightarrow> World \<Rightarrow> HandlerResult" where
  "handle_request_decision_body bot_ok int_of_str action request_id w =
     (let reviewer = (case db_user (w_user_data w) of
                        None \<Rightarrow> Some ''super_admin''
                      | Some u \<Rightarrow> u_username u);
          (req, db1) = (if action = ''approve''
                        then approve_request (w_db w) request_id reviewer
                        else reject_request (w_db w) request_id reviewer);
          w1 = w\<lparr>w_db := db1\<rparr>
      in (case req of
            None \<Rightarrow> (Inr None, reply (MSG_already_handled request_id) w1)
          | Some r \<Rightarrow>
              (case (if action = ''approve'' then apply_approval bot_ok int_of_str r w1
                     else (Inr (), w1)) of
                 (Inl e, w2) \<Rightarrow> (Inl e, w2)
               | (Inr u, w2) \<Rightarrow>
                   (let w3 = reply (MSG_decided request_id (q_request_type r)
                                      (action = ''approve'') (q_username r)) w2
                    in (case q_telegram_id r of
                          None \<Rightarrow> (Inr None, w3)
                        | Some t \<Rightarrow>
                            (if t = 0 then (Inr None, w3)
                             else
                               (case send_message bot_ok t
                                       (MSG_requester_notice (q_id r) (q_request_type r)
                                          (action = ''approve'')) w3 of
                                  (Inl e, w4) \<Rightarrow>
                                    (Inr None, log_add (LOG_notify_requester_failed t) w4)
                                | (Inr u, w4) \<Rightarrow> (Inr None, w4))))))))"

definition handle_request_decision ::
  "Bot \<Rightarrow> (string \<Rightarrow> int option) \<Rightarrow> string \<Rightarrow> int \<Rightarrow> TgUser option \<Rightarrow> World \<Rightarrow> HandlerResult" where
  "handle_request_decision bot_ok int_of_str action request_id user_tg w =
     require_role [SUPER_ADMIN]
       (handle_request_decision_body bot_ok int_of_str action request_id) user_tg w"

definition broadcast_start :: "TgUser option \<Rightarrow> World \<Rightarrow> HandlerResult" where
  "broadcast_start user_tg w =
     require_role [SUPER_ADMIN] (\<lambda>w1. (Inr (Some BC_TEXT), reply MSG_bc_ask_text w1)) user_tg w"

definition broadcast_text :: "string \<Rightarrow> World \<Rightarrow> HandlerResult" where
  "broadcast_text text w =
     (Inr (Some BC_CONFIRM),
      reply (MSG_bc_confirm_prompt text)
        (w\<lparr>w_user_data := (w_user_data w)\<lparr>bc_text := Some text\<rparr>\<rparr>))"

definition broadcast_confirm :: "Bot \<Rightarrow> string \<Rightarrow> World \<Rightarrow> HandlerResult" where
  "broadcast_confirm bot_ok data w =
     (if data = ''bc_confirm:no'' then (Inr (Some END), reply MSG_bc_cancelled w)
      else
        let message = (case bc_text (w_user_data w) of None \<Rightarrow> [] | Some t \<Rightarrow> t);
            ids = get_all_telegram_ids (w_db w);
            (sent, w1) = broadcast_loop bot_ok ids (Plain message) 0 w
        in (Inr (Some END), reply (MSG_bc_sent sent (length ids)) w1))"

definition broadcast_cancel :: "World \<Rightarrow> HandlerResult" where
  "broadcast_cancel w = (Inr (Some END), reply MSG_bc_cancelled w)"

definition bc_conv :: "Bot \<Rightarrow> int \<Rightarrow> Update \<Rightarrow> World \<Rightarrow> HandlerResult option" where
  "bc_conv bot_ok state upd w =
     (case upd of
        Message text \<Rightarrow> if state = BC_TEXT then Some (broadcast_text text w) else None
      | Command name text \<Rightarrow>
          if state \<in> {BC_TEXT, BC_CONFIRM} \<and> name = ''cancel'' then Some (broadcast_cancel w)
          else None
      | Callback data \<Rightarrow>
          if state = BC_CONFIRM \<and> data \<in> {''bc_confirm:yes'', ''bc_confirm:no''}
          then Some (broadcast_confirm bot_ok data w)
          else None)"

section \<open>Admin handlers (handlers/admin.py)\<close>

subsection \<open>Manual event creation\<close>

text \<open>How \<open>date.fromisoformat\<close> and \<open>int\<close> read a string is not code of this repository:
  \<open>fromisoformat\<close> and \<open>int_of_str\<close> stand for them, \<open>None\<close> being their \<open>ValueError\<close>.\<close>

definition evt_start :: "TgUser option \<Rightarrow> World \<Rightarrow> HandlerResult" where
  "evt_start user_tg w =
     require_role [ADMIN, SUPER_ADMIN]
       (\<lambda>w1. (Inr (Some EVT_TITLE), reply MSG_evt_ask_title w1)) user_tg w"

definition evt_title_h :: "string \<Rightarrow> World \<Rightarrow> HandlerResult" where
  "evt_title_h text w =
     (Inr (Some EVT_DATE),
      reply MSG_evt_ask_date (w\<lparr>w_user_data := (w_user_data w)\<lparr>evt_title := Some text\<rparr>\<rparr>))"

definition evt_date_h :: "(string \<Rightarrow> date option) \<Rightarrow> string \<Rightarrow> World \<Rightarrow> HandlerResult" where
  "evt_date_h fromisoformat text w =
     (case fromisoformat text of
        None \<Rightarrow> (Inr (Some EVT_DATE), reply MSG_evt_bad_date w)
      | Some d \<Rightarrow>
          (Inr (Some EVT_TIME),
           reply MSG_evt_ask_time (w\<lparr>w_user_data := (w_user_data w)\<lparr>evt_date := Some d\<rparr>\<rparr>)))"

definition evt_time_h :: "string \<Rightarrow> World \<Rightarrow> HandlerResult" where
  "evt_time_h text w =
     (Inr (Some EVT_PLACE),
      reply MSG_evt_ask_place
        (w\<lparr>w_user_data :=
             (w_user_data w)\<lparr>evt_time := Some (if text \<noteq> ''/skip'' then Some text else None)\<rparr>\<rparr>))"

definition evt_place_h :: "string \<Rightarrow> World \<Rightarrow> HandlerResult" where
  "evt_place_h text w =
     (Inr (Some EVT_DESC),
      reply MSG_evt_ask_desc
        (w\<lparr>w_user_data :=
             (w_user_data w)\<lparr>evt_place := Some (if text \<noteq> ''/skip'' then Some text else None)\<rparr>\<rparr>))"

definition evt_desc_h :: "string \<Rightarrow> World \<Rightarrow> HandlerResult" where
  "evt_desc_h text w =
     (Inr (Some EVT_MAX),
      reply MSG_evt_ask_max
        (w\<lparr>w_user_data :=
             (w_user_data w)\<lparr>evt_desc := Some (if text \<noteq> ''/skip'' then Some text else None)\<rparr>\<rparr>))"

text \<open>\<open>evt_max\<close> stores the number first (0 for \<open>/skip\<close> and for a text that is no integer),
  then reads \<open>user_data["evt_title"]\<close> and \<open>user_data["evt_date"]\<close> for the confirmation
  text.\<close>

definition evt_max_h :: "(string \<Rightarrow> int option) \<Rightarrow> string \<Rightarrow> World \<Rightarrow> HandlerResult" where
  "evt_max_h int_of_str text w =
     (let m = (if text = ''/skip'' then 0
               else (case int_of_str text of None \<Rightarrow> 0 | Some n \<Rightarrow> n));
          w1 = w\<lparr>w_user_data := (w_user_data w)\<lparr>evt_max := Some m\<rparr>\<rparr>;
          ud = w_user_data w1
      in (case evt_title ud of
            None \<Rightarrow> (Inl KeyError, w1)
          | Some title \<Rightarrow>
              (case evt_date ud of
                 None \<Rightarrow> (Inl KeyError, w1)
               | Some d \<Rightarrow>
                   (Inr (Some EVT_CONFIRM),
                    reply (MSG_evt_confirm_prompt title d (or_filler (dict_get (evt_time ud)))
                             (or_filler (dict_get (evt_place ud)))) w1))))"

text \<open>The loop that tells every super-admin of a new request; a failed send is logged and
  the loop goes on.\<close>

fun notify_super_admins :: "Bot \<Rightarrow> int list \<Rightarrow> Text \<Rightarrow> World \<Rightarrow> World" where
  "notify_super_admins bot_ok [] text w = w"
| "notify_super_admins bot_ok (sa_id # sa_ids) text w =
     (case send_message bot_ok sa_id text w of
        (Inr u, w1) \<Rightarrow> notify_super_admins bot_ok sa_ids text w1
      | (Inl e, w1) \<Rightarrow>
          notify_super_admins bot_ok sa_ids text (log_add (LOG_notify_super_admin_failed sa_id) w1))"

text \<open>\<open>evt_confirm\<close>. The role it tests is that of \<open>user_data["db_user"]\<close>, the identity the
  role guard cached. \<open>username or str(db_user.telegram_id)\<close> names the requester.\<close>

definition evt_confirm :: "Bot \<Rightarrow> string \<Rightarrow> World \<Rightarrow> HandlerResult" where
  "evt_confirm bot_ok data w =
     (if data = ''evt_confirm:no'' then (Inr (Some END), reply MSG_evt_creation_cancelled w)
      else
        (let ud = w_user_data w;
             username = (case db_user ud of None \<Rightarrow> None | Some u \<Rightarrow> u_username u)
         in (case evt_title ud of
               None \<Rightarrow> (Inl KeyError, w)
             | Some title \<Rightarrow>
                 (case evt_date ud of
                    None \<Rightarrow> (Inl KeyError, w)
                  | Some d \<Rightarrow>
                      (case create_event (w_db w) title d None None (dict_get (evt_time ud))
                              (dict_get (evt_place ud)) (dict_get (evt_desc ud))
                              (case evt_max ud of None \<Rightarrow> 0 | Some m \<Rightarrow> m) PENDING username of
                         (Inl e, db1) \<Rightarrow> (Inl e, w\<lparr>w_db := db1\<rparr>)
                       | (Inr event, db1) \<Rightarrow>
                           (case db_user ud of
                              None \<Rightarrow> (Inl AttributeError, w\<lparr>w_db := db1\<rparr>)
                            | Some u \<Rightarrow>
                                (if u_role u = SUPER_ADMIN then
                                   (let (ev, db2) = activate_event db1 (e_id event)
                                    in (Inr (Some END),
                                        reply (MSG_evt_created_active (e_title event) (e_id event))
                                          (w\<lparr>w_db := db2\<rparr>)))
                                 else
                                   (case create_admin_request db1
                                           (case or_filler username of
                                              None \<Rightarrow> str_int (u_telegram_id u)
                                            | Some n \<Rightarrow> n)
                                           ''event_creation'' (Some (u_telegram_id u))
                                           (Some (u_full_name u)) None None
                                           (Some [(''event_id'', JInt (e_id event)),
                                                  (''event_title'', JStr (e_title event))])
                                           (Some (COMMENT_new_event (e_title event))) of
                                      (Inl e, db2) \<Rightarrow> (Inl e, w\<lparr>w_db := db2\<rparr>)
                                    | (Inr req, db2) \<Rightarrow>
                                        (Inr (Some END),
                                         reply (MSG_evt_created_pending (e_title event)
                                                  (e_id event))
                                           (notify_super_admins bot_ok (get_super_admin_ids db2)
                                              (MSG_evt_request_notice (q_id req) (e_title event)
                                                 (e_date_start event) (or_filler username))
                                              (w\<lparr>w_db := db2\<rparr>)))))))))))"

definition evt_cancel :: "World \<Rightarrow> HandlerResult" where
  "evt_cancel w = (Inr (Some END), reply MSG_evt_cancelled w)"

definition evt_conv ::
  "Bot \<Rightarrow> (string \<Rightarrow> date option) \<Rightarrow> (string \<Rightarrow> int option) \<Rightarrow> int \<Rightarrow> Update \<Rightarrow> World \<Rightarrow>
   HandlerResult option" where
  "evt_conv bot_ok fromisoformat int_of_str state upd w =
     (case upd of
        Message text \<Rightarrow>
          if state = EVT_TITLE then Some (evt_title_h text w)
          else if state = EVT_DATE then Some (evt_date_h fromisoformat text w)
          else if state = EVT_TIME then Some (evt_time_h text w)
          else if state = EVT_PLACE then Some (evt_place_h text w)
          else if state = EVT_DESC then Some (evt_desc_h text w)
          else if state = EVT_MAX then Some (evt_max_h int_of_str text w)
          else None
      | Command name text \<Rightarrow>
          if state = EVT_TIME \<and> name = ''skip'' then Some (evt_time_h text w)
          else if state = EVT_PLACE \<and> name = ''skip'' then Some (evt_place_h text w)
          else if state = EVT_DESC \<and> name = ''skip'' then Some (evt_desc_h text w)
          else if state = EVT_MAX \<and> name = ''skip'' then Some (evt_max_h int_of_str text w)
          else if state \<in> {EVT_TITLE, EVT_DATE, EVT_TIME, EVT_PLACE, EVT_DESC, EVT_MAX,
                             EVT_CONFIRM} \<and> name = ''cancel''
          then Some (evt_cancel w)
          else None
      | Callback data \<Rightarrow>
          if state = EVT_CONFIRM \<and> data \<in> {''evt_confirm:yes'', ''evt_confirm:no''}
          then Some (evt_confirm bot_ok data w)
          else None)"

subsection \<open>Info creation\<close>

definition info_start :: "TgUser option \<Rightarrow> World \<Rightarrow> HandlerResult" where
  "info_start user_tg w =
     require_role [ADMIN, SUPER_ADMIN]
       (\<lambda>w1. (Inr (Some INFO_CATEGORY), reply MSG_info_ask_category w1)) user_tg w"

definition info_category_h :: "string \<Rightarrow> World \<Rightarrow> HandlerResult" where
  "info_category_h text w =
     (Inr (Some INFO_TITLE),
      reply MSG_info_ask_title (w\<lparr>w_user_data := (w_user_data w)\<lparr>info_cat := Some text\<rparr>\<rparr>))"

definition info_title_h :: "string \<Rightarrow> World \<Rightarrow> HandlerResult" where
  "info_title_h text w =
     (Inr (Some INFO_CONTENT),
      reply MSG_info_ask_content (w\<lparr>w_user_data := (w_user_data w)\<lparr>info_title := Some text\<rparr>\<rparr>))"

definition info_content_h :: "string \<Rightarrow> World \<Rightarrow> HandlerResult" where
  "info_content_h text w =
     (let w1 = w\<lparr>w_user_data := (w_user_data w)\<lparr>info_content := Some text\<rparr>\<rparr>;
          ud = w_user_data w1
      in (case info_cat ud of
            None \<Rightarrow> (Inl KeyError, w1)
          | Some cat \<Rightarrow>
              (case info_title ud of
                 None \<Rightarrow> (Inl KeyError, w1)
               | Some title \<Rightarrow>
                   (Inr (Some INFO_CONFIRM),
                    reply (MSG_info_confirm_prompt cat title text) w1))))"

definition info_confirm :: "string \<Rightarrow> World \<Rightarrow> HandlerResult" where
  "info_confirm data w =
     (if data = ''info_confirm:no'' then (Inr (Some END), reply MSG_info_creation_cancelled w)
      else
        (let ud = w_user_data w
         in (case info_cat ud of
               None \<Rightarrow> (Inl KeyError, w)
             | Some cat \<Rightarrow>
                 (case info_title ud of
                    None \<Rightarrow> (Inl KeyError, w)
                  | Some title \<Rightarrow>
                      (case info_content ud of
                         None \<Rightarrow> (Inl KeyError, w)
                       | Some content \<Rightarrow>
                           (let (info_id, db1) = create_info (w_db w) cat title content
                            in (Inr (Some END),
                                reply (MSG_info_saved info_id) (w\<lparr>w_db := db1\<rparr>))))))))"

definition info_cancel :: "World \<Rightarrow> HandlerResult" where
  "info_cancel w = (Inr (Some END), reply MSG_info_cancelled w)"

definition info_conv :: "int \<Rightarrow> Update \<Rightarrow> World \<Rightarrow> HandlerResult option" where
  "info_conv state upd w =
     (case upd of
        Message text \<Rightarrow>
          if state = INFO_CATEGORY then Some (info_category_h text w)
          else if state = INFO_TITLE then Some (info_title_h text w)
          else if state = INFO_CONTENT then Some (info_content_h text w)
          else None
      | Command name text \<Rightarrow>
          if state \<in> {INFO_CATEGORY, INFO_TITLE, INFO_CONTENT, INFO_CONFIRM} \<and> name = ''cancel''
          then Some (info_cancel w)
          else None
      | Callback data \<Rightarrow>
          if state = INFO_CONFIRM \<and> data \<in> {''info_confirm:yes'', ''info_confirm:no''}
          then Some (info_confirm data w)
          else None)"

subsection \<open>Natural-language admin command\<close>

text \<open>Two parts of this flow are not modelled and stand as parameters: \<open>text_cmd_parse\<close>, which
  asks the language model, and \<open>execute\<close>, the dispatch on the parsed action that
  \<open>text_cmd_confirm\<close> runs once the actor has not declined. The key \<open>ai_cmd_result\<close>, which
  the first writes and the second reads, is theirs alone and has no field in \<open>UserData\<close>.\<close>

definition text_cmd_start :: "TgUser option \<Rightarrow> World \<Rightarrow> HandlerResult" where
  "text_cmd_start user_tg w =
     require_role [ADMIN, SUPER_ADMIN]
       (\<lambda>w1. (Inr (Some WAIT_TEXT_CMD), reply MSG_ai_ask_command w1)) user_tg w"

definition text_cmd_confirm :: "(World \<Rightarrow> HandlerResult) \<Rightarrow> string \<Rightarrow> World \<Rightarrow> HandlerResult" where
  "text_cmd_confirm execute data w =
     (if data = ''ai_confirm:no'' then (Inr (Some END), reply MSG_ai_cancelled w)
      else execute w)"

definition text_cmd_cancel :: "World \<Rightarrow> HandlerResult" where
  "text_cmd_cancel w = (Inr (Some END), reply MSG_ai_command_cancelled w)"

definition ai_conv ::
  "(string \<Rightarrow> World \<Rightarrow> HandlerResult) \<Rightarrow> (World \<Rightarrow> HandlerResult) \<Rightarrow> int \<Rightarrow> Update \<Rightarrow> World \<Rightarrow>
   HandlerResult option" where
  "ai_conv text_cmd_parse execute state upd w =
     (case upd of
        Message text \<Rightarrow> if state = WAIT_TEXT_CMD then Some (text_cmd_parse text w) else None
      | Command name text \<Rightarrow>
          if state \<in> {WAIT_TEXT_CMD, WAIT_CONFIRM} \<and> name = ''cancel''
          then Some (text_cmd_cancel w)
          else None
      | Callback data \<Rightarrow>
          if state = WAIT_CONFIRM \<and> data \<in> {''ai_confirm:yes'', ''ai_confirm:no''}
          then Some (text_cmd_confirm execute data w)
          else None)"

section \<open>Notions used in the statements\<close>

text \<open>Of the \<open>n\<close> sends that start at outbox position \<open>start\<close>, how many fail; and the outbox
  entries that one send per id of \<open>ids\<close>, in order, leaves.\<close>

definition failures :: "Bot \<Rightarrow> nat \<Rightarrow> nat \<Rightarrow> nat" where
  "failures bot_ok start n = length (filter (\<lambda>i. \<not> bot_ok (start + i)) [0..<n])"

definition attempts :: "Bot \<Rightarrow> nat \<Rightarrow> int list \<Rightarrow> Text \<Rightarrow> (int \<times> Text \<times> bool) list" where
  "attempts bot_ok start ids message =
     map (\<lambda>i. (ids ! i, message, bot_ok (start + i))) [0..<length ids]"

text \<open>A request id that still has a pending row; the ids of the request table are ones its
  sequence has handed out; and one write to the store, by any of its operations or by the
  clock.\<close>

definition pending_in :: "DB \<Rightarrow> int \<Rightarrow> bool" where
  "pending_in db request_id = list_ex (decide_guard request_id) (admin_requests db)"

definition requests_wf :: "DB \<Rightarrow> bool" where
  "requests_wf db = list_all (\<lambda>q. q_id q \<le> admin_requests_id_seq db) (admin_requests db)"

inductive db_step :: "DB \<Rightarrow> DB \<Rightarrow> bool" where
  step_upsert_user: "db_step db (snd (upsert_user db telegram_id username full_name phone))"
| step_set_user_role: "db_step db (snd (set_user_role db username role))"
| step_create_event:
    "db_step db (snd (create_event db title date_start type date_end time place description
                        max_participants status created_by))"
| step_update_event: "db_step db (snd (update_event db event_id flds))"
| step_delete_event: "db_step db (snd (delete_event db event_id))"
| step_register_for_event:
    "db_step db (snd (register_for_event db event_id full_name username telegram_id phone level
                        comment))"
| step_create_info: "db_step db (snd (create_info db category title content))"
| step_update_info: "db_step db (snd (update_info db info_id iflds))"
| step_delete_info: "db_step db (snd (delete_info db info_id))"
| step_create_admin_request:
    "db_step db (snd (create_admin_request db username request_type telegram_id full_name phone
                        requested_table payload_json comment))"
| step_approve_request: "db_step db (snd (approve_request db request_id reviewed_by))"
| step_reject_request: "db_step db (snd (reject_request db request_id reviewed_by))"
| step_grant_table_access: "db_step db (snd (grant_table_access db username table_name))"
| step_clock: "clock db \<le> t \<Longrightarrow> db_step db (db\<lparr>clock := t\<rparr>)"

text \<open>The ids of the event table are ones its sequence has handed out; the event row that
  \<open>evt_confirm\<close> inserts for the collected fields, and the request it files for it.\<close>

definition events_wf :: "DB \<Rightarrow> bool" where
  "events_wf db = list_all (\<lambda>e. e_id e \<le> events_id_seq db) (events db)"

definition submitted_event :: "World \<Rightarrow> string \<Rightarrow> date \<Rightarrow> string option \<Rightarrow> EventStatus \<Rightarrow> Event" where
  "submitted_event w title d username status =
     \<lparr>e_id = events_id_seq (w_db w) + 1, e_title = title, e_type = None, e_date_start = d,
        e_date_end = None, e_time = dict_get (evt_time (w_user_data w)),
        e_place = dict_get (evt_place (w_user_data w)),
        e_description = dict_get (evt_desc (w_user_data w)),
        e_max_participants = (case evt_max (w_user_data w) of None \<Rightarrow> 0 | Some m \<Rightarrow> m),
        e_status = status, e_created_by = username, e_created_at = clock (w_db w)\<rparr>"

definition creation_request :: "World \<Rightarrow> User \<Rightarrow> string \<Rightarrow> AdminRequest" where
  "creation_request w u title =
     \<lparr>q_id = admin_requests_id_seq (w_db w) + 1,
        q_username = (case or_filler (u_username u) of
                        None \<Rightarrow> str_int (u_telegram_id u)
                      | Some n \<Rightarrow> n),
        q_request_type = ''event_creation'', q_telegram_id = Some (u_telegram_id u),
        q_full_name = Some (u_full_name u), q_phone = None, q_requested_table = None,
        q_payload_json = Some [(''event_id'', JInt (events_id_seq (w_db w) + 1)),
                               (''event_title'', JStr title)],
        q_comment = Some (COMMENT_new_event title), q_status = REQ_PENDING,
        q_reviewed_by = None, q_created_at = clock (w_db w), q_reviewed_at = None\<rparr>"

text \<open>A world with the maximum of every event replaced; and the row that \<open>confirm\<close> inserts
  for an actor who has no registration for the event yet.\<close>

definition with_maximum :: "(Event \<Rightarrow> int) \<Rightarrow> World \<Rightarrow> World" where
  "with_maximum m w =
     w\<lparr>w_db := (w_db w)\<lparr>events := map (\<lambda>ev. ev\<lparr>e_max_participants := m ev\<rparr>)
                                      (events (w_db w))\<rparr>\<rparr>"

definition new_registration :: "World \<Rightarrow> TgUser \<Rightarrow> int \<Rightarrow> EventRegistration" where
  "new_registration w tg e =
     \<lparr>r_id = event_registrations_id_seq (w_db w) + 1, r_event_id = e,
        r_username = tg_username tg, r_telegram_id = Some (tg_id tg),
        r_full_name = (case reg_name (w_user_data w) of None \<Rightarrow> tg_full_name tg | Some n \<Rightarrow> n),
        r_phone = dict_get (reg_phone (w_user_data w)),
        r_level = dict_get (reg_level (w_user_data w)), r_comment = None,
        r_registered_at = clock (w_db w)\<rparr>"

section \<open>Example states\<close>

text \<open>A small store for the concrete instances below: a super-admin, an admin and a plain
  user without a username; one event with a single seat, taken by the plain user; the
  admin's pending request to have that event created.\<close>

definition empty_db :: DB where
  "empty_db = \<lparr>users = [], events = [], events_id_seq = 0, event_registrations = [],
     event_registrations_id_seq = 0, info = [], info_id_seq = 0, admin_requests = [],
     admin_requests_id_seq = 0, admin_table_access = [], clock = 0\<rparr>"

definition empty_user_data :: UserData where
  "empty_user_data = \<lparr>db_user = None, reg_event_id = None, reg_event_title = None,
     reg_name = None, reg_phone = None, reg_level = None, evt_title = None, evt_date = None,
     evt_time = None, evt_place = None, evt_desc = None, evt_max = None, info_cat = None,
     info_title = None, info_content = None, bc_text = None\<rparr>"

definition world_of :: "DB \<Rightarrow> UserData \<Rightarrow> World" where
  "world_of d ud = \<lparr>w_db = d, w_user_data = ud, w_outbox = [], w_replies = [], w_log = []\<rparr>"

definition alice :: User where
  "alice = \<lparr>u_telegram_id = 1, u_username = Some ''alice'', u_full_name = ''Alice'',
     u_phone = None, u_role = SUPER_ADMIN, u_created_at = 0\<rparr>"

definition bob :: User where
  "bob = \<lparr>u_telegram_id = 2, u_username = Some ''bob'', u_full_name = ''Bob'',
     u_phone = Some ''555'', u_role = ADMIN, u_created_at = 0\<rparr>"

definition carol :: User where
  "carol = \<lparr>u_telegram_id = 3, u_username = None, u_full_name = ''Carol'',
     u_phone = None, u_role = USER, u_created_at = 0\<rparr>"

definition camp :: Event where
  "camp = \<lparr>e_id = 1, e_title = ''Camp'', e_type = None, e_date_start = (2025, 1, 15),
     e_date_end = None, e_time = None, e_place = None, e_description = None,
     e_max_participants = 1, e_status = PENDING, e_created_by = Some ''bob'',
     e_created_at = 0\<rparr>"

definition carol_reg :: EventRegistration where
  "carol_reg = \<lparr>r_id = 1, r_event_id = 1, r_username = None, r_telegram_id = Some 3,
     r_full_name = ''Carol'', r_phone = None, r_level = None, r_comment = None,
     r_registered_at = 0\<rparr>"

definition camp_request :: AdminRequest where
  "camp_request = \<lparr>q_id = 1, q_username = ''bob'', q_request_type = ''event_creation'',
     q_telegram_id = Some 2, q_full_name = Some ''Bob'', q_phone = None,
     q_requested_table = None,
     q_payload_json = Some [(''event_id'', JInt 1), (''event_title'', JStr ''Camp'')],
     q_comment = Some (COMMENT_new_event ''Camp''), q_status = REQ_PENDING,
     q_reviewed_by = None, q_created_at = 0, q_reviewed_at = None\<rparr>"

definition example_db :: DB where
  "example_db = \<lparr>users = [alice, bob, carol], events = [camp], events_id_seq = 1,
     event_registrations = [carol_reg], event_registrations_id_seq = 1, info = [],
     info_id_seq = 0, admin_requests = [camp_request], admin_requests_id_seq = 1,
     admin_table_access = [], clock = 5\<rparr>"

definition flaky_bot :: Bot where
  "flaky_bot n = (n \<noteq> 0 \<and> n \<noteq> 2)"

definition hello_world :: World where
  "hello_world = world_of example_db (empty_user_data\<lparr>bc_text := Some ''Hello''\<rparr>)"


definition alice_tg :: TgUser where
  "alice_tg = \<lparr>tg_id = 1, tg_username = Some ''alice'', tg_full_name = ''Alice'',
     tg_first_name = ''Alice''\<rparr>"

definition approved_db :: DB where
  "approved_db = snd (approve_request example_db 1 (Some ''alice''))"

definition bob_tg :: TgUser where
  "bob_tg = \<lparr>tg_id = 2, tg_username = Some ''bob'', tg_full_name = ''Bob'',
     tg_first_name = ''Bob''\<rparr>"

definition carol_tg :: TgUser where
  "carol_tg = \<lparr>tg_id = 3, tg_username = None, tg_full_name = ''Carol'', tg_first_name = ''Carol''\<rparr>"

definition full_world :: World where
  "full_world = world_of example_db empty_user_data"

definition carol_confirm_world :: World where
  "carol_confirm_world =
     world_of example_db
       (empty_user_data\<lparr>reg_event_id := Some 1, reg_event_title := Some ''Camp'',
          reg_name := Some ''Carol C'', reg_phone := Some (Some ''777''), reg_level := Some None\<rparr>)"

definition open_world :: World where
  "open_world =
     world_of (example_db\<lparr>events := [camp\<lparr>e_max_participants := 0\<rparr>]\<rparr>) empty_user_data"

definition roomy_world :: World where
  "roomy_world =
     world_of (example_db\<lparr>events := [camp\<lparr>e_max_participants := 2\<rparr>]\<rparr>) empty_user_data"

text \<open>Readers to stand for \<open>int\<close> and \<open>date.fromisoformat\<close> in the concrete instances: ASCII
  decimals with an optional minus sign, and dates written \<open>YYYY-MM-DD\<close>.\<close>

fun read_nat :: "string \<Rightarrow> nat \<Rightarrow> nat option" where
  "read_nat [] acc = Some acc"
| "read_nat (c # cs) acc =
     (if 48 \<le> (of_char c :: nat) \<and> (of_char c :: nat) \<le> 57
      then read_nat cs (10 * acc + (of_char c - 48))
      else None)"

definition read_int :: "string \<Rightarrow> int option" where
  "read_int s =
     (case s of
        [] \<Rightarrow> None
      | c # cs \<Rightarrow>
          if c = CHR ''-'' then (if cs = [] then None else map_option (\<lambda>n. - int n) (read_nat cs 0))
          else map_option int (read_nat s 0))"

definition days_in_month :: "nat \<Rightarrow> nat \<Rightarrow> nat" where
  "days_in_month y m =
     (if m = 2 then (if y mod 4 = 0 \<and> (y mod 100 \<noteq> 0 \<or> y mod 400 = 0) then 29 else 28)
      else if m \<in> {4, 6, 9, 11} then 30 else 31)"

definition iso_date :: "string \<Rightarrow> date option" where
  "iso_date s =
     (if length s = 10 \<and> s ! 4 = CHR ''-'' \<and> s ! 7 = CHR ''-'' then
        (case (read_nat (take 4 s) 0, read_nat (take 2 (drop 5 s)) 0, read_nat (drop 8 s) 0) of
           (Some y, Some m, Some d) \<Rightarrow>
             if 1 \<le> y \<and> 1 \<le> m \<and> m \<le> 12 \<and> 1 \<le> d \<and> d \<le> days_in_month y m
             then Some (y, m, d) else None
         | _ \<Rightarrow> None)
      else None)"

definition evt_world :: World where
  "evt_world =
     world_of example_db
       (empty_user_data\<lparr>db_user := Some bob, evt_title := Some ''Bible School'',
          evt_date := Some (2025, 1, 15), evt_time := Some None, evt_place := Some None,
          evt_desc := Some None\<rparr>)"

definition evt_world_alice :: World where
  "evt_world_alice = evt_world\<lparr>w_user_data := (w_user_data evt_world)\<lparr>db_user := Some alice\<rparr>\<rparr>"

definition reliable_bot :: Bot where
  "reliable_bot n = True"

definition bare_db :: DB where
  "bare_db = example_db\<lparr>admin_requests := [camp_request\<lparr>q_payload_json := None\<rparr>]\<rparr>"

definition ghost_request :: AdminRequest where
  "ghost_request = \<lparr>q_id = 1, q_username = ''ghost'', q_request_type = ''admin_access'',
     q_telegram_id = Some 3, q_full_name = Some ''Carol'', q_phone = None,
     q_requested_table = Some ''events'', q_payload_json = None, q_comment = None,
     q_status = REQ_PENDING, q_reviewed_by = None, q_created_at = 0, q_reviewed_at = None\<rparr>"

definition ghost_db :: DB where
  "ghost_db = example_db\<lparr>admin_requests := [ghost_request]\<rparr>"

definition gone_db :: DB where
  "gone_db = example_db\<lparr>events := []\<rparr>"

definition bob_as_alice_tg :: TgUser where
  "bob_as_alice_tg = \<lparr>tg_id = 2, tg_username = Some ''alice'', tg_full_name = ''Robert'',
     tg_first_name = ''Robert''\<rparr>"

definition robert_tg :: TgUser where
  "robert_tg = \<lparr>tg_id = 2, tg_username = None, tg_full_name = ''Robert'',
     tg_first_name = ''Robert''\<rparr>"

definition roomy_confirm_world :: World where
  "roomy_confirm_world = carol_confirm_world\<lparr>w_db := w_db roomy_world\<rparr>"

definition bob_confirm_world :: World where
  "bob_confirm_world =
     world_of example_db
       (empty_user_data\<lparr>reg_event_id := Some 1, reg_event_title := Some ''Camp'',
          reg_name := Some ''Bob'', reg_phone := Some None, reg_level := Some None\<rparr>)"

definition big_max_world :: World where
  "big_max_world =
     evt_world\<lparr>w_user_data := (w_user_data evt_world)\<lparr>evt_max := Some 99999999999\<rparr>\<rparr>"

definition renamed_db :: DB where
  "renamed_db = snd (upsert_user example_db 2 (Some ''bobby'') ''Bob'' None)"

definition stale_world :: World where
  "stale_world = evt_world\<lparr>w_db := renamed_db\<rparr>"

section \<open>Broadcast delivery\<close>

lemmas fixture_defs = empty_db_def empty_user_data_def world_of_def alice_def bob_def carol_def
  camp_def carol_reg_def camp_request_def example_db_def


lemma failures_0: "failures bot_ok start 0 = 0"
  by (simp add: failures_def)

lemma upt_Suc_shift: "[0..<Suc n] = 0 # map Suc [0..<n]"
  by (simp add: upt_conv_Cons map_Suc_upt del: upt_Suc)

lemma failures_Suc:
  "failures bot_ok start (Suc n) = (if bot_ok start then 0 else 1) + failures bot_ok (Suc start) n"
  by (simp add: failures_def upt_Suc_shift filter_map o_def del: upt_Suc)

lemma failures_le: "failures bot_ok start n \<le> n"
  unfolding failures_def by (rule order_trans [OF length_filter_le]) simp

lemma attempts_Nil: "attempts bot_ok start [] message = []"
  by (simp add: attempts_def)

lemma attempts_Cons:
  "attempts bot_ok start (tid # ids) message =
     (tid, message, bot_ok start) # attempts bot_ok (Suc start) ids message"
  by (simp add: attempts_def upt_Suc_shift o_def del: upt_Suc)

lemma attempts_recipients: "map fst (attempts bot_ok start ids message) = ids"
  by (induction ids arbitrary: start) (simp_all add: attempts_Nil attempts_Cons)

lemma attempts_failed:
  "length (filter (\<lambda>a. \<not> snd (snd a)) (attempts bot_ok start ids message)) =
     failures bot_ok start (length ids)"
  by (induction ids arbitrary: start) (simp_all add: attempts_Nil attempts_Cons failures_0 failures_Suc)

lemma broadcast_loop_eq:
  "broadcast_loop bot_ok ids message sent w =
     (sent + (length ids - failures bot_ok (length (w_outbox w)) (length ids)),
      w\<lparr>w_outbox := w_outbox w @ attempts bot_ok (length (w_outbox w)) ids message\<rparr>)"
proof (induction ids arbitrary: sent w)
  case Nil
  show ?case by (simp add: failures_0 attempts_Nil)
next
  case (Cons tid ids)
  have le: "failures bot_ok (Suc (length (w_outbox w))) (length ids) \<le> length ids"
    by (rule failures_le)
  show ?case
  proof (cases "bot_ok (length (w_outbox w))")
    case True
    then show ?thesis
      using le by (simp add: send_message_def Cons.IH failures_Suc attempts_Cons Suc_diff_le)
  next
    case False
    then show ?thesis
      using le by (simp add: send_message_def Cons.IH failures_Suc attempts_Cons)
  qed
qed


text \<open>C6. Broadcast delivery sends to every recipient whatever fails: \<open>broadcast_confirm\<close>,
  once the actor has not declined, and the broadcast branch of \<open>_apply_approval\<close>, for a
  non-empty message, leave in the outbox exactly one attempt per id of
  \<open>get_all_telegram_ids\<close>, in order, and report \<open>sent = |R| - k\<close> and \<open>total = |R|\<close>, where
  \<open>k\<close> is the number of those attempts that failed, for every function \<open>bot_ok\<close> that says
  which attempts fail.\<close>

theorem broadcast_tally:
  fixes bot_ok :: Bot and w :: World and req :: AdminRequest
  defines "ids \<equiv> get_all_telegram_ids (w_db w)"
    and "start \<equiv> length (w_outbox w)"
    and "payload \<equiv> (case q_payload_json req of None \<Rightarrow> [] | Some kv \<Rightarrow> kv)"
    and "text \<equiv> (case bc_text (w_user_data w) of None \<Rightarrow> [] | Some t \<Rightarrow> t)"
  shows
    "(data \<noteq> ''bc_confirm:no'' \<longrightarrow>
        broadcast_confirm bot_ok data w =
          (Inr (Some END),
           reply (MSG_bc_sent (length ids - failures bot_ok start (length ids)) (length ids))
             (w\<lparr>w_outbox := w_outbox w @ attempts bot_ok start ids (Plain text)\<rparr>))) \<and>
     (q_request_type req = ''broadcast'' \<and> map_of payload ''message'' = Some m \<and> truthy m \<longrightarrow>
        apply_approval bot_ok int_of_str req w =
          (Inr (),
           log_add (LOG_broadcast_sent (length ids - failures bot_ok start (length ids))
                      (length ids))
             (w\<lparr>w_outbox := w_outbox w @ attempts bot_ok start ids (Json m)\<rparr>))) \<and>
     map fst (attempts bot_ok start ids message) = ids \<and>
     length (filter (\<lambda>a. \<not> snd (snd a)) (attempts bot_ok start ids message)) =
       failures bot_ok start (length ids)"
proof (intro conjI impI)
  assume "data \<noteq> ''bc_confirm:no''"
  then show "broadcast_confirm bot_ok data w =
          (Inr (Some END),
           reply (MSG_bc_sent (length ids - failures bot_ok start (length ids)) (length ids))
             (w\<lparr>w_outbox := w_outbox w @ attempts bot_ok start ids (Plain text)\<rparr>))"
    by (simp add: broadcast_confirm_def broadcast_loop_eq ids_def start_def text_def Let_def)
next
  assume "q_request_type req = ''broadcast'' \<and> map_of payload ''message'' = Some m \<and> truthy m"
  then show "apply_approval bot_ok int_of_str req w =
          (Inr (),
           log_add (LOG_broadcast_sent (length ids - failures bot_ok start (length ids))
                      (length ids))
             (w\<lparr>w_outbox := w_outbox w @ attempts bot_ok start ids (Json m)\<rparr>))"
    by (simp add: apply_approval_def broadcast_loop_eq ids_def start_def payload_def Let_def)
next
  show "map fst (attempts bot_ok start ids message) = ids"
    by (rule attempts_recipients)
next
  show "length (filter (\<lambda>a. \<not> snd (snd a)) (attempts bot_ok start ids message)) =
       failures bot_ok start (length ids)"
    by (rule attempts_failed)
qed

theorem broadcast_tally_witness:
  "broadcast_confirm flaky_bot ''bc_confirm:yes'' hello_world =
     (Inr (Some END),
      reply (MSG_bc_sent 1 3)
        (hello_world\<lparr>w_outbox := [(1, Plain ''Hello'', False), (2, Plain ''Hello'', True),
                                  (3, Plain ''Hello'', False)]\<rparr>))"
proof -
  have accept: "''bc_confirm:yes'' \<noteq> ''bc_confirm:no''"
    by simp
  have ids: "get_all_telegram_ids (w_db hello_world) = [1, 2, 3]"
    by (simp add: hello_world_def fixture_defs get_all_telegram_ids_def)
  have out: "w_outbox hello_world = []"
    by (simp add: hello_world_def fixture_defs)
  have bct: "bc_text (w_user_data hello_world) = Some ''Hello''"
    by (simp add: hello_world_def fixture_defs)
  note broadcast_tally [THEN conjunct1, rule_format, OF accept, of flaky_bot hello_world]
  also have "(Inr (Some END),
      reply (MSG_bc_sent
               (length (get_all_telegram_ids (w_db hello_world)) -
                failures flaky_bot (length (w_outbox hello_world))
                  (length (get_all_telegram_ids (w_db hello_world))))
               (length (get_all_telegram_ids (w_db hello_world))))
        (hello_world\<lparr>w_outbox := w_outbox hello_world @
           attempts flaky_bot (length (w_outbox hello_world))
             (get_all_telegram_ids (w_db hello_world))
             (Plain (case bc_text (w_user_data hello_world) of None \<Rightarrow> [] | Some t \<Rightarrow> t))\<rparr>)) =
     (Inr (Some END),
      reply (MSG_bc_sent 1 3)
        (hello_world\<lparr>w_outbox := [(1, Plain ''Hello'', False), (2, Plain ''Hello'', True),
                                  (3, Plain ''Hello'', False)]\<rparr>))"
    by (simp add: ids out bct failures_def attempts_def flaky_bot_def upt_rec numeral_3_eq_3)
  finally show ?thesis .
qed

section \<open>Approval decisions\<close>

subsection \<open>Lists\<close>

lemma find_map_same:
  assumes "\<And>x. P (f x) = P x"
  shows "find P (map f xs) = map_option f (find P xs)"
  using assms by (induction xs) auto

lemma map_if_id:
  assumes "\<not> list_ex P xs"
  shows "map (\<lambda>x. if P x then f x else x) xs = xs"
  using assms by (induction xs) auto

lemma find_None_list_ex: "find P xs = None \<longleftrightarrow> \<not> list_ex P xs"
  by (induction xs) auto

lemma find_append_Some: "find P xs = Some x \<Longrightarrow> find P (xs @ ys) = Some x"
  by (induction xs) (auto split: if_splits)

subsection \<open>What each operation does to the request table\<close>

lemma requests_upsert_user:
  "admin_requests (snd (upsert_user db t un fn ph)) = admin_requests db \<and>
   admin_requests_id_seq (snd (upsert_user db t un fn ph)) = admin_requests_id_seq db"
  by (simp add: upsert_user_def cascade_username_def Let_def split: option.splits)

lemma requests_set_user_role:
  "admin_requests (snd (set_user_role db un r)) = admin_requests db \<and>
   admin_requests_id_seq (snd (set_user_role db un r)) = admin_requests_id_seq db"
  by (simp add: set_user_role_def)

lemma requests_create_event:
  "admin_requests (snd (create_event db a b c d e f g h i j)) = admin_requests db \<and>
   admin_requests_id_seq (snd (create_event db a b c d e f g h i j)) = admin_requests_id_seq db"
  by (simp add: create_event_def Let_def split: option.splits)

lemma requests_update_event:
  "admin_requests (snd (update_event db eid flds)) = admin_requests db \<and>
   admin_requests_id_seq (snd (update_event db eid flds)) = admin_requests_id_seq db"
  by (simp add: update_event_def Let_def)

lemma requests_delete_event:
  "admin_requests (snd (delete_event db eid)) = admin_requests db \<and>
   admin_requests_id_seq (snd (delete_event db eid)) = admin_requests_id_seq db"
  by (simp add: delete_event_def)

lemma requests_update_info:
  "admin_requests (snd (update_info db iid iflds)) = admin_requests db \<and>
   admin_requests_id_seq (snd (update_info db iid iflds)) = admin_requests_id_seq db"
  by (simp add: update_info_def)

lemma requests_delete_info:
  "admin_requests (snd (delete_info db iid)) = admin_requests db \<and>
   admin_requests_id_seq (snd (delete_info db iid)) = admin_requests_id_seq db"
  by (simp add: delete_info_def)

lemma requests_register_for_event:
  "admin_requests (snd (register_for_event db a b c d e f g)) = admin_requests db \<and>
   admin_requests_id_seq (snd (register_for_event db a b c d e f g)) = admin_requests_id_seq db"
  by (simp add: register_for_event_def Let_def split: option.splits)

lemma requests_create_info:
  "admin_requests (snd (create_info db a b c)) = admin_requests db \<and>
   admin_requests_id_seq (snd (create_info db a b c)) = admin_requests_id_seq db"
  by (simp add: create_info_def Let_def)

lemma requests_grant_table_access:
  "admin_requests (snd (grant_table_access db a b)) = admin_requests db \<and>
   admin_requests_id_seq (snd (grant_table_access db a b)) = admin_requests_id_seq db"
  by (simp add: grant_table_access_def)

lemma same_requests:
  assumes "admin_requests db' = admin_requests db \<and> admin_requests_id_seq db' = admin_requests_id_seq db"
  shows "requests_wf db' = requests_wf db" and "pending_in db' rid = pending_in db rid"
    and "get_request db' rid = get_request db rid"
  using assms by (simp_all add: requests_wf_def pending_in_def get_request_def)

lemma decide_rows:
  assumes id: "\<And>q. q_id (upd q) = q_id q" and st: "\<And>q. q_status (upd q) \<noteq> REQ_PENDING"
  shows "list_all (\<lambda>q. q_id q \<le> n) rows \<Longrightarrow>
           list_all (\<lambda>q. q_id q \<le> n) (map (\<lambda>q. if decide_guard r' q then upd q else q) rows)"
    and "\<not> list_ex (decide_guard r) rows \<Longrightarrow>
           \<not> list_ex (decide_guard r) (map (\<lambda>q. if decide_guard r' q then upd q else q) rows)"
    and "\<not> list_ex (decide_guard r) rows \<Longrightarrow>
           map_option q_status
             (find (\<lambda>q. q_id q = r) (map (\<lambda>q. if decide_guard r' q then upd q else q) rows)) =
           map_option q_status (find (\<lambda>q. q_id q = r) rows)"
    and "\<not> list_ex (decide_guard r') (map (\<lambda>q. if decide_guard r' q then upd q else q) rows)"
proof -
  show "list_all (\<lambda>q. q_id q \<le> n) rows \<Longrightarrow>
           list_all (\<lambda>q. q_id q \<le> n) (map (\<lambda>q. if decide_guard r' q then upd q else q) rows)"
    by (induction rows) (simp_all add: id)
  show "\<not> list_ex (decide_guard r) rows \<Longrightarrow>
           \<not> list_ex (decide_guard r) (map (\<lambda>q. if decide_guard r' q then upd q else q) rows)"
    by (induction rows) (simp_all add: decide_guard_def id st)
  show "\<not> list_ex (decide_guard r) rows \<Longrightarrow>
           map_option q_status
             (find (\<lambda>q. q_id q = r) (map (\<lambda>q. if decide_guard r' q then upd q else q) rows)) =
           map_option q_status (find (\<lambda>q. q_id q = r) rows)"
    by (induction rows) (auto simp: decide_guard_def id)
  show "\<not> list_ex (decide_guard r') (map (\<lambda>q. if decide_guard r' q then upd q else q) rows)"
    by (induction rows) (simp_all add: decide_guard_def id st)
qed

lemma approve_request_rows:
  "admin_requests (snd (approve_request db r' rv)) =
     map (\<lambda>q. if decide_guard r' q
               then q\<lparr>q_status := APPROVED, q_reviewed_by := rv, q_reviewed_at := Some (clock db)\<rparr>
               else q) (admin_requests db) \<and>
   admin_requests_id_seq (snd (approve_request db r' rv)) = admin_requests_id_seq db"
  by (simp add: approve_request_def Let_def)

lemma reject_request_rows:
  "admin_requests (snd (reject_request db r' rv)) =
     map (\<lambda>q. if decide_guard r' q
               then q\<lparr>q_status := REJECTED, q_reviewed_by := rv, q_reviewed_at := Some (clock db)\<rparr>
               else q) (admin_requests db) \<and>
   admin_requests_id_seq (snd (reject_request db r' rv)) = admin_requests_id_seq db"
  by (simp add: reject_request_def Let_def)

lemma find_in_set: "find P xs = Some x \<Longrightarrow> x \<in> set xs \<and> P x"
  by (induction xs) (auto split: if_splits)

lemma decided_create_admin_request:
  assumes wf: "requests_wf db" and np: "\<not> pending_in db r"
    and g: "map_option q_status (get_request db r) = Some s"
  shows "requests_wf (snd (create_admin_request db a b c d e f p k)) \<and>
         \<not> pending_in (snd (create_admin_request db a b c d e f p k)) r \<and>
         map_option q_status (get_request (snd (create_admin_request db a b c d e f p k)) r) = Some s"
proof -
  from g obtain q where q: "find (\<lambda>q. q_id q = r) (admin_requests db) = Some q" "q_status q = s"
    by (auto simp: get_request_def)
  from find_in_set [OF q(1)] wf have le: "r \<le> admin_requests_id_seq db"
    by (auto simp: requests_wf_def list_all_iff)
  have mono: "list_all (\<lambda>q. q_id q \<le> admin_requests_id_seq db + 1) (admin_requests db)"
    using wf by (auto simp: requests_wf_def list_all_iff)
  show ?thesis
    using np le mono q
    by (auto simp: create_admin_request_def Let_def requests_wf_def pending_in_def
        get_request_def decide_guard_def find_append_Some split: option.splits)
qed

lemma decided_step:
  assumes step: "db_step db db'" and wf: "requests_wf db" and np: "\<not> pending_in db r"
    and g: "map_option q_status (get_request db r) = Some s"
  shows "requests_wf db' \<and> \<not> pending_in db' r \<and>
         map_option q_status (get_request db' r) = Some s"
  using step
proof cases
  case (step_upsert_user telegram_id username full_name phone)
  show ?thesis
    unfolding step_upsert_user using wf np g by (simp add: same_requests [OF requests_upsert_user])
next
  case (step_set_user_role username role)
  show ?thesis
    unfolding step_set_user_role using wf np g
    by (simp add: same_requests [OF requests_set_user_role])
next
  case (step_create_event title date_start type date_end time place description
      max_participants status created_by)
  show ?thesis
    unfolding step_create_event using wf np g
    by (simp add: same_requests [OF requests_create_event])
next
  case (step_update_event event_id flds)
  show ?thesis
    unfolding step_update_event using wf np g
    by (simp add: same_requests [OF requests_update_event])
next
  case (step_delete_event event_id)
  show ?thesis
    unfolding step_delete_event using wf np g
    by (simp add: same_requests [OF requests_delete_event])
next
  case (step_register_for_event event_id full_name username telegram_id phone level comment)
  show ?thesis
    unfolding step_register_for_event using wf np g
    by (simp add: same_requests [OF requests_register_for_event])
next
  case (step_update_info info_id iflds)
  show ?thesis
    unfolding step_update_info using wf np g
    by (simp add: same_requests [OF requests_update_info])
next
  case (step_delete_info info_id)
  show ?thesis
    unfolding step_delete_info using wf np g
    by (simp add: same_requests [OF requests_delete_info])
next
  case (step_create_info category title content)
  show ?thesis
    unfolding step_create_info using wf np g
    by (simp add: same_requests [OF requests_create_info])
next
  case (step_create_admin_request username request_type telegram_id full_name phone
      requested_table payload_json comment)
  show ?thesis
    unfolding step_create_admin_request by (rule decided_create_admin_request [OF wf np g])
next
  case (step_approve_request request_id reviewed_by)
  show ?thesis
    unfolding step_approve_request using wf np g
    by (simp add: requests_wf_def pending_in_def get_request_def approve_request_rows
        decide_rows)
next
  case (step_reject_request request_id reviewed_by)
  show ?thesis
    unfolding step_reject_request using wf np g
    by (simp add: requests_wf_def pending_in_def get_request_def reject_request_rows
        decide_rows)
next
  case (step_grant_table_access username table_name)
  show ?thesis
    unfolding step_grant_table_access using wf np g
    by (simp add: same_requests [OF requests_grant_table_access])
next
  case (step_clock t)
  show ?thesis
    unfolding step_clock using wf np g
    by (simp add: requests_wf_def pending_in_def get_request_def)
qed

lemma decided_steps:
  assumes steps: "db_step\<^sup>*\<^sup>* db db'" and wf: "requests_wf db" and np: "\<not> pending_in db r"
    and g: "map_option q_status (get_request db r) = Some s"
  shows "requests_wf db' \<and> \<not> pending_in db' r \<and>
         map_option q_status (get_request db' r) = Some s"
  using steps
proof (induction rule: rtranclp_induct)
  case base
  show ?case using wf np g by simp
next
  case (step y z)
  from step.IH have "requests_wf y" and "\<not> pending_in y r"
    and "map_option q_status (get_request y r) = Some s"
    by simp_all
  with step.hyps(2) show ?case by (rule decided_step)
qed

subsection \<open>Identifiers come from the sequences\<close>

text \<open>Every store reached from the empty one by the operations of the store has the
  identifiers of its requests and events below their sequences: \<open>requests_wf\<close> and
  \<open>events_wf\<close>, which some statements below assume, hold of all of them.\<close>

lemma set_field_id: "e_id (set_field f e) = e_id e"
  by (cases f) simp_all

lemma fold_set_field_id: "e_id (fold set_field flds e) = e_id e"
  by (induction flds arbitrary: e) (simp_all add: set_field_id)

lemma events_wf_step:
  assumes step: "db_step db db'" and wf: "events_wf db"
  shows "events_wf db'"
  using step
proof cases
  case (step_upsert_user telegram_id username full_name phone)
  show ?thesis
    unfolding step_upsert_user using wf
    by (auto simp: events_wf_def upsert_user_def cascade_username_def Let_def list_all_iff
        split: option.splits)
next
  case (step_set_user_role username role)
  show ?thesis
    unfolding step_set_user_role using wf by (simp add: events_wf_def set_user_role_def)
next
  case (step_create_event title date_start type date_end time place description
      max_participants status created_by)
  show ?thesis
    unfolding step_create_event using wf
    by (auto simp: events_wf_def create_event_def Let_def list_all_iff split: option.splits)
next
  case (step_update_event event_id flds)
  show ?thesis
    unfolding step_update_event using wf
    by (auto simp: events_wf_def update_event_def Let_def list_all_iff fold_set_field_id)
next
  case (step_delete_event event_id)
  show ?thesis
    unfolding step_delete_event using wf
    by (auto simp: events_wf_def delete_event_def list_all_iff)
next
  case (step_register_for_event event_id full_name username telegram_id phone level comment)
  show ?thesis
    unfolding step_register_for_event using wf
    by (auto simp: events_wf_def register_for_event_def Let_def split: option.splits)
next
  case (step_create_info category title content)
  show ?thesis
    unfolding step_create_info using wf by (simp add: events_wf_def create_info_def Let_def)
next
  case (step_update_info info_id iflds)
  show ?thesis
    unfolding step_update_info using wf by (simp add: events_wf_def update_info_def)
next
  case (step_delete_info info_id)
  show ?thesis
    unfolding step_delete_info using wf by (simp add: events_wf_def delete_info_def)
next
  case (step_create_admin_request username request_type telegram_id full_name phone
      requested_table payload_json comment)
  show ?thesis
    unfolding step_create_admin_request using wf
    by (simp add: events_wf_def create_admin_request_def Let_def)
next
  case (step_approve_request request_id reviewed_by)
  show ?thesis
    unfolding step_approve_request using wf by (simp add: events_wf_def approve_request_def Let_def)
next
  case (step_reject_request request_id reviewed_by)
  show ?thesis
    unfolding step_reject_request using wf by (simp add: events_wf_def reject_request_def Let_def)
next
  case (step_grant_table_access username table_name)
  show ?thesis
    unfolding step_grant_table_access using wf by (simp add: events_wf_def grant_table_access_def)
next
  case (step_clock t)
  show ?thesis
    unfolding step_clock using wf by (simp add: events_wf_def)
qed

lemma requests_wf_step:
  assumes step: "db_step db db'" and wf: "requests_wf db"
  shows "requests_wf db'"
  using step
proof cases
  case (step_upsert_user telegram_id username full_name phone)
  show ?thesis
    unfolding step_upsert_user using wf by (simp add: same_requests [OF requests_upsert_user])
next
  case (step_set_user_role username role)
  show ?thesis
    unfolding step_set_user_role using wf by (simp add: same_requests [OF requests_set_user_role])
next
  case (step_create_event title date_start type date_end time place description
      max_participants status created_by)
  show ?thesis
    unfolding step_create_event using wf by (simp add: same_requests [OF requests_create_event])
next
  case (step_update_event event_id flds)
  show ?thesis
    unfolding step_update_event using wf by (simp add: same_requests [OF requests_update_event])
next
  case (step_delete_event event_id)
  show ?thesis
    unfolding step_delete_event using wf by (simp add: same_requests [OF requests_delete_event])
next
  case (step_register_for_event event_id full_name username telegram_id phone level comment)
  show ?thesis
    unfolding step_register_for_event using wf
    by (simp add: same_requests [OF requests_register_for_event])
next
  case (step_create_info category title content)
  show ?thesis
    unfolding step_create_info using wf by (simp add: same_requests [OF requests_create_info])
next
  case (step_update_info info_id iflds)
  show ?thesis
    unfolding step_update_info using wf by (simp add: same_requests [OF requests_update_info])
next
  case (step_delete_info info_id)
  show ?thesis
    unfolding step_delete_info using wf by (simp add: same_requests [OF requests_delete_info])
next
  case (step_create_admin_request username request_type telegram_id full_name phone
      requested_table payload_json comment)
  show ?thesis
    unfolding step_create_admin_request using wf
    by (auto simp: requests_wf_def create_admin_request_def Let_def list_all_iff
        split: option.splits)
next
  case (step_approve_request request_id reviewed_by)
  show ?thesis
    unfolding step_approve_request using wf
    by (simp add: requests_wf_def approve_request_rows decide_rows)
next
  case (step_reject_request request_id reviewed_by)
  show ?thesis
    unfolding step_reject_request using wf
    by (simp add: requests_wf_def reject_request_rows decide_rows)
next
  case (step_grant_table_access username table_name)
  show ?thesis
    unfolding step_grant_table_access using wf
    by (simp add: same_requests [OF requests_grant_table_access])
next
  case (step_clock t)
  show ?thesis
    unfolding step_clock using wf by (simp add: requests_wf_def)
qed

lemma wf_reachable:
  assumes "db_step\<^sup>*\<^sup>* empty_db db"
  shows "requests_wf db \<and> events_wf db"
  using assms
proof (induction rule: rtranclp_induct)
  case base
  show ?case by (simp add: requests_wf_def events_wf_def empty_db_def)
next
  case (step y z)
  from step.hyps(2) step.IH show ?case
    by (simp add: requests_wf_step events_wf_step)
qed

subsection \<open>Decisions\<close>

lemma decide_not_pending:
  assumes "\<not> pending_in db r"
  shows "approve_request db r rv = (None, db)" and "reject_request db r rv = (None, db)"
  using assms
  by (simp_all add: approve_request_def reject_request_def pending_in_def Let_def map_if_id
      find_None_list_ex [THEN iffD2])

lemma handle_decided:
  assumes np: "\<not> pending_in (w_db w) r" and u: "get_user (w_db w) (tg_id tg) = Some u"
    and sa: "u_role u = SUPER_ADMIN"
  shows "handle_request_decision bot_ok int_of_str action r (Some tg) w =
           (Inr None,
            reply (MSG_already_handled r) (w\<lparr>w_user_data := (w_user_data w)\<lparr>db_user := Some u\<rparr>\<rparr>))"
  using u sa
  by (simp add: handle_request_decision_def require_role_def handle_request_decision_body_def
      decide_not_pending [OF np] Let_def)

lemma decide_returns:
  assumes "find (decide_guard r) rows = Some q"
  shows "q_id q = r \<and> upd q \<in> set (map (\<lambda>q. if decide_guard r q then upd q else q) rows)"
  using find_in_set [OF assms] by (auto simp: decide_guard_def)

text \<open>C1. A decision succeeds exactly when the request is still pending, and then returns
  the updated row, which carries the request id, the new status and the reviewer and is in
  the table. After either decision no row of that id is pending. On a request that is not
  pending, \<open>approve_request\<close> and \<open>reject_request\<close> return no record and leave the store as
  it is, and \<open>handle_request_decision\<close>, called by a super-admin, answers with the
  already-handled text and changes nothing but the cached identity. Through any further
  writes to the store the request stays not pending and keeps its status.\<close>

theorem decision_at_most_once:
  "(fst (approve_request db r rv) \<noteq> None \<longleftrightarrow> pending_in db r) \<and>
   (fst (reject_request db r rv) \<noteq> None \<longleftrightarrow> pending_in db r) \<and>
   (\<forall>q. fst (approve_request db r rv) = Some q \<longrightarrow>
      q_id q = r \<and> q_status q = APPROVED \<and> q_reviewed_by q = rv \<and>
      q \<in> set (admin_requests (snd (approve_request db r rv)))) \<and>
   (\<forall>q. fst (reject_request db r rv) = Some q \<longrightarrow>
      q_id q = r \<and> q_status q = REJECTED \<and> q_reviewed_by q = rv \<and>
      q \<in> set (admin_requests (snd (reject_request db r rv)))) \<and>
   \<not> pending_in (snd (approve_request db r rv)) r \<and>
   \<not> pending_in (snd (reject_request db r rv)) r \<and>
   (\<not> pending_in db r \<longrightarrow>
      approve_request db r rv = (None, db) \<and> reject_request db r rv = (None, db)) \<and>
   (\<not> pending_in (w_db w) r \<and> get_user (w_db w) (tg_id tg) = Some u \<and>
    u_role u = SUPER_ADMIN \<longrightarrow>
      handle_request_decision bot_ok int_of_str action r (Some tg) w =
        (Inr None,
         reply (MSG_already_handled r)
           (w\<lparr>w_user_data := (w_user_data w)\<lparr>db_user := Some u\<rparr>\<rparr>))) \<and>
   (requests_wf db \<and> \<not> pending_in db r \<and>
    map_option q_status (get_request db r) = Some s \<and> db_step\<^sup>*\<^sup>* db db' \<longrightarrow>
      requests_wf db' \<and> \<not> pending_in db' r \<and>
      map_option q_status (get_request db' r) = Some s)"
proof (intro conjI allI impI)
  show "(fst (approve_request db r rv) \<noteq> None) = pending_in db r"
    by (simp add: approve_request_def Let_def pending_in_def find_None_list_ex)
  show "(fst (reject_request db r rv) \<noteq> None) = pending_in db r"
    by (simp add: reject_request_def Let_def pending_in_def find_None_list_ex)
next
  fix q
  assume a: "fst (approve_request db r rv) = Some q"
  then obtain q0 where q0: "find (decide_guard r) (admin_requests db) = Some q0"
    and q: "q = q0\<lparr>q_status := APPROVED, q_reviewed_by := rv, q_reviewed_at := Some (clock db)\<rparr>"
    by (auto simp: approve_request_def Let_def)
  note dr = decide_returns [OF q0, where upd = "\<lambda>q. q\<lparr>q_status := APPROVED, q_reviewed_by := rv,
    q_reviewed_at := Some (clock db)\<rparr>"]
  from dr have i: "q_id q0 = r"
    by (rule conjunct1)
  from dr
  have m: "q0\<lparr>q_status := APPROVED, q_reviewed_by := rv, q_reviewed_at := Some (clock db)\<rparr>
         \<in> set (map (\<lambda>q. if decide_guard r q
                             then q\<lparr>q_status := APPROVED, q_reviewed_by := rv,
                                    q_reviewed_at := Some (clock db)\<rparr>
                             else q) (admin_requests db))"
    by (rule conjunct2)
  from i q show "q_id q = r" and "q_status q = APPROVED" and "q_reviewed_by q = rv"
    by simp_all
  show "q \<in> set (admin_requests (snd (approve_request db r rv)))"
    unfolding q approve_request_rows [THEN conjunct1] by (rule m)
next
  fix q
  assume a: "fst (reject_request db r rv) = Some q"
  then obtain q0 where q0: "find (decide_guard r) (admin_requests db) = Some q0"
    and q: "q = q0\<lparr>q_status := REJECTED, q_reviewed_by := rv, q_reviewed_at := Some (clock db)\<rparr>"
    by (auto simp: reject_request_def Let_def)
  note dr = decide_returns [OF q0, where upd = "\<lambda>q. q\<lparr>q_status := REJECTED, q_reviewed_by := rv,
    q_reviewed_at := Some (clock db)\<rparr>"]
  from dr have i: "q_id q0 = r"
    by (rule conjunct1)
  from dr
  have m: "q0\<lparr>q_status := REJECTED, q_reviewed_by := rv, q_reviewed_at := Some (clock db)\<rparr>
         \<in> set (map (\<lambda>q. if decide_guard r q
                             then q\<lparr>q_status := REJECTED, q_reviewed_by := rv,
                                    q_reviewed_at := Some (clock db)\<rparr>
                             else q) (admin_requests db))"
    by (rule conjunct2)
  from i q show "q_id q = r" and "q_status q = REJECTED" and "q_reviewed_by q = rv"
    by simp_all
  show "q \<in> set (admin_requests (snd (reject_request db r rv)))"
    unfolding q reject_request_rows [THEN conjunct1] by (rule m)
next
  show "\<not> pending_in (snd (approve_request db r rv)) r"
    by (simp add: pending_in_def approve_request_rows decide_rows)
  show "\<not> pending_in (snd (reject_request db r rv)) r"
    by (simp add: pending_in_def reject_request_rows decide_rows)
next
  assume "\<not> pending_in db r"
  then show "approve_request db r rv = (None, db)" and "reject_request db r rv = (None, db)"
    by (rule decide_not_pending)+
next
  assume "\<not> pending_in (w_db w) r \<and> get_user (w_db w) (tg_id tg) = Some u \<and>
    u_role u = SUPER_ADMIN"
  then show "handle_request_decision bot_ok int_of_str action r (Some tg) w =
        (Inr None,
         reply (MSG_already_handled r)
           (w\<lparr>w_user_data := (w_user_data w)\<lparr>db_user := Some u\<rparr>\<rparr>))"
    by (simp add: handle_decided)
next
  assume a: "requests_wf db \<and> \<not> pending_in db r \<and>
    map_option q_status (get_request db r) = Some s \<and> db_step\<^sup>*\<^sup>* db db'"
  then have "db_step\<^sup>*\<^sup>* db db'" and "requests_wf db" and "\<not> pending_in db r"
    and "map_option q_status (get_request db r) = Some s"
    by blast+
  then have "requests_wf db' \<and> \<not> pending_in db' r \<and>
      map_option q_status (get_request db' r) = Some s"
    by (rule decided_steps)
  then show "requests_wf db'" and "\<not> pending_in db' r"
    and "map_option q_status (get_request db' r) = Some s"
    by simp_all
qed

theorem decision_at_most_once_witness:
  "fst (approve_request example_db 1 (Some ''alice'')) \<noteq> None \<and>
   handle_request_decision flaky_bot Map.empty ''reject'' 1 (Some alice_tg)
       (world_of approved_db empty_user_data) =
     (Inr None,
      reply (MSG_already_handled 1)
        (world_of approved_db (empty_user_data\<lparr>db_user := Some alice\<rparr>))) \<and>
   map_option q_status (get_request (snd (reject_request approved_db 1 (Some ''alice''))) 1) =
     Some APPROVED"
proof -
  note T = decision_at_most_once
  have rows: "admin_requests approved_db =
      [camp_request\<lparr>q_status := APPROVED, q_reviewed_by := Some ''alice'',
                     q_reviewed_at := Some 5\<rparr>]"
    and seq: "admin_requests_id_seq approved_db = 1" and us: "users approved_db = [alice, bob, carol]"
    by (simp_all add: approved_db_def approve_request_def decide_guard_def Let_def example_db_def
        camp_request_def)
  have p: "pending_in example_db 1"
    by (simp add: pending_in_def decide_guard_def example_db_def camp_request_def)
  from T [THEN conjunct1, of example_db 1 "Some ''alice''"] p
  have c1: "fst (approve_request example_db 1 (Some ''alice'')) \<noteq> None"
    by simp
  have np: "\<not> pending_in approved_db 1"
    unfolding approved_db_def
    by (rule T [THEN conjunct2, THEN conjunct2, THEN conjunct2, THEN conjunct2, THEN conjunct1])
  have gu: "get_user (w_db (world_of approved_db empty_user_data)) (tg_id alice_tg) = Some alice"
    and sa: "u_role alice = SUPER_ADMIN"
    by (simp_all add: world_of_def get_user_def us alice_def alice_tg_def)
  from np have np': "\<not> pending_in (w_db (world_of approved_db empty_user_data)) 1"
    by (simp add: world_of_def)
  from T [THEN conjunct2, THEN conjunct2, THEN conjunct2, THEN conjunct2, THEN conjunct2,
      THEN conjunct2, THEN conjunct2, THEN conjunct1, rule_format, OF conjI [OF np' conjI [OF gu sa]]]
  have c2: "handle_request_decision flaky_bot Map.empty ''reject'' 1 (Some alice_tg)
       (world_of approved_db empty_user_data) =
     (Inr None,
      reply (MSG_already_handled 1)
        (world_of approved_db (empty_user_data\<lparr>db_user := Some alice\<rparr>)))"
    by (simp add: world_of_def)
  have wf: "requests_wf approved_db"
    by (simp add: requests_wf_def rows seq camp_request_def)
  have g: "map_option q_status (get_request approved_db 1) = Some APPROVED"
    by (simp add: get_request_def rows camp_request_def)
  have st: "db_step\<^sup>*\<^sup>* approved_db (snd (reject_request approved_db 1 (Some ''alice'')))"
    by (rule r_into_rtranclp) (rule step_reject_request)
  from T [THEN conjunct2, THEN conjunct2, THEN conjunct2, THEN conjunct2, THEN conjunct2,
      THEN conjunct2, THEN conjunct2, THEN conjunct2, rule_format,
      OF conjI [OF wf conjI [OF np conjI [OF g st]]]]
  have c3: "map_option q_status (get_request (snd (reject_request approved_db 1 (Some ''alice''))) 1) =
     Some APPROVED"
    by simp
  from c1 c2 c3 show ?thesis by simp
qed

section \<open>Registration\<close>

lemma find_snoc_new: "find P xs = None \<Longrightarrow> P x \<Longrightarrow> find P (xs @ [x]) = Some x"
  by (induction xs) (auto split: if_splits)

lemma count_map_same:
  assumes "\<And>x. P (f x) = P x"
  shows "length (filter P (map f xs)) = length (filter P xs)"
  using assms by (induction xs) auto

lemma reg_conflict_upd:
  "reg_conflict e t (r\<lparr>r_full_name := a, r_phone := b, r_level := c, r_comment := d\<rparr>) =
     reg_conflict e t r"
  by (simp add: reg_conflict_def)

lemma register_conflict:
  assumes "find (reg_conflict e t) (event_registrations db) = Some old"
  shows "register_for_event db e fn un t ph lv cm =
           (Inr (old\<lparr>r_full_name := fn, r_phone := ph, r_level := lv, r_comment := cm\<rparr>),
            db\<lparr>event_registrations_id_seq := event_registrations_id_seq db + 1,
               event_registrations :=
                 map (\<lambda>r. if reg_conflict e t r
                           then r\<lparr>r_full_name := fn, r_phone := ph, r_level := lv,
                                  r_comment := cm\<rparr>
                           else r) (event_registrations db)\<rparr>)"
  using assms by (simp add: register_for_event_def Let_def)

lemma register_first_row:
  assumes "register_for_event db e fn un (Some t) ph lv cm = (Inr r1, db1)"
  shows "find (reg_conflict e (Some t)) (event_registrations db1) = Some r1"
proof (cases "find (reg_conflict e (Some t)) (event_registrations db)")
  case None
  with assms show ?thesis
    by (auto simp: register_for_event_def Let_def reg_conflict_def intro!: find_snoc_new
        split: if_splits)
next
  case (Some old)
  from find_in_set [OF Some] have "reg_conflict e (Some t) old"
    by simp
  with assms Some show ?thesis
    by (auto simp: register_conflict [OF Some] find_map_same reg_conflict_upd)
qed

text \<open>C2. Once an actor is registered for an event (a call of \<open>register_for_event\<close> with
  the actor's telegram id has returned a row), registering again with the same event and
  telegram id returns that same row with \<open>full_name\<close>, \<open>phone\<close>, \<open>level\<close> and \<open>comment\<close>
  overwritten; the table is the old one with those four fields rewritten in the rows of that
  event and actor, it has as many rows as before, and the registration count of every event
  is unchanged.\<close>

theorem register_twice_in_place:
  assumes first: "register_for_event db e fn1 un1 (Some t) ph1 lv1 cm1 = (Inr r1, db1)"
  shows "fst (register_for_event db1 e fn2 un2 (Some t) ph2 lv2 cm2) =
           Inr (r1\<lparr>r_full_name := fn2, r_phone := ph2, r_level := lv2, r_comment := cm2\<rparr>) \<and>
         event_registrations (snd (register_for_event db1 e fn2 un2 (Some t) ph2 lv2 cm2)) =
           map (\<lambda>r. if r_event_id r = e \<and> r_telegram_id r = Some t
                     then r\<lparr>r_full_name := fn2, r_phone := ph2, r_level := lv2,
                            r_comment := cm2\<rparr>
                     else r) (event_registrations db1) \<and>
         length (event_registrations (snd (register_for_event db1 e fn2 un2 (Some t) ph2 lv2 cm2))) =
           length (event_registrations db1) \<and>
         count_event_registrations (snd (register_for_event db1 e fn2 un2 (Some t) ph2 lv2 cm2)) e' =
           count_event_registrations db1 e'"
proof -
  note second = register_conflict [OF register_first_row [OF first], of fn2 un2 ph2 lv2 cm2]
  have cnt: "length (filter (\<lambda>r. r_event_id r = e')
                 (map (\<lambda>r. if reg_conflict e (Some t) r
                           then r\<lparr>r_full_name := fn2, r_phone := ph2, r_level := lv2,
                                  r_comment := cm2\<rparr>
                           else r) (event_registrations db1))) =
             length (filter (\<lambda>r. r_event_id r = e') (event_registrations db1))"
    by (rule count_map_same) simp
  have same: "(\<lambda>r. if reg_conflict e (Some t) r
                 then r\<lparr>r_full_name := fn2, r_phone := ph2, r_level := lv2, r_comment := cm2\<rparr>
                 else r) =
              (\<lambda>r. if r_event_id r = e \<and> r_telegram_id r = Some t
                 then r\<lparr>r_full_name := fn2, r_phone := ph2, r_level := lv2, r_comment := cm2\<rparr>
                 else r)"
    by (simp add: reg_conflict_def)
  show ?thesis
    unfolding second count_event_registrations_def fst_conv snd_conv
    using cnt by (simp add: same)
qed

theorem register_twice_in_place_witness:
  "count_event_registrations
     (snd (register_for_event
             (snd (register_for_event example_db 1 ''Bob'' (Some ''bob'') (Some 2) None None None))
             1 ''Robert'' (Some ''bobby'') (Some 2) (Some ''555'') (Some ''new'') None)) 1 = 2 \<and>
   map (\<lambda>r. (r_id r, r_username r, r_full_name r, r_phone r))
     (event_registrations
        (snd (register_for_event
                (snd (register_for_event example_db 1 ''Bob'' (Some ''bob'') (Some 2) None None
                        None))
                1 ''Robert'' (Some ''bobby'') (Some 2) (Some ''555'') (Some ''new'') None))) =
     [(1, None, ''Carol'', None), (2, Some ''bob'', ''Robert'', Some ''555'')]"
proof -
  define db1 where "db1 = snd (register_for_event example_db 1 ''Bob'' (Some ''bob'') (Some 2) None None None)"
  define r1 where "r1 = \<lparr>r_id = 2, r_event_id = 1, r_username = Some ''bob'', r_telegram_id = Some 2,
     r_full_name = ''Bob'', r_phone = None, r_level = None, r_comment = None,
     r_registered_at = 5\<rparr>"
  have first: "register_for_event example_db 1 ''Bob'' (Some ''bob'') (Some 2) None None None = (Inr r1, db1)"
    by (simp add: db1_def r1_def register_for_event_def Let_def reg_conflict_def get_event_def
        get_user_def fixture_defs)
  have rows1: "event_registrations db1 = [carol_reg, r1]"
    by (simp add: db1_def r1_def register_for_event_def Let_def reg_conflict_def get_event_def
        get_user_def fixture_defs)
  note T = register_twice_in_place [OF first, of "''Robert''" "Some ''bobby''" "Some ''555''"
      "Some ''new''" None 1]
  from T have "count_event_registrations
     (snd (register_for_event db1 1 ''Robert'' (Some ''bobby'') (Some 2) (Some ''555'')
        (Some ''new'') None)) 1 = 2"
    by (simp add: rows1 count_event_registrations_def carol_reg_def r1_def)
  moreover from T have "map (\<lambda>r. (r_id r, r_username r, r_full_name r, r_phone r))
     (event_registrations
        (snd (register_for_event db1 1 ''Robert'' (Some ''bobby'') (Some 2) (Some ''555'')
        (Some ''new'') None))) =
     [(1, None, ''Carol'', None), (2, Some ''bob'', ''Robert'', Some ''555'')]"
    by (simp add: rows1 carol_reg_def r1_def)
  ultimately show ?thesis
    unfolding db1_def by simp
qed

section \<open>Capacity\<close>

text \<open>C3, as stated, fails: in the example store the event has one seat and Carol holds
  it; when Carol starts the registration flow again for that event, \<open>reg_start\<close> answers
  with the no-seats text and ends the conversation, as it does for anyone else.\<close>

theorem full_event_rejects_registrant:
  "e_max_participants camp = 1 \<and> get_event (w_db full_world) 1 = Some camp \<and>
   event_registrations (w_db full_world) = [carol_reg] \<and>
   r_event_id carol_reg = 1 \<and> r_telegram_id carol_reg = Some (tg_id carol_tg) \<and>
   reg_start 1 carol_tg full_world = (Inr (Some END), reply (MSG_no_seats ''Camp'') full_world)"
  by (simp add: full_world_def carol_tg_def reg_start_def get_event_def
      count_event_registrations_def fixture_defs)

lemma reg_start_full:
  assumes "get_event (w_db w) e = Some ev" and "0 < e_max_participants ev"
    and "e_max_participants ev \<le> count_event_registrations (w_db w) e"
  shows "reg_start e tg w = (Inr (Some END), reply (MSG_no_seats (e_title ev)) w)"
  using assms by (simp add: reg_start_def)

lemma reg_start_open:
  assumes "get_event (w_db w) e = Some ev"
    and "e_max_participants ev \<le> 0 \<or> count_event_registrations (w_db w) e < e_max_participants ev"
  shows "fst (reg_start e tg w) = Inr (Some ASK_NAME) \<and> w_db (snd (reg_start e tg w)) = w_db w"
  using assms by (auto simp: reg_start_def Let_def reply_def split: option.splits)

lemma register_conflict_count:
  assumes "find (reg_conflict e t) (event_registrations db) = Some old"
  shows "count_event_registrations (snd (register_for_event db e fn un t ph lv cm)) e' =
           count_event_registrations db e'"
proof -
  have "length (filter (\<lambda>r. r_event_id r = e')
                 (map (\<lambda>r. if reg_conflict e t r
                           then r\<lparr>r_full_name := fn, r_phone := ph, r_level := lv,
                                  r_comment := cm\<rparr>
                           else r) (event_registrations db))) =
        length (filter (\<lambda>r. r_event_id r = e') (event_registrations db))"
    by (rule count_map_same) simp
  then show ?thesis
    by (simp add: register_conflict [OF assms] count_event_registrations_def del: filter_map)
qed

lemma confirm_registrant:
  assumes yes: "data \<noteq> ''reg_confirm:no''"
    and ev: "reg_event_id (w_user_data w) = Some e"
    and ti: "reg_event_title (w_user_data w) = Some ttl"
    and old: "find (reg_conflict e (Some (tg_id tg))) (event_registrations (w_db w)) = Some old"
  shows "confirm data tg w =
           (Inr (Some END),
            reply (MSG_registered ttl)
              (w\<lparr>w_db := snd (register_for_event (w_db w) e
                                (case reg_name (w_user_data w) of
                                   None \<Rightarrow> tg_full_name tg
                                 | Some n \<Rightarrow> n)
                                (tg_username tg) (Some (tg_id tg))
                                (dict_get (reg_phone (w_user_data w)))
                                (dict_get (reg_level (w_user_data w))) None)\<rparr>))"
  using yes ev ti by (simp add: confirm_def Let_def register_conflict [OF old])

lemma get_event_with_maximum:
  "(get_event (w_db (with_maximum m w)) e = None) = (get_event (w_db w) e = None)"
  by (simp add: with_maximum_def get_event_def find_map_same)

lemma register_with_maximum:
  "fst (register_for_event (w_db (with_maximum m w)) e fn un t ph lv cm) =
     fst (register_for_event (w_db w) e fn un t ph lv cm) \<and>
   event_registrations (snd (register_for_event (w_db (with_maximum m w)) e fn un t ph lv cm)) =
     event_registrations (snd (register_for_event (w_db w) e fn un t ph lv cm))"
  using get_event_with_maximum [of m w e]
  by (auto simp: register_for_event_def Let_def with_maximum_def get_user_def
      split: option.splits)

lemma confirm_ignores_maximum:
  "fst (confirm data tg (with_maximum m w)) = fst (confirm data tg w) \<and>
   event_registrations (w_db (snd (confirm data tg (with_maximum m w)))) =
     event_registrations (w_db (snd (confirm data tg w))) \<and>
   w_replies (snd (confirm data tg (with_maximum m w))) = w_replies (snd (confirm data tg w))"
proof -
  have ud: "w_user_data (with_maximum m w) = w_user_data w"
    and rp: "w_replies (with_maximum m w) = w_replies w"
    by (simp_all add: with_maximum_def)
  note r = register_with_maximum [of m w]
  show ?thesis
  proof (cases "data = ''reg_confirm:no''")
    case True
    then show ?thesis
      by (simp add: confirm_def reply_def with_maximum_def)
  next
    case no: False
    show ?thesis
    proof (cases "reg_event_id (w_user_data w)")
      case None
      with no show ?thesis
        by (simp add: confirm_def ud with_maximum_def)
    next
      case (Some e)
      obtain res db1 where a: "register_for_event (w_db w) e
          (case reg_name (w_user_data w) of None \<Rightarrow> tg_full_name tg | Some n \<Rightarrow> n)
          (tg_username tg) (Some (tg_id tg)) (dict_get (reg_phone (w_user_data w)))
          (dict_get (reg_level (w_user_data w))) None = (res, db1)"
        by (cases "register_for_event (w_db w) e
          (case reg_name (w_user_data w) of None \<Rightarrow> tg_full_name tg | Some n \<Rightarrow> n)
          (tg_username tg) (Some (tg_id tg)) (dict_get (reg_phone (w_user_data w)))
          (dict_get (reg_level (w_user_data w))) None")
      obtain res' db1' where b: "register_for_event (w_db (with_maximum m w)) e
          (case reg_name (w_user_data w) of None \<Rightarrow> tg_full_name tg | Some n \<Rightarrow> n)
          (tg_username tg) (Some (tg_id tg)) (dict_get (reg_phone (w_user_data w)))
          (dict_get (reg_level (w_user_data w))) None = (res', db1')"
        by (cases "register_for_event (w_db (with_maximum m w)) e
          (case reg_name (w_user_data w) of None \<Rightarrow> tg_full_name tg | Some n \<Rightarrow> n)
          (tg_username tg) (Some (tg_id tg)) (dict_get (reg_phone (w_user_data w)))
          (dict_get (reg_level (w_user_data w))) None")
      from r [of e "case reg_name (w_user_data w) of None \<Rightarrow> tg_full_name tg | Some n \<Rightarrow> n"
          "tg_username tg" "Some (tg_id tg)" "dict_get (reg_phone (w_user_data w))"
          "dict_get (reg_level (w_user_data w))" None] a b
      have same: "res' = res" "event_registrations db1' = event_registrations db1"
        by simp_all
      from no Some a b same show ?thesis
        by (simp add: confirm_def ud rp Let_def reply_def log_add_def
            split: sum.splits option.splits)
    qed
  qed
qed

lemma confirm_newcomer:
  assumes yes: "data \<noteq> ''reg_confirm:no''"
    and ev: "reg_event_id (w_user_data w) = Some e"
    and ti: "reg_event_title (w_user_data w) = Some ttl"
    and new: "find (reg_conflict e (Some (tg_id tg))) (event_registrations (w_db w)) = None"
    and ge: "get_event (w_db w) e \<noteq> None"
    and gu: "get_user (w_db w) (tg_id tg) \<noteq> None"
  shows "confirm data tg w =
           (Inr (Some END),
            reply (MSG_registered ttl)
              (w\<lparr>w_db := (w_db w)\<lparr>event_registrations_id_seq :=
                                       event_registrations_id_seq (w_db w) + 1,
                                     event_registrations :=
                                       event_registrations (w_db w) @ [new_registration w tg e]\<rparr>\<rparr>))"
  using yes ev ti new ge gu
  by (auto simp: confirm_def register_for_event_def Let_def new_registration_def)

text \<open>C3, amended. Capacity is checked by \<open>reg_start\<close> alone, and for every actor: for an
  event with \<open>max_participants > 0\<close> and at least that many registrations, the flow ends at
  once with the no-seats text and nothing is stored, whoever asks; with fewer registrations
  than seats, and for \<open>max_participants = 0\<close>, the flow goes on to \<open>ASK_NAME\<close> and the store is
  untouched. \<open>confirm\<close> does not look at capacity: an actor who already holds a registration
  for the event and accepts gets the success text, their row is rewritten in place and the
  count of the event stays as it was; an actor who holds none (and is a user of the store,
  the event being there) gets the success text and a new row, whatever the maximum and the
  count of the event are, and the count goes up by one; and in every case the result of
  \<open>confirm\<close>, the registrations it leaves and the texts it shows are the same when the
  maxima of the events are replaced by any others.\<close>

theorem capacity_at_entry:
  "(get_event (w_db w) e = Some ev \<and> 0 < e_max_participants ev \<and>
    e_max_participants ev \<le> count_event_registrations (w_db w) e \<longrightarrow>
      reg_start e tg w = (Inr (Some END), reply (MSG_no_seats (e_title ev)) w)) \<and>
   (get_event (w_db w) e = Some ev \<and>
    count_event_registrations (w_db w) e < e_max_participants ev \<longrightarrow>
      fst (reg_start e tg w) = Inr (Some ASK_NAME) \<and> w_db (snd (reg_start e tg w)) = w_db w) \<and>
   (get_event (w_db w) e = Some ev \<and> e_max_participants ev = 0 \<longrightarrow>
      fst (reg_start e tg w) = Inr (Some ASK_NAME) \<and> w_db (snd (reg_start e tg w)) = w_db w) \<and>
   (data \<noteq> ''reg_confirm:no'' \<and> reg_event_id (w_user_data w) = Some e \<and>
    reg_event_title (w_user_data w) = Some ttl \<and>
    find (reg_conflict e (Some (tg_id tg))) (event_registrations (w_db w)) = Some old \<longrightarrow>
      fst (confirm data tg w) = Inr (Some END) \<and>
      w_replies (snd (confirm data tg w)) = w_replies w @ [MSG_registered ttl] \<and>
      event_registrations (w_db (snd (confirm data tg w))) =
        map (\<lambda>r. if r_event_id r = e \<and> r_telegram_id r = Some (tg_id tg)
                  then r\<lparr>r_full_name := (case reg_name (w_user_data w) of
                                             None \<Rightarrow> tg_full_name tg
                                           | Some n \<Rightarrow> n),
                         r_phone := dict_get (reg_phone (w_user_data w)),
                         r_level := dict_get (reg_level (w_user_data w)),
                         r_comment := None\<rparr>
                  else r) (event_registrations (w_db w)) \<and>
      count_event_registrations (w_db (snd (confirm data tg w))) e =
        count_event_registrations (w_db w) e) \<and>
   (data \<noteq> ''reg_confirm:no'' \<and> reg_event_id (w_user_data w) = Some e \<and>
    reg_event_title (w_user_data w) = Some ttl \<and>
    find (reg_conflict e (Some (tg_id tg))) (event_registrations (w_db w)) = None \<and>
    get_event (w_db w) e \<noteq> None \<and> get_user (w_db w) (tg_id tg) \<noteq> None \<longrightarrow>
      fst (confirm data tg w) = Inr (Some END) \<and>
      w_replies (snd (confirm data tg w)) = w_replies w @ [MSG_registered ttl] \<and>
      event_registrations (w_db (snd (confirm data tg w))) =
        event_registrations (w_db w) @ [new_registration w tg e] \<and>
      count_event_registrations (w_db (snd (confirm data tg w))) e =
        count_event_registrations (w_db w) e + 1) \<and>
   fst (confirm data tg (with_maximum m w)) = fst (confirm data tg w) \<and>
   event_registrations (w_db (snd (confirm data tg (with_maximum m w)))) =
     event_registrations (w_db (snd (confirm data tg w))) \<and>
   w_replies (snd (confirm data tg (with_maximum m w))) = w_replies (snd (confirm data tg w))"
proof (intro conjI impI)
  assume "get_event (w_db w) e = Some ev \<and> 0 < e_max_participants ev \<and>
    e_max_participants ev \<le> count_event_registrations (w_db w) e"
  then show "reg_start e tg w = (Inr (Some END), reply (MSG_no_seats (e_title ev)) w)"
    by (simp add: reg_start_full)
next
  assume a: "get_event (w_db w) e = Some ev \<and>
    count_event_registrations (w_db w) e < e_max_participants ev"
  then have "get_event (w_db w) e = Some ev"
    and "e_max_participants ev \<le> 0 \<or>
         count_event_registrations (w_db w) e < e_max_participants ev"
    by auto
  then have "fst (reg_start e tg w) = Inr (Some ASK_NAME) \<and>
      w_db (snd (reg_start e tg w)) = w_db w"
    by (rule reg_start_open)
  then show "fst (reg_start e tg w) = Inr (Some ASK_NAME)"
    and "w_db (snd (reg_start e tg w)) = w_db w"
    by simp_all
next
  assume a: "get_event (w_db w) e = Some ev \<and> e_max_participants ev = 0"
  then have "get_event (w_db w) e = Some ev"
    and "e_max_participants ev \<le> 0 \<or>
         count_event_registrations (w_db w) e < e_max_participants ev"
    by auto
  then have "fst (reg_start e tg w) = Inr (Some ASK_NAME) \<and>
      w_db (snd (reg_start e tg w)) = w_db w"
    by (rule reg_start_open)
  then show "fst (reg_start e tg w) = Inr (Some ASK_NAME)"
    and "w_db (snd (reg_start e tg w)) = w_db w"
    by simp_all
next
  assume a: "data \<noteq> ''reg_confirm:no'' \<and> reg_event_id (w_user_data w) = Some e \<and>
    reg_event_title (w_user_data w) = Some ttl \<and>
    find (reg_conflict e (Some (tg_id tg))) (event_registrations (w_db w)) = Some old"
  then have old: "find (reg_conflict e (Some (tg_id tg))) (event_registrations (w_db w)) = Some old"
    by simp
  from a have "data \<noteq> ''reg_confirm:no''" and "reg_event_id (w_user_data w) = Some e"
    and "reg_event_title (w_user_data w) = Some ttl"
    by auto
  from this old have c: "confirm data tg w =
           (Inr (Some END),
            reply (MSG_registered ttl)
              (w\<lparr>w_db := snd (register_for_event (w_db w) e
                                (case reg_name (w_user_data w) of
                                   None \<Rightarrow> tg_full_name tg
                                 | Some n \<Rightarrow> n)
                                (tg_username tg) (Some (tg_id tg))
                                (dict_get (reg_phone (w_user_data w)))
                                (dict_get (reg_level (w_user_data w))) None)\<rparr>))"
    by (rule confirm_registrant)
  have same: "\<And>a b c d. (\<lambda>r. if reg_conflict e (Some (tg_id tg)) r
                 then r\<lparr>r_full_name := a, r_phone := b, r_level := c, r_comment := d\<rparr>
                 else r) =
              (\<lambda>r. if r_event_id r = e \<and> r_telegram_id r = Some (tg_id tg)
                 then r\<lparr>r_full_name := a, r_phone := b, r_level := c, r_comment := d\<rparr>
                 else r)"
    by (simp add: reg_conflict_def)
  show "fst (confirm data tg w) = Inr (Some END)"
    and "w_replies (snd (confirm data tg w)) = w_replies w @ [MSG_registered ttl]"
    by (simp_all add: c reply_def)
  show "event_registrations (w_db (snd (confirm data tg w))) =
        map (\<lambda>r. if r_event_id r = e \<and> r_telegram_id r = Some (tg_id tg)
                  then r\<lparr>r_full_name := (case reg_name (w_user_data w) of
                                             None \<Rightarrow> tg_full_name tg
                                           | Some n \<Rightarrow> n),
                         r_phone := dict_get (reg_phone (w_user_data w)),
                         r_level := dict_get (reg_level (w_user_data w)),
                         r_comment := None\<rparr>
                  else r) (event_registrations (w_db w))"
    by (simp add: c reply_def register_conflict [OF old] same)
  have "count_event_registrations
          (snd (register_for_event (w_db w) e
                  (case reg_name (w_user_data w) of None \<Rightarrow> tg_full_name tg | Some n \<Rightarrow> n)
                  (tg_username tg) (Some (tg_id tg)) (dict_get (reg_phone (w_user_data w)))
                  (dict_get (reg_level (w_user_data w))) None)) e =
        count_event_registrations (w_db w) e"
    by (rule register_conflict_count [OF old])
  then show "count_event_registrations (w_db (snd (confirm data tg w))) e =
        count_event_registrations (w_db w) e"
    by (simp add: c reply_def)
next
  assume a: "data \<noteq> ''reg_confirm:no'' \<and> reg_event_id (w_user_data w) = Some e \<and>
    reg_event_title (w_user_data w) = Some ttl \<and>
    find (reg_conflict e (Some (tg_id tg))) (event_registrations (w_db w)) = None \<and>
    get_event (w_db w) e \<noteq> None \<and> get_user (w_db w) (tg_id tg) \<noteq> None"
  then have "data \<noteq> ''reg_confirm:no''" and "reg_event_id (w_user_data w) = Some e"
    and "reg_event_title (w_user_data w) = Some ttl"
    and "find (reg_conflict e (Some (tg_id tg))) (event_registrations (w_db w)) = None"
    and "get_event (w_db w) e \<noteq> None" and "get_user (w_db w) (tg_id tg) \<noteq> None"
    by blast+
  then have n: "confirm data tg w =
           (Inr (Some END),
            reply (MSG_registered ttl)
              (w\<lparr>w_db := (w_db w)\<lparr>event_registrations_id_seq :=
                                       event_registrations_id_seq (w_db w) + 1,
                                     event_registrations :=
                                       event_registrations (w_db w) @ [new_registration w tg e]\<rparr>\<rparr>))"
    by (rule confirm_newcomer)
  show "fst (confirm data tg w) = Inr (Some END)"
    and "w_replies (snd (confirm data tg w)) = w_replies w @ [MSG_registered ttl]"
    and "event_registrations (w_db (snd (confirm data tg w))) =
        event_registrations (w_db w) @ [new_registration w tg e]"
    by (simp_all add: n reply_def)
  show "count_event_registrations (w_db (snd (confirm data tg w))) e =
        count_event_registrations (w_db w) e + 1"
    by (simp add: n reply_def count_event_registrations_def new_registration_def)
next
  note ci = confirm_ignores_maximum [of data tg m w]
  from ci show "fst (confirm data tg (with_maximum m w)) = fst (confirm data tg w)"
    by (rule conjunct1)
  from ci show "event_registrations (w_db (snd (confirm data tg (with_maximum m w)))) =
     event_registrations (w_db (snd (confirm data tg w)))"
    by (rule conjunct2 [THEN conjunct1])
  from ci show "w_replies (snd (confirm data tg (with_maximum m w))) =
     w_replies (snd (confirm data tg w))"
    by (rule conjunct2 [THEN conjunct2])
qed

theorem capacity_at_entry_witness:
  "reg_start 1 bob_tg full_world = (Inr (Some END), reply (MSG_no_seats ''Camp'') full_world) \<and>
   fst (reg_start 1 bob_tg roomy_world) = Inr (Some ASK_NAME) \<and>
   fst (reg_start 1 bob_tg open_world) = Inr (Some ASK_NAME) \<and>
   fst (confirm ''reg_confirm:yes'' carol_tg carol_confirm_world) = Inr (Some END) \<and>
   event_registrations (w_db (snd (confirm ''reg_confirm:yes'' carol_tg carol_confirm_world))) =
     [carol_reg\<lparr>r_full_name := ''Carol C'', r_phone := Some ''777'', r_level := None,
                 r_comment := None\<rparr>] \<and>
   count_event_registrations
     (w_db (snd (confirm ''reg_confirm:yes'' carol_tg carol_confirm_world))) 1 = 1 \<and>
   e_max_participants camp = 1 \<and> count_event_registrations (w_db bob_confirm_world) 1 = 1 \<and>
   fst (confirm ''reg_confirm:yes'' bob_tg bob_confirm_world) = Inr (Some END) \<and>
   map (\<lambda>r. (r_id r, r_event_id r, r_telegram_id r, r_full_name r))
     (event_registrations (w_db (snd (confirm ''reg_confirm:yes'' bob_tg bob_confirm_world)))) =
     [(1, 1, Some 3, ''Carol''), (2, 1, Some 2, ''Bob'')] \<and>
   count_event_registrations (w_db (snd (confirm ''reg_confirm:yes'' bob_tg bob_confirm_world))) 1 = 2"
proof -
  note T = capacity_at_entry
  have full: "get_event (w_db full_world) 1 = Some camp \<and> 0 < e_max_participants camp \<and>
      e_max_participants camp \<le> count_event_registrations (w_db full_world) 1"
    by (simp add: full_world_def get_event_def count_event_registrations_def fixture_defs)
  from T [THEN conjunct1, rule_format, OF full, of bob_tg]
  have c1: "reg_start 1 bob_tg full_world =
      (Inr (Some END), reply (MSG_no_seats ''Camp'') full_world)"
    by (simp add: camp_def)
  have roomy: "get_event (w_db roomy_world) 1 = Some (camp\<lparr>e_max_participants := 2\<rparr>) \<and>
      count_event_registrations (w_db roomy_world) 1
        < e_max_participants (camp\<lparr>e_max_participants := 2\<rparr>)"
    by (simp add: roomy_world_def get_event_def count_event_registrations_def fixture_defs)
  from T [THEN conjunct2, THEN conjunct1, rule_format, OF roomy, of bob_tg]
  have c2: "fst (reg_start 1 bob_tg roomy_world) = Inr (Some ASK_NAME)"
    by simp
  have opn: "get_event (w_db open_world) 1 = Some (camp\<lparr>e_max_participants := 0\<rparr>) \<and>
      e_max_participants (camp\<lparr>e_max_participants := 0\<rparr>) = 0"
    by (simp add: open_world_def get_event_def fixture_defs)
  from T [THEN conjunct2, THEN conjunct2, THEN conjunct1, rule_format, OF opn, of bob_tg]
  have c3: "fst (reg_start 1 bob_tg open_world) = Inr (Some ASK_NAME)"
    by simp
  have ud: "w_user_data carol_confirm_world =
      empty_user_data\<lparr>reg_event_id := Some 1, reg_event_title := Some ''Camp'',
        reg_name := Some ''Carol C'', reg_phone := Some (Some ''777''), reg_level := Some None\<rparr>"
    and rows: "event_registrations (w_db carol_confirm_world) = [carol_reg]"
    by (simp_all add: carol_confirm_world_def world_of_def example_db_def)
  have holds: "''reg_confirm:yes'' \<noteq> ''reg_confirm:no'' \<and>
      reg_event_id (w_user_data carol_confirm_world) = Some 1 \<and>
      reg_event_title (w_user_data carol_confirm_world) = Some ''Camp'' \<and>
      find (reg_conflict 1 (Some (tg_id carol_tg))) (event_registrations (w_db carol_confirm_world))
        = Some carol_reg"
    by (simp add: ud rows empty_user_data_def reg_conflict_def carol_reg_def carol_tg_def)
  note c = T [THEN conjunct2, THEN conjunct2, THEN conjunct2, THEN conjunct1, rule_format,
      OF holds]
  from c have c4: "fst (confirm ''reg_confirm:yes'' carol_tg carol_confirm_world) = Inr (Some END)"
    by simp
  from c have c5: "event_registrations
      (w_db (snd (confirm ''reg_confirm:yes'' carol_tg carol_confirm_world))) =
     [carol_reg\<lparr>r_full_name := ''Carol C'', r_phone := Some ''777'', r_level := None,
                 r_comment := None\<rparr>]"
    by (simp add: ud rows empty_user_data_def dict_get_def carol_reg_def carol_tg_def)
  from c have c6: "count_event_registrations
     (w_db (snd (confirm ''reg_confirm:yes'' carol_tg carol_confirm_world))) 1 = 1"
    by (simp add: rows count_event_registrations_def carol_reg_def)
  have bud: "w_user_data bob_confirm_world =
      empty_user_data\<lparr>reg_event_id := Some 1, reg_event_title := Some ''Camp'',
          reg_name := Some ''Bob'', reg_phone := Some None, reg_level := Some None\<rparr>"
    and bdb: "w_db bob_confirm_world = example_db"
    by (simp_all add: bob_confirm_world_def world_of_def)
  have newc: "''reg_confirm:yes'' \<noteq> ''reg_confirm:no'' \<and>
      reg_event_id (w_user_data bob_confirm_world) = Some 1 \<and>
      reg_event_title (w_user_data bob_confirm_world) = Some ''Camp'' \<and>
      find (reg_conflict 1 (Some (tg_id bob_tg))) (event_registrations (w_db bob_confirm_world)) = None \<and>
      get_event (w_db bob_confirm_world) 1 \<noteq> None \<and>
      get_user (w_db bob_confirm_world) (tg_id bob_tg) \<noteq> None"
    by (simp add: bud bdb empty_user_data_def reg_conflict_def get_event_def get_user_def
        bob_tg_def fixture_defs)
  note n = T [THEN conjunct2, THEN conjunct2, THEN conjunct2, THEN conjunct2, THEN conjunct1,
      rule_format, OF newc]
  have b0: "e_max_participants camp = 1 \<and> count_event_registrations (w_db bob_confirm_world) 1 = 1"
    by (simp add: bdb count_event_registrations_def fixture_defs)
  from n have b1: "fst (confirm ''reg_confirm:yes'' bob_tg bob_confirm_world) = Inr (Some END)"
    by simp
  from n have b2: "map (\<lambda>r. (r_id r, r_event_id r, r_telegram_id r, r_full_name r))
     (event_registrations (w_db (snd (confirm ''reg_confirm:yes'' bob_tg bob_confirm_world)))) =
     [(1, 1, Some 3, ''Carol''), (2, 1, Some 2, ''Bob'')]"
    by (simp add: bdb bud new_registration_def empty_user_data_def bob_tg_def example_db_def
        carol_reg_def)
  from n b0 have b3: "count_event_registrations
      (w_db (snd (confirm ''reg_confirm:yes'' bob_tg bob_confirm_world))) 1 = 2"
    by simp
  from c1 c2 c3 c4 c5 c6 b0 b1 b2 b3 show ?thesis
    by simp
qed

section \<open>Manual event creation: validation\<close>

lemma read_int_abc: "read_int ''abc'' = None"
  by code_simp

lemma iso_date_examples:
  "iso_date ''15.01.2025'' = None" "iso_date ''2025-01-15'' = Some (2025, 1, 15)"
  "iso_date ''2025-02-30'' = None"
  by code_simp+

lemma read_int_examples: "read_int ''12'' = Some 12" "read_int ''-5'' = Some (- 5)" "read_int '''' = None"
  by code_simp+

text \<open>C4, as stated, fails at the max-participants state: the text \<open>abc\<close> is no integer,
  yet \<open>evt_max\<close> stores 0 under \<open>evt_max\<close>, which was not set before, and moves on to
  \<open>EVT_CONFIRM\<close>.\<close>

theorem non_integer_max_advances:
  "read_int ''abc'' = None \<and>
   evt_max (w_user_data evt_world) = None \<and>
   evt_max_h read_int ''abc'' evt_world =
     (Inr (Some EVT_CONFIRM),
      reply (MSG_evt_confirm_prompt ''Bible School'' (2025, 1, 15) None None)
        (evt_world\<lparr>w_user_data := (w_user_data evt_world)\<lparr>evt_max := Some 0\<rparr>\<rparr>)) \<and>
   EVT_CONFIRM \<noteq> EVT_MAX"
  by (simp add: read_int_abc evt_max_h_def evt_world_def world_of_def empty_user_data_def
      dict_get_def or_filler_def EVT_CONFIRM_def EVT_MAX_def)

text \<open>C4, amended. At the date state, a text that \<open>date.fromisoformat\<close> refuses is answered
  with the bad-date text and the conversation stays in \<open>EVT_DATE\<close>: nothing is stored and
  the state does not advance. At the max-participants state a text that \<open>int\<close> refuses is
  not a validation failure: 0 is stored as the maximum and the conversation advances to
  \<open>EVT_CONFIRM\<close>.\<close>

theorem validation_failure:
  "(fromisoformat msg = None \<longrightarrow>
      evt_date_h fromisoformat msg w = (Inr (Some EVT_DATE), reply MSG_evt_bad_date w) \<and>
      evt_conv bot_ok fromisoformat int_of_str EVT_DATE (Message msg) w =
        Some (Inr (Some EVT_DATE), reply MSG_evt_bad_date w)) \<and>
   (int_of_str msg = None \<and> evt_title (w_user_data w) = Some title \<and>
    evt_date (w_user_data w) = Some d \<longrightarrow>
      evt_max_h int_of_str msg w =
        (Inr (Some EVT_CONFIRM),
         reply (MSG_evt_confirm_prompt title d (or_filler (dict_get (evt_time (w_user_data w))))
                  (or_filler (dict_get (evt_place (w_user_data w)))))
           (w\<lparr>w_user_data := (w_user_data w)\<lparr>evt_max := Some 0\<rparr>\<rparr>)) \<and>
      evt_conv bot_ok fromisoformat int_of_str EVT_MAX (Message msg) w =
        Some (evt_max_h int_of_str msg w))"
  by (simp add: evt_date_h_def evt_max_h_def evt_conv_def Let_def EVT_TITLE_def EVT_DATE_def
      EVT_TIME_def EVT_PLACE_def EVT_DESC_def EVT_MAX_def)

theorem validation_failure_witness:
  "evt_conv flaky_bot iso_date read_int EVT_DATE (Message ''15.01.2025'') evt_world =
     Some (Inr (Some EVT_DATE), reply MSG_evt_bad_date evt_world) \<and>
   evt_conv flaky_bot iso_date read_int EVT_MAX (Message ''abc'') evt_world =
     Some (Inr (Some EVT_CONFIRM),
           reply (MSG_evt_confirm_prompt ''Bible School'' (2025, 1, 15) None None)
             (evt_world\<lparr>w_user_data := (w_user_data evt_world)\<lparr>evt_max := Some 0\<rparr>\<rparr>))"
proof -
  note T = validation_failure
  from T [THEN conjunct1, rule_format, where fromisoformat = iso_date
      and msg = "''15.01.2025''" and bot_ok = flaky_bot and int_of_str = read_int
      and w = evt_world, OF iso_date_examples(1)]
  have c1: "evt_conv flaky_bot iso_date read_int EVT_DATE (Message ''15.01.2025'') evt_world =
     Some (Inr (Some EVT_DATE), reply MSG_evt_bad_date evt_world)"
    by simp
  have ud: "evt_title (w_user_data evt_world) = Some ''Bible School''"
    "evt_date (w_user_data evt_world) = Some (2025, 1, 15)"
    "evt_time (w_user_data evt_world) = Some None" "evt_place (w_user_data evt_world) = Some None"
    by (simp_all add: evt_world_def world_of_def empty_user_data_def)
  from T [THEN conjunct2, rule_format, where int_of_str = read_int and msg = "''abc''"
      and bot_ok = flaky_bot and fromisoformat = iso_date and w = evt_world,
      OF conjI [OF read_int_abc conjI [OF ud(1) ud(2)]]]
  have c2: "evt_conv flaky_bot iso_date read_int EVT_MAX (Message ''abc'') evt_world =
     Some (Inr (Some EVT_CONFIRM),
           reply (MSG_evt_confirm_prompt ''Bible School'' (2025, 1, 15) None None)
             (evt_world\<lparr>w_user_data := (w_user_data evt_world)\<lparr>evt_max := Some 0\<rparr>\<rparr>))"
    by (simp add: ud dict_get_def or_filler_def)
  from c1 c2 show ?thesis
    by simp
qed

section \<open>Manual event creation: commit\<close>

lemma notify_super_admins_frame:
  "w_db (notify_super_admins bot_ok ids t w) = w_db w \<and>
   w_user_data (notify_super_admins bot_ok ids t w) = w_user_data w \<and>
   w_replies (notify_super_admins bot_ok ids t w) = w_replies w"
  by (induction ids arbitrary: w) (simp_all add: send_message_def log_add_def Let_def)

lemma create_event_ok:
  assumes "case created_by of None \<Rightarrow> True | Some n \<Rightarrow> username_exists db n" and "int4 mx"
  shows "create_event db title d ty de tm pl ds mx st created_by =
     (Inr \<lparr>e_id = events_id_seq db + 1, e_title = title, e_type = ty, e_date_start = d,
            e_date_end = de, e_time = tm, e_place = pl, e_description = ds,
            e_max_participants = mx, e_status = st, e_created_by = created_by,
            e_created_at = clock db\<rparr>,
      db\<lparr>events_id_seq := events_id_seq db + 1,
         events := events db @
           [\<lparr>e_id = events_id_seq db + 1, e_title = title, e_type = ty, e_date_start = d,
              e_date_end = de, e_time = tm, e_place = pl, e_description = ds,
              e_max_participants = mx, e_status = st, e_created_by = created_by,
              e_created_at = clock db\<rparr>]\<rparr>)"
  using assms by (auto simp: create_event_def Let_def split: option.splits)

lemma map_if_fresh:
  assumes "list_all (\<lambda>e. e_id e \<le> n) es"
  shows "map (\<lambda>e. if e_id e = n + 1 then f e else e) es = es"
  using assms by (induction es) auto

text \<open>The confirm step is reached with the title and the date stored and with the identity
  that the entry point cached.\<close>

lemma evt_start_caches:
  "fst (evt_start user_tg w) = Inr (Some EVT_TITLE) \<Longrightarrow>
     db_user (w_user_data (snd (evt_start user_tg w))) \<noteq> None"
  by (auto simp: evt_start_def require_role_def reply_def split: option.splits if_splits)

lemma evt_confirm_step_reached:
  "fst (evt_max_h int_of_str t w) = Inr (Some EVT_CONFIRM) \<Longrightarrow>
     evt_title (w_user_data (snd (evt_max_h int_of_str t w))) \<noteq> None \<and>
     evt_date (w_user_data (snd (evt_max_h int_of_str t w))) \<noteq> None \<and>
     db_user (w_user_data (snd (evt_max_h int_of_str t w))) = db_user (w_user_data w)"
  by (auto simp: evt_max_h_def Let_def reply_def split: option.splits)

lemma evt_steps_keep_identity:
  "db_user (w_user_data (snd (evt_title_h t w))) = db_user (w_user_data w)"
  "db_user (w_user_data (snd (evt_date_h fromisoformat t w))) = db_user (w_user_data w)"
  "db_user (w_user_data (snd (evt_time_h t w))) = db_user (w_user_data w)"
  "db_user (w_user_data (snd (evt_place_h t w))) = db_user (w_user_data w)"
  "db_user (w_user_data (snd (evt_desc_h t w))) = db_user (w_user_data w)"
  by (simp_all add: evt_title_h_def evt_date_h_def evt_time_h_def evt_place_h_def evt_desc_h_def
      reply_def split: option.splits)

lemma read_int_big: "read_int ''99999999999'' = Some 99999999999"
  by (simp add: read_int_def)

lemma evt_confirm_refused:
  assumes accept: "data \<noteq> ''evt_confirm:no''"
    and title: "evt_title (w_user_data w) = Some title"
    and date: "evt_date (w_user_data w) = Some d"
  shows "\<not> int4 (case evt_max (w_user_data w) of None \<Rightarrow> 0 | Some m \<Rightarrow> m) \<Longrightarrow>
           evt_confirm bot_ok data w = (Inl DataError, w)"
    and "int4 (case evt_max (w_user_data w) of None \<Rightarrow> 0 | Some m \<Rightarrow> m) \<Longrightarrow>
         db_user (w_user_data w) = Some u \<Longrightarrow> u_username u = Some n \<Longrightarrow>
         \<not> username_exists (w_db w) n \<Longrightarrow>
           evt_confirm bot_ok data w =
             (Inl ForeignKeyViolation,
              w\<lparr>w_db := (w_db w)\<lparr>events_id_seq := events_id_seq (w_db w) + 1\<rparr>\<rparr>)"
  using accept title date
  by (simp_all add: evt_confirm_def create_event_def Let_def)

lemma evt_confirm_requester_gone:
  assumes accept: "data \<noteq> ''evt_confirm:no''"
    and cached: "db_user (w_user_data w) = Some u"
    and title: "evt_title (w_user_data w) = Some title"
    and date: "evt_date (w_user_data w) = Some d"
    and fk_name: "case u_username u of None \<Rightarrow> True | Some n \<Rightarrow> username_exists (w_db w) n"
    and fits: "int4 (case evt_max (w_user_data w) of None \<Rightarrow> 0 | Some m \<Rightarrow> m)"
    and nsa: "u_role u \<noteq> SUPER_ADMIN"
    and gone: "get_user (w_db w) (u_telegram_id u) = None"
  shows "fst (evt_confirm bot_ok data w) = Inl ForeignKeyViolation \<and>
         events (w_db (snd (evt_confirm bot_ok data w))) =
           events (w_db w) @ [submitted_event w title d (u_username u) PENDING] \<and>
         admin_requests (w_db (snd (evt_confirm bot_ok data w))) = admin_requests (w_db w)"
  using accept cached title date nsa gone
  by (auto simp: evt_confirm_def Let_def create_event_ok [OF fk_name fits]
      create_admin_request_def get_user_def submitted_event_def split: option.splits)

lemma evt_confirm_created_super:
  assumes accept: "data \<noteq> ''evt_confirm:no''"
    and cached: "db_user (w_user_data w) = Some u"
    and title: "evt_title (w_user_data w) = Some title"
    and date: "evt_date (w_user_data w) = Some d"
    and fk_name: "case u_username u of None \<Rightarrow> True | Some n \<Rightarrow> username_exists (w_db w) n"
    and fits: "int4 (case evt_max (w_user_data w) of None \<Rightarrow> 0 | Some m \<Rightarrow> m)"
    and sa: "u_role u = SUPER_ADMIN"
  shows "fst (evt_confirm bot_ok data w) = Inr (Some END) \<and>
        events (w_db (snd (evt_confirm bot_ok data w))) =
          map (\<lambda>e. if e_id e = events_id_seq (w_db w) + 1 then e\<lparr>e_status := ACTIVE\<rparr> else e)
            (events (w_db w)) @
          [submitted_event w title d (u_username u) ACTIVE] \<and>
        (events_wf (w_db w) \<longrightarrow>
           events (w_db (snd (evt_confirm bot_ok data w))) =
             events (w_db w) @ [submitted_event w title d (u_username u) ACTIVE]) \<and>
        admin_requests (w_db (snd (evt_confirm bot_ok data w))) = admin_requests (w_db w) \<and>
        w_outbox (snd (evt_confirm bot_ok data w)) = w_outbox w"
proof -
  note ce = create_event_ok [OF fk_name fits]
  have r: "evt_confirm bot_ok data w =
      (Inr (Some END),
       reply (MSG_evt_created_active title (events_id_seq (w_db w) + 1))
         (w\<lparr>w_db := snd (activate_event
                            (snd (create_event (w_db w) title d None None
                                    (dict_get (evt_time (w_user_data w)))
                                    (dict_get (evt_place (w_user_data w)))
                                    (dict_get (evt_desc (w_user_data w)))
                                    (case evt_max (w_user_data w) of None \<Rightarrow> 0 | Some m \<Rightarrow> m)
                                    PENDING (u_username u)))
                            (events_id_seq (w_db w) + 1))\<rparr>))"
    using accept cached title date sa
    by (simp add: evt_confirm_def Let_def ce split_def)
  have c1: "fst (evt_confirm bot_ok data w) = Inr (Some END)"
    by (simp add: r)
  have ev: "events (w_db (snd (evt_confirm bot_ok data w))) =
        map (\<lambda>e. if e_id e = events_id_seq (w_db w) + 1 then e\<lparr>e_status := ACTIVE\<rparr> else e)
          (events (w_db w)) @
        [submitted_event w title d (u_username u) ACTIVE]"
    by (simp add: r ce reply_def activate_event_def update_event_def Let_def
        submitted_event_def)
  have c3: "admin_requests (w_db (snd (evt_confirm bot_ok data w))) = admin_requests (w_db w)"
    by (simp add: r ce reply_def activate_event_def update_event_def Let_def)
  have c4: "w_outbox (snd (evt_confirm bot_ok data w)) = w_outbox w"
    by (simp add: r reply_def)
  have c5: "events_wf (w_db w) \<longrightarrow>
           events (w_db (snd (evt_confirm bot_ok data w))) =
             events (w_db w) @ [submitted_event w title d (u_username u) ACTIVE]"
    unfolding ev by (simp add: events_wf_def map_if_fresh)
  from c1 ev c5 c3 c4 show ?thesis
    by (intro conjI)
qed

lemma evt_confirm_created_other:
  assumes accept: "data \<noteq> ''evt_confirm:no''"
    and cached: "db_user (w_user_data w) = Some u"
    and title: "evt_title (w_user_data w) = Some title"
    and date: "evt_date (w_user_data w) = Some d"
    and fk_name: "case u_username u of None \<Rightarrow> True | Some n \<Rightarrow> username_exists (w_db w) n"
    and fk_id: "get_user (w_db w) (u_telegram_id u) \<noteq> None"
    and fits: "int4 (case evt_max (w_user_data w) of None \<Rightarrow> 0 | Some m \<Rightarrow> m)"
    and nsa: "u_role u \<noteq> SUPER_ADMIN"
  shows "fst (evt_confirm bot_ok data w) = Inr (Some END) \<and>
        events (w_db (snd (evt_confirm bot_ok data w))) =
          events (w_db w) @ [submitted_event w title d (u_username u) PENDING] \<and>
        admin_requests (w_db (snd (evt_confirm bot_ok data w))) =
          admin_requests (w_db w) @ [creation_request w u title]"
  using accept cached title date nsa fk_id
  by (auto simp: evt_confirm_def Let_def create_event_ok [OF fk_name fits]
      create_admin_request_def get_user_def reply_def notify_super_admins_frame
      submitted_event_def creation_request_def split: option.splits)

text \<open>C5, as stated, fails when the insert of the event is refused: Bob, an admin, types
  \<open>99999999999\<close> at the max-participants state, which \<open>evt_max\<close> stores as it is, and
  accepts at the confirm step; \<open>create_event\<close> raises, \<open>evt_confirm\<close> raises with it, and
  there is neither a new event nor a new request.\<close>

theorem out_of_range_max_creates_nothing:
  "u_role bob = ADMIN \<and>
   evt_max_h read_int ''99999999999'' evt_world =
     (Inr (Some EVT_CONFIRM),
      reply (MSG_evt_confirm_prompt ''Bible School'' (2025, 1, 15) None None) big_max_world) \<and>
   evt_confirm flaky_bot ''evt_confirm:yes''
       (reply (MSG_evt_confirm_prompt ''Bible School'' (2025, 1, 15) None None) big_max_world) =
     (Inl DataError,
      reply (MSG_evt_confirm_prompt ''Bible School'' (2025, 1, 15) None None) big_max_world) \<and>
   events (w_db big_max_world) = [camp] \<and> admin_requests (w_db big_max_world) = [camp_request]"
  by (simp add: read_int_big evt_max_h_def evt_confirm_def create_event_def int4_def
      big_max_world_def evt_world_def world_of_def empty_user_data_def example_db_def bob_def
      reply_def dict_get_def or_filler_def Let_def)

text \<open>C5, amended. When the actor accepts at the confirm step of the manual event creation
  flow (title and date collected, identity cached), and the maximum fits its column and
  the cached username, if there is one, is that of a user of the store: if the role of the
  cached identity is super-admin, the event is inserted and set to active, and the request
  table and the outbox are as before; otherwise, the cached telegram id being that of a
  user, the event is inserted with status pending and exactly one request is appended, of
  type \<open>event_creation\<close>, pending, with a payload that holds the id of that event. When
  the maximum does not fit, \<open>evt_confirm\<close> raises and leaves everything as it was; when the
  cached username is no longer in the store, it raises and only the event sequence has
  moved; when only the cached telegram id is missing, it raises after the pending event is
  in and no request is filed.\<close>

theorem evt_confirm_by_role:
  fixes w :: World and u :: User
  defines "mx \<equiv> (case evt_max (w_user_data w) of None \<Rightarrow> 0 | Some m \<Rightarrow> m)"
    and "named \<equiv> (case u_username u of None \<Rightarrow> True | Some n \<Rightarrow> username_exists (w_db w) n)"
  assumes accept: "data \<noteq> ''evt_confirm:no''"
    and cached: "db_user (w_user_data w) = Some u"
    and title: "evt_title (w_user_data w) = Some title"
    and date: "evt_date (w_user_data w) = Some d"
  shows
    "(int4 mx \<and> named \<and> u_role u = SUPER_ADMIN \<longrightarrow>
        fst (evt_confirm bot_ok data w) = Inr (Some END) \<and>
        events (w_db (snd (evt_confirm bot_ok data w))) =
          map (\<lambda>e. if e_id e = events_id_seq (w_db w) + 1 then e\<lparr>e_status := ACTIVE\<rparr> else e)
            (events (w_db w)) @
          [submitted_event w title d (u_username u) ACTIVE] \<and>
        (events_wf (w_db w) \<longrightarrow>
           events (w_db (snd (evt_confirm bot_ok data w))) =
             events (w_db w) @ [submitted_event w title d (u_username u) ACTIVE]) \<and>
        admin_requests (w_db (snd (evt_confirm bot_ok data w))) = admin_requests (w_db w) \<and>
        w_outbox (snd (evt_confirm bot_ok data w)) = w_outbox w) \<and>
     (int4 mx \<and> named \<and> u_role u \<noteq> SUPER_ADMIN \<and>
      get_user (w_db w) (u_telegram_id u) \<noteq> None \<longrightarrow>
        fst (evt_confirm bot_ok data w) = Inr (Some END) \<and>
        events (w_db (snd (evt_confirm bot_ok data w))) =
          events (w_db w) @ [submitted_event w title d (u_username u) PENDING] \<and>
        admin_requests (w_db (snd (evt_confirm bot_ok data w))) =
          admin_requests (w_db w) @ [creation_request w u title]) \<and>
     (\<not> int4 mx \<longrightarrow> evt_confirm bot_ok data w = (Inl DataError, w)) \<and>
     (int4 mx \<and> \<not> named \<longrightarrow>
        evt_confirm bot_ok data w =
          (Inl ForeignKeyViolation,
           w\<lparr>w_db := (w_db w)\<lparr>events_id_seq := events_id_seq (w_db w) + 1\<rparr>\<rparr>)) \<and>
     (int4 mx \<and> named \<and> u_role u \<noteq> SUPER_ADMIN \<and>
      get_user (w_db w) (u_telegram_id u) = None \<longrightarrow>
        fst (evt_confirm bot_ok data w) = Inl ForeignKeyViolation \<and>
        events (w_db (snd (evt_confirm bot_ok data w))) =
          events (w_db w) @ [submitted_event w title d (u_username u) PENDING] \<and>
        admin_requests (w_db (snd (evt_confirm bot_ok data w))) = admin_requests (w_db w))"
proof (intro conjI impI)
  note refused = evt_confirm_refused [OF accept title date]
  {
    assume a: "int4 mx \<and> named \<and> u_role u = SUPER_ADMIN"
    then have fits: "int4 (case evt_max (w_user_data w) of None \<Rightarrow> 0 | Some m \<Rightarrow> m)"
      and nm: "case u_username u of None \<Rightarrow> True | Some n \<Rightarrow> username_exists (w_db w) n"
      and sa: "u_role u = SUPER_ADMIN"
      by (simp_all add: mx_def named_def)
    note ok = evt_confirm_created_super [OF accept cached title date nm fits sa]
    from ok show "fst (evt_confirm bot_ok data w) = Inr (Some END)"
      by (rule conjunct1)
    from ok show "events (w_db (snd (evt_confirm bot_ok data w))) =
          map (\<lambda>e. if e_id e = events_id_seq (w_db w) + 1 then e\<lparr>e_status := ACTIVE\<rparr> else e)
            (events (w_db w)) @
          [submitted_event w title d (u_username u) ACTIVE]"
      by (rule conjunct2 [THEN conjunct1])
    from ok show "admin_requests (w_db (snd (evt_confirm bot_ok data w))) = admin_requests (w_db w)"
      by (rule conjunct2 [THEN conjunct2, THEN conjunct2, THEN conjunct1])
    from ok show "w_outbox (snd (evt_confirm bot_ok data w)) = w_outbox w"
      by (rule conjunct2 [THEN conjunct2, THEN conjunct2, THEN conjunct2])
    {
      assume "events_wf (w_db w)"
      with ok show "events (w_db (snd (evt_confirm bot_ok data w))) =
             events (w_db w) @ [submitted_event w title d (u_username u) ACTIVE]"
        by blast
    }
  }
  {
    assume a: "int4 mx \<and> named \<and> u_role u \<noteq> SUPER_ADMIN \<and>
      get_user (w_db w) (u_telegram_id u) \<noteq> None"
    then have fits: "int4 (case evt_max (w_user_data w) of None \<Rightarrow> 0 | Some m \<Rightarrow> m)"
      and nm: "case u_username u of None \<Rightarrow> True | Some n \<Rightarrow> username_exists (w_db w) n"
      and nsa: "u_role u \<noteq> SUPER_ADMIN" and there: "get_user (w_db w) (u_telegram_id u) \<noteq> None"
      by (simp_all add: mx_def named_def)
    note ok = evt_confirm_created_other [OF accept cached title date nm there fits nsa]
    from ok show "fst (evt_confirm bot_ok data w) = Inr (Some END)"
      by (rule conjunct1)
    from ok show "events (w_db (snd (evt_confirm bot_ok data w))) =
          events (w_db w) @ [submitted_event w title d (u_username u) PENDING]"
      by (rule conjunct2 [THEN conjunct1])
    from ok show "admin_requests (w_db (snd (evt_confirm bot_ok data w))) =
          admin_requests (w_db w) @ [creation_request w u title]"
      by (rule conjunct2 [THEN conjunct2])
  }
  {
    assume "\<not> int4 mx"
    then show "evt_confirm bot_ok data w = (Inl DataError, w)"
      unfolding mx_def by (rule refused(1))
  }
  {
    assume a: "int4 mx \<and> \<not> named"
    then obtain n where n: "u_username u = Some n" "\<not> username_exists (w_db w) n"
      by (auto simp: named_def split: option.splits)
    from a have "int4 (case evt_max (w_user_data w) of None \<Rightarrow> 0 | Some m \<Rightarrow> m)"
      by (simp add: mx_def)
    from this cached n show "evt_confirm bot_ok data w =
          (Inl ForeignKeyViolation,
           w\<lparr>w_db := (w_db w)\<lparr>events_id_seq := events_id_seq (w_db w) + 1\<rparr>\<rparr>)"
      by (rule refused(2))
  }
  {
    assume a: "int4 mx \<and> named \<and> u_role u \<noteq> SUPER_ADMIN \<and>
      get_user (w_db w) (u_telegram_id u) = None"
    then have fits: "int4 (case evt_max (w_user_data w) of None \<Rightarrow> 0 | Some m \<Rightarrow> m)"
      and nm: "case u_username u of None \<Rightarrow> True | Some n \<Rightarrow> username_exists (w_db w) n"
      and nsa: "u_role u \<noteq> SUPER_ADMIN" and gone: "get_user (w_db w) (u_telegram_id u) = None"
      by (simp_all add: mx_def named_def)
    note g = evt_confirm_requester_gone [OF accept cached title date nm fits nsa gone]
    from g show "fst (evt_confirm bot_ok data w) = Inl ForeignKeyViolation"
      by (rule conjunct1)
    from g show "events (w_db (snd (evt_confirm bot_ok data w))) =
          events (w_db w) @ [submitted_event w title d (u_username u) PENDING]"
      by (rule conjunct2 [THEN conjunct1])
    from g show "admin_requests (w_db (snd (evt_confirm bot_ok data w))) = admin_requests (w_db w)"
      by (rule conjunct2 [THEN conjunct2])
  }
qed

theorem evt_confirm_by_role_witness:
  "map (\<lambda>e. (e_id e, e_title e, e_status e))
     (events (w_db (snd (evt_confirm flaky_bot ''evt_confirm:yes'' evt_world)))) =
     [(1, ''Camp'', PENDING), (2, ''Bible School'', PENDING)] \<and>
   map (\<lambda>q. (q_id q, q_request_type q, q_status q, q_payload_json q))
     (admin_requests (w_db (snd (evt_confirm flaky_bot ''evt_confirm:yes'' evt_world)))) =
     [(1, ''event_creation'', REQ_PENDING,
       Some [(''event_id'', JInt 1), (''event_title'', JStr ''Camp'')]),
      (2, ''event_creation'', REQ_PENDING,
       Some [(''event_id'', JInt 2), (''event_title'', JStr ''Bible School'')])] \<and>
   map (\<lambda>e. (e_id e, e_title e, e_status e))
     (events (w_db (snd (evt_confirm flaky_bot ''evt_confirm:yes'' evt_world_alice)))) =
     [(1, ''Camp'', PENDING), (2, ''Bible School'', ACTIVE)] \<and>
   admin_requests (w_db (snd (evt_confirm flaky_bot ''evt_confirm:yes'' evt_world_alice))) =
     [camp_request] \<and>
   evt_confirm flaky_bot ''evt_confirm:yes'' big_max_world = (Inl DataError, big_max_world) \<and>
   fst (evt_confirm flaky_bot ''evt_confirm:yes'' stale_world) = Inl ForeignKeyViolation \<and>
   events (w_db (snd (evt_confirm flaky_bot ''evt_confirm:yes'' stale_world))) =
     events (w_db stale_world)"
proof -
  have accept: "''evt_confirm:yes'' \<noteq> ''evt_confirm:no''"
    by simp
  have dbs: "w_db evt_world = example_db" "w_db evt_world_alice = example_db"
    "w_db big_max_world = example_db"
    by (simp_all add: evt_world_alice_def evt_world_def big_max_world_def world_of_def)
  have bob_ud: "db_user (w_user_data evt_world) = Some bob"
    "evt_title (w_user_data evt_world) = Some ''Bible School''"
    "evt_date (w_user_data evt_world) = Some (2025, 1, 15)"
    by (simp_all add: evt_world_def world_of_def empty_user_data_def)
  have alice_ud: "db_user (w_user_data evt_world_alice) = Some alice"
    "evt_title (w_user_data evt_world_alice) = Some ''Bible School''"
    "evt_date (w_user_data evt_world_alice) = Some (2025, 1, 15)"
    by (simp_all add: evt_world_alice_def evt_world_def world_of_def empty_user_data_def)
  have big_ud: "db_user (w_user_data big_max_world) = Some bob"
    "evt_title (w_user_data big_max_world) = Some ''Bible School''"
    "evt_date (w_user_data big_max_world) = Some (2025, 1, 15)"
    by (simp_all add: big_max_world_def evt_world_def world_of_def empty_user_data_def)
  have stale_ud: "db_user (w_user_data stale_world) = Some bob"
    "evt_title (w_user_data stale_world) = Some ''Bible School''"
    "evt_date (w_user_data stale_world) = Some (2025, 1, 15)"
    by (simp_all add: stale_world_def evt_world_def world_of_def empty_user_data_def)
  have bob_ok: "int4 (case evt_max (w_user_data evt_world) of None \<Rightarrow> 0 | Some m \<Rightarrow> m) \<and>
      (case u_username bob of None \<Rightarrow> True | Some n \<Rightarrow> username_exists (w_db evt_world) n) \<and>
      u_role bob \<noteq> SUPER_ADMIN \<and> get_user (w_db evt_world) (u_telegram_id bob) \<noteq> None"
    by (simp add: dbs evt_world_def world_of_def empty_user_data_def int4_def
        username_exists_def get_user_def example_db_def alice_def bob_def carol_def)
  have alice_ok:
    "int4 (case evt_max (w_user_data evt_world_alice) of None \<Rightarrow> 0 | Some m \<Rightarrow> m) \<and>
      (case u_username alice of None \<Rightarrow> True
       | Some n \<Rightarrow> username_exists (w_db evt_world_alice) n) \<and>
      u_role alice = SUPER_ADMIN"
    by (simp add: dbs evt_world_alice_def evt_world_def world_of_def empty_user_data_def int4_def
        username_exists_def example_db_def alice_def bob_def carol_def)
  have big: "\<not> int4 (case evt_max (w_user_data big_max_world) of None \<Rightarrow> 0 | Some m \<Rightarrow> m)"
    by (simp add: big_max_world_def evt_world_def world_of_def empty_user_data_def int4_def)
  have users_renamed: "users renamed_db = [alice, bob\<lparr>u_username := Some ''bobby''\<rparr>, carol]"
    by (simp add: renamed_db_def upsert_user_def username_taken_def coalesce_def
        cascade_username_def example_db_def alice_def bob_def carol_def Let_def)
  have stale: "int4 (case evt_max (w_user_data stale_world) of None \<Rightarrow> 0 | Some m \<Rightarrow> m) \<and>
      \<not> (case u_username bob of None \<Rightarrow> True | Some n \<Rightarrow> username_exists (w_db stale_world) n)"
    by (simp add: stale_world_def evt_world_def world_of_def empty_user_data_def int4_def
        username_exists_def users_renamed alice_def bob_def carol_def)
  have wf: "events_wf (w_db evt_world_alice)"
    by (simp add: dbs events_wf_def example_db_def camp_def)
  note B = evt_confirm_by_role [OF accept bob_ud, THEN conjunct2, THEN conjunct1, rule_format, OF bob_ok,
      of flaky_bot]
  note A = evt_confirm_by_role [OF accept alice_ud, THEN conjunct1, rule_format, OF alice_ok, of flaky_bot]
  from B have c1: "map (\<lambda>e. (e_id e, e_title e, e_status e))
     (events (w_db (snd (evt_confirm flaky_bot ''evt_confirm:yes'' evt_world)))) =
     [(1, ''Camp'', PENDING), (2, ''Bible School'', PENDING)]"
    by (simp add: dbs submitted_event_def example_db_def camp_def)
  from B have c2: "map (\<lambda>q. (q_id q, q_request_type q, q_status q, q_payload_json q))
     (admin_requests (w_db (snd (evt_confirm flaky_bot ''evt_confirm:yes'' evt_world)))) =
     [(1, ''event_creation'', REQ_PENDING,
       Some [(''event_id'', JInt 1), (''event_title'', JStr ''Camp'')]),
      (2, ''event_creation'', REQ_PENDING,
       Some [(''event_id'', JInt 2), (''event_title'', JStr ''Bible School'')])]"
    by (simp add: dbs creation_request_def example_db_def camp_request_def)
  from A wf have c3: "map (\<lambda>e. (e_id e, e_title e, e_status e))
     (events (w_db (snd (evt_confirm flaky_bot ''evt_confirm:yes'' evt_world_alice)))) =
     [(1, ''Camp'', PENDING), (2, ''Bible School'', ACTIVE)]"
    by (simp add: dbs submitted_event_def example_db_def camp_def)
  from A have c4: "admin_requests (w_db (snd (evt_confirm flaky_bot ''evt_confirm:yes'' evt_world_alice))) =
     [camp_request]"
    by (simp add: dbs example_db_def)
  from evt_confirm_by_role [OF accept big_ud, THEN conjunct2, THEN conjunct2, THEN conjunct1, rule_format, OF big,
      of flaky_bot]
  have c5: "evt_confirm flaky_bot ''evt_confirm:yes'' big_max_world = (Inl DataError, big_max_world)" .
  note S = evt_confirm_by_role [OF accept stale_ud, THEN conjunct2, THEN conjunct2, THEN conjunct2, THEN conjunct1,
      rule_format, OF stale, of flaky_bot]
  from S have c6: "fst (evt_confirm flaky_bot ''evt_confirm:yes'' stale_world) =
      Inl ForeignKeyViolation"
    by simp
  from S have c7: "events (w_db (snd (evt_confirm flaky_bot ''evt_confirm:yes'' stale_world))) =
     events (w_db stale_world)"
    by simp
  from c1 c2 c3 c4 c5 c6 c7 show ?thesis
    by simp
qed

section \<open>Approval side effects\<close>

lemma apply_approval_requests:
  "admin_requests (w_db (snd (apply_approval bot_ok int_of_str req w))) = admin_requests (w_db w)"
proof -
  have role: "admin_requests (snd (set_user_role (w_db w) (q_username req) ADMIN)) =
      admin_requests (w_db w)"
    by (simp add: requests_set_user_role)
  have grant: "\<And>db t. admin_requests (snd (grant_table_access db (q_username req) t)) =
      admin_requests db"
    by (simp add: requests_grant_table_access)
  have act: "\<And>n. admin_requests (snd (activate_event (w_db w) n)) = admin_requests (w_db w)"
    by (simp add: activate_event_def requests_update_event)
  show ?thesis
    unfolding apply_approval_def
    using role grant act
    by (auto simp: Let_def split_def log_add_def broadcast_loop_eq
        split: option.splits sum.splits prod.splits)
qed

lemma activate_event_snd:
  "snd (activate_event db n) =
     db\<lparr>events := map (\<lambda>e. if e_id e = n then e\<lparr>e_status := ACTIVE\<rparr> else e) (events db)\<rparr>"
  by (simp add: activate_event_def update_event_def Let_def cong: if_cong)

lemma activate_event_rows:
  "events (snd (activate_event db n)) =
     map (\<lambda>e. if e_id e = n then e\<lparr>e_status := ACTIVE\<rparr> else e) (events db)"
  by (simp add: activate_event_snd)

lemma activate_event_missing:
  assumes "get_event db n = None"
  shows "snd (activate_event db n) = db"
proof -
  from assms have "\<not> list_ex (\<lambda>e. e_id e = n) (events db)"
    by (simp add: get_event_def find_None_list_ex)
  then have "map (\<lambda>e. if e_id e = n then e\<lparr>e_status := ACTIVE\<rparr> else e) (events db) = events db"
    by (rule map_if_id)
  then show ?thesis
    by (simp add: activate_event_snd)
qed

lemma activate_event_found:
  assumes "get_event db n = Some ev"
  shows "get_event (snd (activate_event db n)) n = Some (ev\<lparr>e_status := ACTIVE\<rparr>)"
proof -
  from assms have "e_id ev = n"
    using find_in_set [of "\<lambda>e. e_id e = n" "events db" ev] by (simp add: get_event_def)
  with assms show ?thesis
    by (simp add: get_event_def activate_event_rows find_map_same)
qed

lemma apply_approval_event:
  assumes "q_request_type req \<in> {''event_creation'', ''event_activation''}"
  shows "map_of (case q_payload_json req of None \<Rightarrow> [] | Some kv \<Rightarrow> kv) ''event_id'' = None \<Longrightarrow>
           apply_approval bot_ok int_of_str req w = (Inr (), w)"
    and "map_of (case q_payload_json req of None \<Rightarrow> [] | Some kv \<Rightarrow> kv) ''event_id'' =
           Some (JInt n) \<Longrightarrow> n \<noteq> 0 \<Longrightarrow>
           apply_approval bot_ok int_of_str req w =
             (Inr (), log_add (LOG_activated_event (JInt n))
                        (w\<lparr>w_db := snd (activate_event (w_db w) n)\<rparr>))"
    and "map_of (case q_payload_json req of None \<Rightarrow> [] | Some kv \<Rightarrow> kv) ''event_id'' =
           Some (JInt 0) \<Longrightarrow>
           apply_approval bot_ok int_of_str req w = (Inr (), w)"
  using assms by (auto simp: apply_approval_def Let_def split_def)

text \<open>C7, as stated, fails for a missing event reference: approving an \<open>event_creation\<close>
  request that has no payload completes, with every send delivered, and the log is as empty
  after it as before; the no-op is not logged.\<close>

theorem unreferenced_event_not_logged:
  "q_request_type (camp_request\<lparr>q_payload_json := None\<rparr>) = ''event_creation'' \<and>
   admin_requests bare_db = [camp_request\<lparr>q_payload_json := None\<rparr>] \<and>
   fst (handle_request_decision reliable_bot read_int ''approve'' 1 (Some alice_tg)
          (world_of bare_db empty_user_data)) = Inr None \<and>
   w_log (world_of bare_db empty_user_data) = [] \<and>
   w_log (snd (handle_request_decision reliable_bot read_int ''approve'' 1 (Some alice_tg)
                 (world_of bare_db empty_user_data))) = []"
  by (simp add: handle_request_decision_def handle_request_decision_body_def require_role_def
      bare_db_def fixture_defs alice_tg_def get_user_def approve_request_def decide_guard_def
      apply_approval_def reply_def send_message_def reliable_bot_def Let_def)

text \<open>C7, amended. For a request of type \<open>event_creation\<close> or \<open>event_activation\<close>: when
  the payload names an event by a non-zero integer, \<open>_apply_approval\<close> sets the status of
  the event of that id to active, logs the activation line and returns; when no event has
  that id the store is unchanged and the same activation line is all that is logged; when
  the payload has no event reference \<open>_apply_approval\<close> changes nothing and logs nothing. In
  none of these cases does it raise, and the approval of such a pending request by
  \<open>handle_request_decision\<close> completes: it returns normally, shows the decision text, and
  the request is no longer pending.\<close>

theorem event_approval_effect:
  assumes ty: "q_request_type req \<in> {''event_creation'', ''event_activation''}"
  shows
    "(map_of (case q_payload_json req of None \<Rightarrow> [] | Some kv \<Rightarrow> kv) ''event_id'' = Some (JInt n) \<and>
      n \<noteq> 0 \<longrightarrow>
        apply_approval bot_ok int_of_str req w =
          (Inr (), log_add (LOG_activated_event (JInt n))
                     (w\<lparr>w_db := snd (activate_event (w_db w) n)\<rparr>)) \<and>
        events (w_db (snd (apply_approval bot_ok int_of_str req w))) =
          map (\<lambda>e. if e_id e = n then e\<lparr>e_status := ACTIVE\<rparr> else e) (events (w_db w)) \<and>
        (get_event (w_db w) n = Some ev \<longrightarrow>
           get_event (w_db (snd (apply_approval bot_ok int_of_str req w))) n =
             Some (ev\<lparr>e_status := ACTIVE\<rparr>)) \<and>
        (get_event (w_db w) n = None \<longrightarrow>
           apply_approval bot_ok int_of_str req w =
             (Inr (), log_add (LOG_activated_event (JInt n)) w))) \<and>
     (map_of (case q_payload_json req of None \<Rightarrow> [] | Some kv \<Rightarrow> kv) ''event_id'' = None \<longrightarrow>
        apply_approval bot_ok int_of_str req w = (Inr (), w)) \<and>
     (find (decide_guard r) (admin_requests (w_db w)) = Some req \<and>
      (map_of (case q_payload_json req of None \<Rightarrow> [] | Some kv \<Rightarrow> kv) ''event_id'' = None \<or>
       map_of (case q_payload_json req of None \<Rightarrow> [] | Some kv \<Rightarrow> kv) ''event_id'' =
         Some (JInt n)) \<longrightarrow>
        fst (handle_request_decision_body bot_ok int_of_str ''approve'' r w) = Inr None \<and>
        MSG_decided r (q_request_type req) True (q_username req)
          \<in> set (w_replies (snd (handle_request_decision_body bot_ok int_of_str ''approve'' r w))) \<and>
        \<not> pending_in (w_db (snd (handle_request_decision_body bot_ok int_of_str ''approve'' r w))) r)"
proof (intro conjI impI)
  note ev = apply_approval_event [OF ty]
  {
    assume a: "map_of (case q_payload_json req of None \<Rightarrow> [] | Some kv \<Rightarrow> kv) ''event_id'' =
        Some (JInt n) \<and> n \<noteq> 0"
    then have r: "apply_approval bot_ok int_of_str req w =
          (Inr (), log_add (LOG_activated_event (JInt n))
                     (w\<lparr>w_db := snd (activate_event (w_db w) n)\<rparr>))"
      by (simp add: ev(2))
    then show "apply_approval bot_ok int_of_str req w =
          (Inr (), log_add (LOG_activated_event (JInt n))
                     (w\<lparr>w_db := snd (activate_event (w_db w) n)\<rparr>))" .
    show "events (w_db (snd (apply_approval bot_ok int_of_str req w))) =
          map (\<lambda>e. if e_id e = n then e\<lparr>e_status := ACTIVE\<rparr> else e) (events (w_db w))"
      by (simp add: r log_add_def activate_event_rows)
    {
      assume "get_event (w_db w) n = Some ev"
      then show "get_event (w_db (snd (apply_approval bot_ok int_of_str req w))) n =
             Some (ev\<lparr>e_status := ACTIVE\<rparr>)"
        by (simp add: r log_add_def activate_event_found)
    }
    {
      assume "get_event (w_db w) n = None"
      then show "apply_approval bot_ok int_of_str req w =
             (Inr (), log_add (LOG_activated_event (JInt n)) w)"
        by (simp add: r activate_event_missing)
    }
  }
  {
    assume "map_of (case q_payload_json req of None \<Rightarrow> [] | Some kv \<Rightarrow> kv) ''event_id'' = None"
    then show "apply_approval bot_ok int_of_str req w = (Inr (), w)"
      by (rule ev(1))
  }
  {
    assume a: "find (decide_guard r) (admin_requests (w_db w)) = Some req \<and>
      (map_of (case q_payload_json req of None \<Rightarrow> [] | Some kv \<Rightarrow> kv) ''event_id'' = None \<or>
       map_of (case q_payload_json req of None \<Rightarrow> [] | Some kv \<Rightarrow> kv) ''event_id'' =
         Some (JInt n))"
    define rv where "rv = (case db_user (w_user_data w) of None \<Rightarrow> Some ''super_admin''
                           | Some u \<Rightarrow> u_username u)"
    define req' where "req' = req\<lparr>q_status := APPROVED, q_reviewed_by := rv,
                                   q_reviewed_at := Some (clock (w_db w))\<rparr>"
    define db1 where "db1 = snd (approve_request (w_db w) r rv)"
    define w1 where "w1 = w\<lparr>w_db := db1\<rparr>"
    from a have found: "approve_request (w_db w) r rv = (Some req', db1)"
      by (simp add: approve_request_def Let_def req'_def db1_def)
    have ty': "q_request_type req' \<in> {''event_creation'', ''event_activation''}"
      and pl: "q_payload_json req' = q_payload_json req"
      using ty by (simp_all add: req'_def)
    from a pl have ok: "fst (apply_approval bot_ok int_of_str req' w1) = Inr ()"
      using apply_approval_event [OF ty', where bot_ok = bot_ok and int_of_str = int_of_str
          and w = w1]
      by (cases "n = 0") auto
    have rq: "admin_requests (w_db (snd (apply_approval bot_ok int_of_str req' w1))) =
        admin_requests db1"
      by (simp add: apply_approval_requests w1_def)
    obtain w2 where w2: "apply_approval bot_ok int_of_str req' w1 = (Inr (), w2)"
      using ok by (cases "apply_approval bot_ok int_of_str req' w1") auto
    have body: "handle_request_decision_body bot_ok int_of_str ''approve'' r w =
        (let w3 = reply (MSG_decided r (q_request_type req') True (q_username req')) w2
         in (case q_telegram_id req' of
               None \<Rightarrow> (Inr None, w3)
             | Some t \<Rightarrow>
                 (if t = 0 then (Inr None, w3)
                  else
                    (case send_message bot_ok t
                            (MSG_requester_notice (q_id req') (q_request_type req') True) w3 of
                       (Inl e, w4) \<Rightarrow> (Inr None, log_add (LOG_notify_requester_failed t) w4)
                     | (Inr u, w4) \<Rightarrow> (Inr None, w4)))))"
      unfolding handle_request_decision_body_def rv_def [symmetric]
      by (simp add: Let_def found w1_def [symmetric] w2 cong: option.case_cong if_cong)
    from rq w2 have rq2: "admin_requests (w_db w2) = admin_requests db1"
      by simp
    have np: "\<not> pending_in db1 r"
      by (simp add: db1_def pending_in_def approve_request_rows decide_rows)
    show "fst (handle_request_decision_body bot_ok int_of_str ''approve'' r w) = Inr None"
      by (simp add: body Let_def send_message_def split: option.splits)
    show "MSG_decided r (q_request_type req) True (q_username req)
          \<in> set (w_replies (snd (handle_request_decision_body bot_ok int_of_str ''approve'' r w)))"
      by (simp add: body Let_def send_message_def reply_def log_add_def req'_def
          split: option.splits)
    show "\<not> pending_in (w_db (snd (handle_request_decision_body bot_ok int_of_str ''approve'' r w))) r"
      using np rq2
      by (simp add: body Let_def send_message_def reply_def log_add_def pending_in_def
          split: option.splits)
  }
qed

theorem event_approval_effect_witness:
  "apply_approval reliable_bot read_int camp_request full_world =
     (Inr (), log_add (LOG_activated_event (JInt 1))
                (full_world\<lparr>w_db := example_db\<lparr>events := [camp\<lparr>e_status := ACTIVE\<rparr>]\<rparr>\<rparr>)) \<and>
   get_event (w_db (snd (apply_approval reliable_bot read_int camp_request full_world))) 1 =
     Some (camp\<lparr>e_status := ACTIVE\<rparr>) \<and>
   apply_approval reliable_bot read_int camp_request (world_of gone_db empty_user_data) =
     (Inr (), log_add (LOG_activated_event (JInt 1)) (world_of gone_db empty_user_data)) \<and>
   apply_approval reliable_bot read_int (camp_request\<lparr>q_payload_json := None\<rparr>) full_world =
     (Inr (), full_world) \<and>
   fst (handle_request_decision_body reliable_bot read_int ''approve'' 1 full_world) = Inr None"
proof -
  have ty: "q_request_type camp_request \<in> {''event_creation'', ''event_activation''}"
    and ty': "q_request_type (camp_request\<lparr>q_payload_json := None\<rparr>)
                \<in> {''event_creation'', ''event_activation''}"
    by (simp_all add: camp_request_def)
  have ref: "map_of (case q_payload_json camp_request of None \<Rightarrow> [] | Some kv \<Rightarrow> kv) ''event_id'' =
      Some (JInt 1) \<and> (1::int) \<noteq> 0"
    by (simp add: camp_request_def)
  have noref: "map_of (case q_payload_json (camp_request\<lparr>q_payload_json := None\<rparr>) of
                         None \<Rightarrow> [] | Some kv \<Rightarrow> kv) ''event_id'' = None"
    by simp
  have there: "get_event (w_db full_world) 1 = Some camp"
    and gone: "get_event (w_db (world_of gone_db empty_user_data)) 1 = None"
    by (simp_all add: full_world_def gone_db_def world_of_def example_db_def get_event_def camp_def)
  have act: "snd (activate_event (w_db full_world) 1) =
      example_db\<lparr>events := [camp\<lparr>e_status := ACTIVE\<rparr>]\<rparr>"
    by (simp add: activate_event_snd full_world_def world_of_def example_db_def camp_def)
  note A = event_approval_effect [OF ty, THEN conjunct1, rule_format, OF ref]
  from A [THEN conjunct1, of reliable_bot read_int full_world]
  have c1: "apply_approval reliable_bot read_int camp_request full_world =
     (Inr (), log_add (LOG_activated_event (JInt 1))
                (full_world\<lparr>w_db := example_db\<lparr>events := [camp\<lparr>e_status := ACTIVE\<rparr>]\<rparr>\<rparr>))"
    by (simp add: act)
  from A [THEN conjunct2, THEN conjunct2, THEN conjunct1, rule_format, OF there]
  have c2: "get_event (w_db (snd (apply_approval reliable_bot read_int camp_request full_world))) 1 =
     Some (camp\<lparr>e_status := ACTIVE\<rparr>)" .
  from A [THEN conjunct2, THEN conjunct2, THEN conjunct2, rule_format, OF gone]
  have c3: "apply_approval reliable_bot read_int camp_request (world_of gone_db empty_user_data) =
     (Inr (), log_add (LOG_activated_event (JInt 1)) (world_of gone_db empty_user_data))" .
  from event_approval_effect [OF ty', THEN conjunct2, THEN conjunct1, rule_format, OF noref]
  have c4: "apply_approval reliable_bot read_int (camp_request\<lparr>q_payload_json := None\<rparr>) full_world =
     (Inr (), full_world)" .
  have pend: "find (decide_guard 1) (admin_requests (w_db full_world)) = Some camp_request \<and>
      (map_of (case q_payload_json camp_request of None \<Rightarrow> [] | Some kv \<Rightarrow> kv) ''event_id'' = None \<or>
       map_of (case q_payload_json camp_request of None \<Rightarrow> [] | Some kv \<Rightarrow> kv) ''event_id'' =
         Some (JInt 1))"
    by (simp add: full_world_def world_of_def example_db_def decide_guard_def camp_request_def)
  from event_approval_effect [OF ty, THEN conjunct2, THEN conjunct2, rule_format, OF pend]
  have c5: "fst (handle_request_decision_body reliable_bot read_int ''approve'' 1 full_world) =
      Inr None"
    by simp
  from c1 c2 c3 c4 c5 show ?thesis
    by simp
qed

lemma decision_body_approve:
  assumes found: "find (decide_guard r) (admin_requests (w_db w)) = Some q"
    and rv: "rv = (case db_user (w_user_data w) of None \<Rightarrow> Some ''super_admin''
                   | Some u \<Rightarrow> u_username u)"
    and q': "q' = q\<lparr>q_status := APPROVED, q_reviewed_by := rv,
                     q_reviewed_at := Some (clock (w_db w))\<rparr>"
    and w1: "w1 = w\<lparr>w_db := snd (approve_request (w_db w) r rv)\<rparr>"
  shows "fst (apply_approval bot_ok int_of_str q' w1) = Inl e \<Longrightarrow>
           handle_request_decision_body bot_ok int_of_str ''approve'' r w =
             (Inl e, snd (apply_approval bot_ok int_of_str q' w1))"
    and "w_db (snd (handle_request_decision_body bot_ok int_of_str ''approve'' r w)) =
           w_db (snd (apply_approval bot_ok int_of_str q' w1))"
    and "fst (handle_request_decision_body bot_ok int_of_str ''approve'' r w) = Inl e \<Longrightarrow>
           fst (apply_approval bot_ok int_of_str q' w1) = Inl e"
proof -
  define db1 where "db1 = snd (approve_request (w_db w) r rv)"
  from found have ap: "approve_request (w_db w) r rv = (Some q', db1)"
    by (simp add: approve_request_def Let_def q' db1_def)
  have w1': "w\<lparr>w_db := db1\<rparr> = w1"
    by (simp add: w1 db1_def)
  obtain res w2 where side: "apply_approval bot_ok int_of_str q' w1 = (res, w2)"
    by (cases "apply_approval bot_ok int_of_str q' w1")
  have body: "handle_request_decision_body bot_ok int_of_str ''approve'' r w =
      (case res of
         Inl e \<Rightarrow> (Inl e, w2)
       | Inr u \<Rightarrow>
           (let w3 = reply (MSG_decided r (q_request_type q') True (q_username q')) w2
            in (case q_telegram_id q' of
                  None \<Rightarrow> (Inr None, w3)
                | Some t \<Rightarrow>
                    (if t = 0 then (Inr None, w3)
                     else
                       (case send_message bot_ok t
                               (MSG_requester_notice (q_id q') (q_request_type q') True) w3 of
                          (Inl e, w4) \<Rightarrow> (Inr None, log_add (LOG_notify_requester_failed t) w4)
                        | (Inr u, w4) \<Rightarrow> (Inr None, w4))))))"
    unfolding handle_request_decision_body_def rv [symmetric]
    by (simp add: Let_def ap w1' side cong: option.case_cong if_cong sum.case_cong
        split: sum.splits)
  show "fst (apply_approval bot_ok int_of_str q' w1) = Inl e \<Longrightarrow>
           handle_request_decision_body bot_ok int_of_str ''approve'' r w =
             (Inl e, snd (apply_approval bot_ok int_of_str q' w1))"
    by (simp add: body side)
  show "w_db (snd (handle_request_decision_body bot_ok int_of_str ''approve'' r w)) =
           w_db (snd (apply_approval bot_ok int_of_str q' w1))"
    by (simp add: body side Let_def send_message_def reply_def log_add_def
        split: sum.splits option.splits)
  show "fst (handle_request_decision_body bot_ok int_of_str ''approve'' r w) = Inl e \<Longrightarrow>
           fst (apply_approval bot_ok int_of_str q' w1) = Inl e"
    by (simp add: body side Let_def send_message_def reply_def log_add_def
        split: sum.splits option.splits if_splits)
qed

text \<open>C10. When \<open>approve_request\<close> finds the request pending, it returns the approved row
  and the store it has committed; \<open>_apply_approval\<close> runs on that store. Whatever the side
  effect does, raise or return, the request table after \<open>handle_request_decision\<close> is the
  committed one: it holds the approved row and no pending row of that id. If the side effect
  raises, the handler raises the same error, with the store as the side effect left it, and
  an error of the handler can only come from the side effect.\<close>

theorem approval_outlives_side_effect:
  assumes found: "find (decide_guard r) (admin_requests (w_db w)) = Some q"
    and rv: "rv = (case db_user (w_user_data w) of None \<Rightarrow> Some ''super_admin''
                   | Some u \<Rightarrow> u_username u)"
    and q': "q' = q\<lparr>q_status := APPROVED, q_reviewed_by := rv,
                     q_reviewed_at := Some (clock (w_db w))\<rparr>"
    and w1: "w1 = w\<lparr>w_db := snd (approve_request (w_db w) r rv)\<rparr>"
  shows
    "approve_request (w_db w) r rv = (Some q', w_db w1) \<and>
     admin_requests (w_db (snd (handle_request_decision_body bot_ok int_of_str ''approve'' r w))) =
       admin_requests (w_db w1) \<and>
     q' \<in> set (admin_requests
                 (w_db (snd (handle_request_decision_body bot_ok int_of_str ''approve'' r w)))) \<and>
     \<not> pending_in
          (w_db (snd (handle_request_decision_body bot_ok int_of_str ''approve'' r w))) r \<and>
     (fst (apply_approval bot_ok int_of_str q' w1) = Inl e \<longrightarrow>
        handle_request_decision_body bot_ok int_of_str ''approve'' r w =
          (Inl e, snd (apply_approval bot_ok int_of_str q' w1))) \<and>
     (fst (handle_request_decision_body bot_ok int_of_str ''approve'' r w) = Inl e \<longrightarrow>
        fst (apply_approval bot_ok int_of_str q' w1) = Inl e)"
proof -
  note body = decision_body_approve [OF found rv q' w1]
  have ap: "approve_request (w_db w) r rv = (Some q', w_db w1)"
    using found by (simp add: approve_request_def Let_def q' w1)
  have rows: "admin_requests
                (w_db (snd (handle_request_decision_body bot_ok int_of_str ''approve'' r w))) =
              admin_requests (w_db w1)"
    by (simp add: body(2) apply_approval_requests)
  have "fst (approve_request (w_db w) r rv) = Some q'"
    by (simp add: ap)
  from find_in_set [OF found] have "q \<in> set (admin_requests (w_db w))" and "decide_guard r q"
    by simp_all
  then have mem: "q' \<in> set (admin_requests (w_db w1))"
    by (auto simp: w1 q' approve_request_rows)
  have np: "\<not> pending_in (w_db w1) r"
    by (simp add: w1 pending_in_def approve_request_rows decide_rows)
  from rows mem np
  have dec: "q' \<in> set (admin_requests
                 (w_db (snd (handle_request_decision_body bot_ok int_of_str ''approve'' r w))))"
    and still: "\<not> pending_in
          (w_db (snd (handle_request_decision_body bot_ok int_of_str ''approve'' r w))) r"
    by (simp_all add: pending_in_def)
  from body(1) have raise: "fst (apply_approval bot_ok int_of_str q' w1) = Inl e \<longrightarrow>
        handle_request_decision_body bot_ok int_of_str ''approve'' r w =
          (Inl e, snd (apply_approval bot_ok int_of_str q' w1))"
    by (rule impI)
  from body(3) have origin: "fst (handle_request_decision_body bot_ok int_of_str ''approve'' r w) = Inl e \<longrightarrow>
        fst (apply_approval bot_ok int_of_str q' w1) = Inl e"
    by (rule impI)
  from ap rows dec still raise origin show ?thesis
    by (intro conjI)
qed

theorem approval_outlives_side_effect_witness:
  "fst (handle_request_decision_body reliable_bot read_int ''approve'' 1
          (world_of ghost_db (empty_user_data\<lparr>db_user := Some alice\<rparr>))) =
     Inl ForeignKeyViolation \<and>
   admin_requests
     (w_db (snd (handle_request_decision_body reliable_bot read_int ''approve'' 1
                   (world_of ghost_db (empty_user_data\<lparr>db_user := Some alice\<rparr>))))) =
     [ghost_request\<lparr>q_status := APPROVED, q_reviewed_by := Some ''alice'',
                     q_reviewed_at := Some 5\<rparr>]"
proof -
  define w where "w = world_of ghost_db (empty_user_data\<lparr>db_user := Some alice\<rparr>)"
  define q' where "q' = ghost_request\<lparr>q_status := APPROVED, q_reviewed_by := Some ''alice'',
                     q_reviewed_at := Some 5\<rparr>"
  define w1 where "w1 = w\<lparr>w_db := ghost_db\<lparr>admin_requests := [q']\<rparr>\<rparr>"
  have found: "find (decide_guard 1) (admin_requests (w_db w)) = Some ghost_request"
    by (simp add: w_def world_of_def ghost_db_def decide_guard_def ghost_request_def)
  have rv: "Some ''alice'' = (case db_user (w_user_data w) of None \<Rightarrow> Some ''super_admin''
                              | Some u \<Rightarrow> u_username u)"
    by (simp add: w_def world_of_def empty_user_data_def alice_def)
  have q: "q' = ghost_request\<lparr>q_status := APPROVED, q_reviewed_by := Some ''alice'',
                     q_reviewed_at := Some (clock (w_db w))\<rparr>"
    by (simp add: q'_def w_def world_of_def ghost_db_def example_db_def)
  have w1: "w1 = w\<lparr>w_db := snd (approve_request (w_db w) 1 (Some ''alice''))\<rparr>"
    by (simp add: w1_def q'_def w_def world_of_def ghost_db_def example_db_def approve_request_def
        decide_guard_def ghost_request_def Let_def)
  have raises: "fst (apply_approval reliable_bot read_int q' w1) = Inl ForeignKeyViolation"
    by (simp add: apply_approval_def q'_def ghost_request_def w1_def w_def world_of_def
        ghost_db_def example_db_def set_user_role_def grant_table_access_def username_exists_def
        alice_def bob_def carol_def Let_def)
  note T = approval_outlives_side_effect [OF found rv q w1, of reliable_bot read_int
      ForeignKeyViolation]
  from T raises have c1: "fst (handle_request_decision_body reliable_bot read_int ''approve'' 1 w) =
     Inl ForeignKeyViolation"
    by simp
  from T have c2: "admin_requests
     (w_db (snd (handle_request_decision_body reliable_bot read_int ''approve'' 1 w))) = [q']"
    by (simp add: w1_def)
  from c1 c2 show ?thesis
    unfolding w_def q'_def by simp
qed

section \<open>Identity upsert\<close>

text \<open>C9, as stated, fails when the incoming username belongs to someone else: Bob is
  registered, and on contact Telegram reports for him the username that Alice's row holds;
  the upsert raises the uniqueness error of \<open>username TEXT UNIQUE\<close>, \<open>cmd_start\<close> raises
  with it, and Bob's row keeps its old \<open>full_name\<close>.\<close>

theorem upsert_user_username_collision:
  "get_user example_db 2 = Some bob \<and> u_full_name bob = ''Bob'' \<and>
   upsert_user example_db 2 (Some ''alice'') ''Robert'' None = (Inl UniqueViolation, example_db) \<and>
   cmd_start bob_as_alice_tg full_world = (Inl UniqueViolation, full_world)"
  by (simp add: upsert_user_def username_taken_def coalesce_def get_user_def cmd_start_def
      bob_as_alice_tg_def full_world_def world_of_def example_db_def alice_def bob_def carol_def
      Let_def)

lemma cascade_username_users: "users (cascade_username a b db) = users db"
  by (simp add: cascade_username_def split: option.splits)

lemma upsert_user_existing:
  assumes old: "get_user db tid = Some old"
  shows "username_taken db tid (coalesce un (u_username old)) \<Longrightarrow>
           upsert_user db tid un fn ph = (Inl UniqueViolation, db)"
    and "\<not> username_taken db tid (coalesce un (u_username old)) \<Longrightarrow>
           upsert_user db tid un fn ph =
             (Inr (old\<lparr>u_username := coalesce un (u_username old), u_full_name := fn\<rparr>),
              cascade_username (u_username old) (coalesce un (u_username old))
                (db\<lparr>users := map (\<lambda>u. if u_telegram_id u = tid
                                       then u\<lparr>u_username := coalesce un (u_username u),
                                              u_full_name := fn\<rparr>
                                       else u) (users db)\<rparr>))"
  using old by (simp_all add: upsert_user_def get_user_def Let_def)

text \<open>C9, amended. For a user who is already registered, the upsert either raises the
  uniqueness error and changes nothing, which happens exactly when the username the row
  would get is held by another user; or it returns and stores the old row with \<open>full_name\<close>
  overwritten and \<open>username\<close> replaced by the incoming one when that is not null and kept
  otherwise, so that role, phone and the telegram id are as before and the rows of other
  users are untouched. \<open>cmd_start\<close> passes that result on.\<close>

theorem upsert_user_registered:
  assumes old: "get_user db tid = Some old"
  shows
    "(username_taken db tid (coalesce un (u_username old)) \<longrightarrow>
        upsert_user db tid un fn ph = (Inl UniqueViolation, db)) \<and>
     (\<not> username_taken db tid (coalesce un (u_username old)) \<longrightarrow>
        fst (upsert_user db tid un fn ph) =
          Inr (old\<lparr>u_username := coalesce un (u_username old), u_full_name := fn\<rparr>) \<and>
        get_user (snd (upsert_user db tid un fn ph)) tid =
          Some (old\<lparr>u_username := coalesce un (u_username old), u_full_name := fn\<rparr>) \<and>
        users (snd (upsert_user db tid un fn ph)) =
          map (\<lambda>u. if u_telegram_id u = tid
                    then u\<lparr>u_username := coalesce un (u_username u), u_full_name := fn\<rparr>
                    else u) (users db)) \<and>
     u_role (old\<lparr>u_username := coalesce un (u_username old), u_full_name := fn\<rparr>) = u_role old \<and>
     u_phone (old\<lparr>u_username := coalesce un (u_username old), u_full_name := fn\<rparr>) = u_phone old \<and>
     u_telegram_id (old\<lparr>u_username := coalesce un (u_username old), u_full_name := fn\<rparr>) = tid \<and>
     u_full_name (old\<lparr>u_username := coalesce un (u_username old), u_full_name := fn\<rparr>) = fn \<and>
     coalesce None (u_username old) = u_username old \<and>
     coalesce (Some n) (u_username old) = Some n \<and>
     (tg_id tg = tid \<and> \<not> username_taken db tid (coalesce (tg_username tg) (u_username old)) \<and>
      w_db w = db \<and> tg_full_name tg \<noteq> [] \<longrightarrow>
        cmd_start tg w =
          (Inr None,
           reply (MSG_welcome (tg_full_name tg))
             (w\<lparr>w_db := snd (upsert_user db tid (tg_username tg) (tg_full_name tg) None)\<rparr>)))"
proof (intro conjI impI)
  note up = upsert_user_existing [OF old]
  from old have id: "u_telegram_id old = tid"
    using find_in_set [of "\<lambda>u. u_telegram_id u = tid" "users db" old] by (simp add: get_user_def)
  show "username_taken db tid (coalesce un (u_username old)) \<Longrightarrow>
        upsert_user db tid un fn ph = (Inl UniqueViolation, db)"
    by (rule up(1))
  {
    assume free: "\<not> username_taken db tid (coalesce un (u_username old))"
    show "fst (upsert_user db tid un fn ph) =
          Inr (old\<lparr>u_username := coalesce un (u_username old), u_full_name := fn\<rparr>)"
      by (simp add: up(2) [OF free])
    show "users (snd (upsert_user db tid un fn ph)) =
          map (\<lambda>u. if u_telegram_id u = tid
                    then u\<lparr>u_username := coalesce un (u_username u), u_full_name := fn\<rparr>
                    else u) (users db)"
      by (simp add: up(2) [OF free] cascade_username_users)
    then show "get_user (snd (upsert_user db tid un fn ph)) tid =
          Some (old\<lparr>u_username := coalesce un (u_username old), u_full_name := fn\<rparr>)"
      using old id by (simp add: get_user_def find_map_same)
  }
  show "u_role (old\<lparr>u_username := coalesce un (u_username old), u_full_name := fn\<rparr>) = u_role old"
    and "u_phone (old\<lparr>u_username := coalesce un (u_username old), u_full_name := fn\<rparr>) = u_phone old"
    and "u_full_name (old\<lparr>u_username := coalesce un (u_username old), u_full_name := fn\<rparr>) = fn"
    and "coalesce None (u_username old) = u_username old"
    and "coalesce (Some n) (u_username old) = Some n"
    by (simp_all add: coalesce_def)
  show "u_telegram_id (old\<lparr>u_username := coalesce un (u_username old), u_full_name := fn\<rparr>) = tid"
    by (simp add: id)
  {
    assume a: "tg_id tg = tid \<and> \<not> username_taken db tid (coalesce (tg_username tg) (u_username old)) \<and>
      w_db w = db \<and> tg_full_name tg \<noteq> []"
    then have free: "\<not> username_taken db tid (coalesce (tg_username tg) (u_username old))"
      by simp
    from a show "cmd_start tg w =
          (Inr None,
           reply (MSG_welcome (tg_full_name tg))
             (w\<lparr>w_db := snd (upsert_user db tid (tg_username tg) (tg_full_name tg) None)\<rparr>))"
      by (simp add: cmd_start_def Let_def upsert_user_existing(2) [OF old free])
  }
qed

theorem upsert_user_registered_witness:
  "upsert_user example_db 2 (Some ''alice'') ''Robert'' None = (Inl UniqueViolation, example_db) \<and>
   get_user (snd (upsert_user example_db 2 None ''Robert'' (Some ''999''))) 2 =
     Some (bob\<lparr>u_full_name := ''Robert''\<rparr>) \<and>
   get_user (snd (upsert_user example_db 2 (Some ''bobby'') ''Robert'' None)) 2 =
     Some (bob\<lparr>u_username := Some ''bobby'', u_full_name := ''Robert''\<rparr>) \<and>
   users (w_db (snd (cmd_start robert_tg full_world))) =
     [alice, bob\<lparr>u_full_name := ''Robert''\<rparr>, carol]"
proof -
  have old: "get_user example_db 2 = Some bob"
    by (simp add: get_user_def example_db_def alice_def bob_def)
  have taken: "username_taken example_db 2 (coalesce (Some ''alice'') (u_username bob))"
    and free1: "\<not> username_taken example_db 2 (coalesce None (u_username bob))"
    and free2: "\<not> username_taken example_db 2 (coalesce (Some ''bobby'') (u_username bob))"
    by (simp_all add: username_taken_def coalesce_def example_db_def alice_def bob_def carol_def)
  note T = upsert_user_registered [OF old]
  from T [THEN conjunct1, rule_format, OF taken]
  have c1: "upsert_user example_db 2 (Some ''alice'') ''Robert'' None =
      (Inl UniqueViolation, example_db)" .
  from T [THEN conjunct2, THEN conjunct1, rule_format, OF free1, THEN conjunct2, THEN conjunct1,
      of "''Robert''" "Some ''999''"]
  have c2: "get_user (snd (upsert_user example_db 2 None ''Robert'' (Some ''999''))) 2 =
     Some (bob\<lparr>u_full_name := ''Robert''\<rparr>)"
    by (simp add: coalesce_def bob_def)
  from T [THEN conjunct2, THEN conjunct1, rule_format, OF free2, THEN conjunct2, THEN conjunct1,
      of "''Robert''" None]
  have c3: "get_user (snd (upsert_user example_db 2 (Some ''bobby'') ''Robert'' None)) 2 =
     Some (bob\<lparr>u_username := Some ''bobby'', u_full_name := ''Robert''\<rparr>)"
    by (simp add: coalesce_def)
  have start: "tg_id robert_tg = 2 \<and>
      \<not> username_taken example_db 2 (coalesce (tg_username robert_tg) (u_username bob)) \<and>
      w_db full_world = example_db \<and> tg_full_name robert_tg \<noteq> []"
    using free1 by (simp add: robert_tg_def full_world_def world_of_def)
  note S = T [THEN conjunct2, THEN conjunct2, THEN conjunct2, THEN conjunct2, THEN conjunct2,
      THEN conjunct2, THEN conjunct2, THEN conjunct2, rule_format, OF start]
  have "users (snd (upsert_user example_db 2 None ''Robert'' None)) =
      [alice, bob\<lparr>u_full_name := ''Robert''\<rparr>, carol]"
    using T [THEN conjunct2, THEN conjunct1, rule_format, OF free1, THEN conjunct2, THEN conjunct2,
      of "''Robert''" None]
    by (simp add: coalesce_def example_db_def alice_def bob_def carol_def)
  with S have c4: "users (w_db (snd (cmd_start robert_tg full_world))) =
     [alice, bob\<lparr>u_full_name := ''Robert''\<rparr>, carol]"
    by (simp add: reply_def robert_tg_def)
  from c1 c2 c3 c4 show ?thesis
    by simp
qed

section \<open>Cancellation\<close>

text \<open>C8, as stated, fails on the collected fields: Carol has reached the confirm step with
  a phone number collected and sends \<open>/cancel\<close>; the conversation ends, and the phone number
  is still in \<open>user_data\<close>, also after she has started the registration flow afresh.\<close>

theorem cancel_keeps_collected_fields:
  "reg_phone (w_user_data roomy_confirm_world) = Some (Some ''777'') \<and>
   registration_conv carol_tg CONFIRM (Command ''cancel'' ''/cancel'') roomy_confirm_world =
     Some (Inr (Some END), reply MSG_reg_cancelled roomy_confirm_world) \<and>
   reg_phone (w_user_data (reply MSG_reg_cancelled roomy_confirm_world)) = Some (Some ''777'') \<and>
   fst (reg_start 1 carol_tg (reply MSG_reg_cancelled roomy_confirm_world)) = Inr (Some ASK_NAME) \<and>
   reg_phone (w_user_data (snd (reg_start 1 carol_tg (reply MSG_reg_cancelled roomy_confirm_world)))) =
     Some (Some ''777'')"
  by (simp add: roomy_confirm_world_def carol_confirm_world_def roomy_world_def world_of_def
      registration_conv_def cancel_def reply_def reg_start_def get_event_def get_user_def
      count_event_registrations_def example_db_def empty_user_data_def carol_tg_def camp_def
      carol_reg_def alice_def bob_def carol_def ASK_NAME_def ASK_PHONE_def ASK_LEVEL_def
      CONFIRM_def Let_def)

lemma reply_frame:
  "w_db (reply t w) = w_db w \<and> w_user_data (reply t w) = w_user_data w \<and>
   w_outbox (reply t w) = w_outbox w \<and> w_log (reply t w) = w_log w \<and>
   w_replies (reply t w) = w_replies w @ [t]"
  by (simp add: reply_def)

lemma registration_cancel:
  "state \<in> {ASK_NAME, ASK_PHONE, ASK_LEVEL, CONFIRM} \<Longrightarrow>
     registration_conv tg state (Command ''cancel'' t) w =
       Some (Inr (Some END), reply MSG_reg_cancelled w)"
  "registration_conv tg CONFIRM (Callback ''reg_confirm:no'') w =
       Some (Inr (Some END), reply MSG_reg_cancelled w)"
  by (auto simp: registration_conv_def cancel_def confirm_def)

lemma evt_cancel_any:
  "state \<in> {EVT_TITLE, EVT_DATE, EVT_TIME, EVT_PLACE, EVT_DESC, EVT_MAX, EVT_CONFIRM} \<Longrightarrow>
     evt_conv bot_ok fromisoformat int_of_str state (Command ''cancel'' t) w =
       Some (Inr (Some END), reply MSG_evt_cancelled w)"
  "evt_conv bot_ok fromisoformat int_of_str EVT_CONFIRM (Callback ''evt_confirm:no'') w =
       Some (Inr (Some END), reply MSG_evt_creation_cancelled w)"
  by (auto simp: evt_conv_def evt_cancel_def evt_confirm_def)

lemma info_cancel_any:
  "state \<in> {INFO_CATEGORY, INFO_TITLE, INFO_CONTENT, INFO_CONFIRM} \<Longrightarrow>
     info_conv state (Command ''cancel'' t) w = Some (Inr (Some END), reply MSG_info_cancelled w)"
  "info_conv INFO_CONFIRM (Callback ''info_confirm:no'') w =
       Some (Inr (Some END), reply MSG_info_creation_cancelled w)"
  by (auto simp: info_conv_def info_cancel_def info_confirm_def)

lemma ai_cancel_any:
  "state \<in> {WAIT_TEXT_CMD, WAIT_CONFIRM} \<Longrightarrow>
     ai_conv text_cmd_parse execute state (Command ''cancel'' t) w =
       Some (Inr (Some END), reply MSG_ai_command_cancelled w)"
  "ai_conv text_cmd_parse execute WAIT_CONFIRM (Callback ''ai_confirm:no'') w =
       Some (Inr (Some END), reply MSG_ai_cancelled w)"
  by (auto simp: ai_conv_def text_cmd_cancel_def text_cmd_confirm_def)

lemma bc_cancel_any:
  "state \<in> {BC_TEXT, BC_CONFIRM} \<Longrightarrow>
     bc_conv bot_ok state (Command ''cancel'' t) w = Some (Inr (Some END), reply MSG_bc_cancelled w)"
  "bc_conv bot_ok BC_CONFIRM (Callback ''bc_confirm:no'') w =
       Some (Inr (Some END), reply MSG_bc_cancelled w)"
  by (auto simp: bc_conv_def broadcast_cancel_def broadcast_confirm_def)

lemma reg_start_user_data:
  assumes "get_event (w_db w) e = Some ev"
    and "\<not> (0 < e_max_participants ev \<and>
            e_max_participants ev \<le> count_event_registrations (w_db w) e)"
  shows "w_user_data (snd (reg_start e tg w)) =
           (w_user_data w)\<lparr>reg_event_id := Some e, reg_event_title := Some (e_title ev),
              reg_name := (case get_user (w_db w) (tg_id tg) of
                             None \<Rightarrow> reg_name (w_user_data w)
                           | Some u \<Rightarrow> if u_full_name u \<noteq> [] then Some (u_full_name u)
                                       else reg_name (w_user_data w))\<rparr>"
  using assms by (auto simp: reg_start_def Let_def reply_def split: option.splits)

lemma admin_start_user_data:
  assumes "get_user (w_db w) (tg_id tg) = Some u" and "u_role u \<in> {ADMIN, SUPER_ADMIN}"
  shows "evt_start (Some tg) w =
           (Inr (Some EVT_TITLE),
            reply MSG_evt_ask_title (w\<lparr>w_user_data := (w_user_data w)\<lparr>db_user := Some u\<rparr>\<rparr>))"
    and "info_start (Some tg) w =
           (Inr (Some INFO_CATEGORY),
            reply MSG_info_ask_category (w\<lparr>w_user_data := (w_user_data w)\<lparr>db_user := Some u\<rparr>\<rparr>))"
    and "text_cmd_start (Some tg) w =
           (Inr (Some WAIT_TEXT_CMD),
            reply MSG_ai_ask_command (w\<lparr>w_user_data := (w_user_data w)\<lparr>db_user := Some u\<rparr>\<rparr>))"
  using assms by (auto simp: evt_start_def info_start_def text_cmd_start_def require_role_def)

lemma broadcast_start_user_data:
  assumes "get_user (w_db w) (tg_id tg) = Some u" and "u_role u = SUPER_ADMIN"
  shows "broadcast_start (Some tg) w =
           (Inr (Some BC_TEXT),
            reply MSG_bc_ask_text (w\<lparr>w_user_data := (w_user_data w)\<lparr>db_user := Some u\<rparr>\<rparr>))"
  using assms by (simp add: broadcast_start_def require_role_def)

text \<open>C8, amended. In each of the five flows, \<open>/cancel\<close> in any state of the conversation
  and the declining button at the confirm step end the conversation with an acknowledgment
  and nothing else: the store, the collected fields in \<open>user_data\<close>, the outbox and the log
  are as before. The collected fields are therefore not discarded. A fresh start writes only
  its own keys: \<open>reg_start\<close>, when it goes on, sets the event id and title, and the name if
  the user's stored name is not empty; the entry points of the admin flows and of the
  broadcast flow set the cached identity; every other field stays as the cancelled run left
  it.\<close>

theorem cancel_leaves_store_and_fields:
  "(state \<in> {ASK_NAME, ASK_PHONE, ASK_LEVEL, CONFIRM} \<longrightarrow>
      registration_conv tg state (Command ''cancel'' t) w =
        Some (Inr (Some END), reply MSG_reg_cancelled w)) \<and>
   registration_conv tg CONFIRM (Callback ''reg_confirm:no'') w =
     Some (Inr (Some END), reply MSG_reg_cancelled w) \<and>
   (state \<in> {EVT_TITLE, EVT_DATE, EVT_TIME, EVT_PLACE, EVT_DESC, EVT_MAX, EVT_CONFIRM} \<longrightarrow>
      evt_conv bot_ok fromisoformat int_of_str state (Command ''cancel'' t) w =
        Some (Inr (Some END), reply MSG_evt_cancelled w)) \<and>
   evt_conv bot_ok fromisoformat int_of_str EVT_CONFIRM (Callback ''evt_confirm:no'') w =
     Some (Inr (Some END), reply MSG_evt_creation_cancelled w) \<and>
   (state \<in> {INFO_CATEGORY, INFO_TITLE, INFO_CONTENT, INFO_CONFIRM} \<longrightarrow>
      info_conv state (Command ''cancel'' t) w =
        Some (Inr (Some END), reply MSG_info_cancelled w)) \<and>
   info_conv INFO_CONFIRM (Callback ''info_confirm:no'') w =
     Some (Inr (Some END), reply MSG_info_creation_cancelled w) \<and>
   (state \<in> {WAIT_TEXT_CMD, WAIT_CONFIRM} \<longrightarrow>
      ai_conv text_cmd_parse execute state (Command ''cancel'' t) w =
        Some (Inr (Some END), reply MSG_ai_command_cancelled w)) \<and>
   ai_conv text_cmd_parse execute WAIT_CONFIRM (Callback ''ai_confirm:no'') w =
     Some (Inr (Some END), reply MSG_ai_cancelled w) \<and>
   (state \<in> {BC_TEXT, BC_CONFIRM} \<longrightarrow>
      bc_conv bot_ok state (Command ''cancel'' t) w =
        Some (Inr (Some END), reply MSG_bc_cancelled w)) \<and>
   bc_conv bot_ok BC_CONFIRM (Callback ''bc_confirm:no'') w =
     Some (Inr (Some END), reply MSG_bc_cancelled w) \<and>
   w_db (reply m w) = w_db w \<and> w_user_data (reply m w) = w_user_data w \<and>
   w_outbox (reply m w) = w_outbox w \<and> w_log (reply m w) = w_log w \<and>
   (get_event (w_db w) e = Some ev \<and>
    \<not> (0 < e_max_participants ev \<and>
       e_max_participants ev \<le> count_event_registrations (w_db w) e) \<longrightarrow>
      w_user_data (snd (reg_start e tg w)) =
        (w_user_data w)\<lparr>reg_event_id := Some e, reg_event_title := Some (e_title ev),
           reg_name := (case get_user (w_db w) (tg_id tg) of
                          None \<Rightarrow> reg_name (w_user_data w)
                        | Some u \<Rightarrow> if u_full_name u \<noteq> [] then Some (u_full_name u)
                                    else reg_name (w_user_data w))\<rparr>) \<and>
   (get_user (w_db w) (tg_id tg) = Some u \<and> u_role u \<in> {ADMIN, SUPER_ADMIN} \<longrightarrow>
      w_user_data (snd (evt_start (Some tg) w)) = (w_user_data w)\<lparr>db_user := Some u\<rparr> \<and>
      w_user_data (snd (info_start (Some tg) w)) = (w_user_data w)\<lparr>db_user := Some u\<rparr> \<and>
      w_user_data (snd (text_cmd_start (Some tg) w)) = (w_user_data w)\<lparr>db_user := Some u\<rparr>) \<and>
   (get_user (w_db w) (tg_id tg) = Some u \<and> u_role u = SUPER_ADMIN \<longrightarrow>
      w_user_data (snd (broadcast_start (Some tg) w)) = (w_user_data w)\<lparr>db_user := Some u\<rparr>)"
proof (intro conjI impI)
  show "state \<in> {ASK_NAME, ASK_PHONE, ASK_LEVEL, CONFIRM} \<Longrightarrow>
      registration_conv tg state (Command ''cancel'' t) w =
        Some (Inr (Some END), reply MSG_reg_cancelled w)"
    by (rule registration_cancel(1))
  show "registration_conv tg CONFIRM (Callback ''reg_confirm:no'') w =
     Some (Inr (Some END), reply MSG_reg_cancelled w)"
    by (rule registration_cancel(2))
  show "state \<in> {EVT_TITLE, EVT_DATE, EVT_TIME, EVT_PLACE, EVT_DESC, EVT_MAX, EVT_CONFIRM} \<Longrightarrow>
      evt_conv bot_ok fromisoformat int_of_str state (Command ''cancel'' t) w =
        Some (Inr (Some END), reply MSG_evt_cancelled w)"
    by (rule evt_cancel_any(1))
  show "evt_conv bot_ok fromisoformat int_of_str EVT_CONFIRM (Callback ''evt_confirm:no'') w =
     Some (Inr (Some END), reply MSG_evt_creation_cancelled w)"
    by (rule evt_cancel_any(2))
  show "state \<in> {INFO_CATEGORY, INFO_TITLE, INFO_CONTENT, INFO_CONFIRM} \<Longrightarrow>
      info_conv state (Command ''cancel'' t) w =
        Some (Inr (Some END), reply MSG_info_cancelled w)"
    by (rule info_cancel_any(1))
  show "info_conv INFO_CONFIRM (Callback ''info_confirm:no'') w =
     Some (Inr (Some END), reply MSG_info_creation_cancelled w)"
    by (rule info_cancel_any(2))
  show "state \<in> {WAIT_TEXT_CMD, WAIT_CONFIRM} \<Longrightarrow>
      ai_conv text_cmd_parse execute state (Command ''cancel'' t) w =
        Some (Inr (Some END), reply MSG_ai_command_cancelled w)"
    by (rule ai_cancel_any(1))
  show "ai_conv text_cmd_parse execute WAIT_CONFIRM (Callback ''ai_confirm:no'') w =
     Some (Inr (Some END), reply MSG_ai_cancelled w)"
    by (rule ai_cancel_any(2))
  show "state \<in> {BC_TEXT, BC_CONFIRM} \<Longrightarrow>
      bc_conv bot_ok state (Command ''cancel'' t) w =
        Some (Inr (Some END), reply MSG_bc_cancelled w)"
    by (rule bc_cancel_any(1))
  show "bc_conv bot_ok BC_CONFIRM (Callback ''bc_confirm:no'') w =
     Some (Inr (Some END), reply MSG_bc_cancelled w)"
    by (rule bc_cancel_any(2))
  show "w_db (reply m w) = w_db w" and "w_user_data (reply m w) = w_user_data w"
    and "w_outbox (reply m w) = w_outbox w" and "w_log (reply m w) = w_log w"
    by (simp_all add: reply_frame)
next
  assume "get_event (w_db w) e = Some ev \<and>
    \<not> (0 < e_max_participants ev \<and>
       e_max_participants ev \<le> count_event_registrations (w_db w) e)"
  then have "get_event (w_db w) e = Some ev"
    and "\<not> (0 < e_max_participants ev \<and>
            e_max_participants ev \<le> count_event_registrations (w_db w) e)"
    by blast+
  then show "w_user_data (snd (reg_start e tg w)) =
        (w_user_data w)\<lparr>reg_event_id := Some e, reg_event_title := Some (e_title ev),
           reg_name := (case get_user (w_db w) (tg_id tg) of
                          None \<Rightarrow> reg_name (w_user_data w)
                        | Some u \<Rightarrow> if u_full_name u \<noteq> [] then Some (u_full_name u)
                                    else reg_name (w_user_data w))\<rparr>"
    by (rule reg_start_user_data)
next
  assume "get_user (w_db w) (tg_id tg) = Some u \<and> u_role u \<in> {ADMIN, SUPER_ADMIN}"
  then have "get_user (w_db w) (tg_id tg) = Some u" and "u_role u \<in> {ADMIN, SUPER_ADMIN}"
    by blast+
  note st = admin_start_user_data [OF this]
  show "w_user_data (snd (evt_start (Some tg) w)) = (w_user_data w)\<lparr>db_user := Some u\<rparr>"
    and "w_user_data (snd (info_start (Some tg) w)) = (w_user_data w)\<lparr>db_user := Some u\<rparr>"
    and "w_user_data (snd (text_cmd_start (Some tg) w)) = (w_user_data w)\<lparr>db_user := Some u\<rparr>"
    by (simp_all add: st reply_frame)
next
  assume "get_user (w_db w) (tg_id tg) = Some u \<and> u_role u = SUPER_ADMIN"
  then have "get_user (w_db w) (tg_id tg) = Some u" and "u_role u = SUPER_ADMIN"
    by blast+
  then show "w_user_data (snd (broadcast_start (Some tg) w)) = (w_user_data w)\<lparr>db_user := Some u\<rparr>"
    by (simp add: broadcast_start_user_data reply_frame)
qed

theorem cancel_leaves_store_and_fields_witness:
  "registration_conv carol_tg ASK_PHONE (Command ''cancel'' ''/cancel'') roomy_confirm_world =
     Some (Inr (Some END), reply MSG_reg_cancelled roomy_confirm_world) \<and>
   evt_conv flaky_bot iso_date read_int EVT_DATE (Command ''cancel'' ''/cancel'') evt_world =
     Some (Inr (Some END), reply MSG_evt_cancelled evt_world) \<and>
   info_conv INFO_TITLE (Command ''cancel'' ''/cancel'') full_world =
     Some (Inr (Some END), reply MSG_info_cancelled full_world) \<and>
   ai_conv (\<lambda>t w. (Inr (Some WAIT_CONFIRM), w)) (\<lambda>w. (Inr (Some END), w)) WAIT_CONFIRM
       (Command ''cancel'' ''/cancel'') full_world =
     Some (Inr (Some END), reply MSG_ai_command_cancelled full_world) \<and>
   bc_conv flaky_bot BC_CONFIRM (Command ''cancel'' ''/cancel'') hello_world =
     Some (Inr (Some END), reply MSG_bc_cancelled hello_world) \<and>
   w_user_data (snd (reg_start 1 carol_tg (reply MSG_reg_cancelled roomy_confirm_world))) =
     (w_user_data roomy_confirm_world)\<lparr>reg_name := Some ''Carol''\<rparr> \<and>
   w_user_data (snd (evt_start (Some bob_tg) evt_world)) =
     (w_user_data evt_world)\<lparr>db_user := Some bob\<rparr> \<and>
   w_user_data (snd (broadcast_start (Some alice_tg) hello_world)) =
     (w_user_data hello_world)\<lparr>db_user := Some alice\<rparr>"
proof -
  note T = cancel_leaves_store_and_fields
  from T [where state = ASK_PHONE and tg = carol_tg and t = "''/cancel''"
      and w = roomy_confirm_world, THEN conjunct1]
  have c1: "registration_conv carol_tg ASK_PHONE (Command ''cancel'' ''/cancel'')
      roomy_confirm_world = Some (Inr (Some END), reply MSG_reg_cancelled roomy_confirm_world)"
    by simp
  from T [where state = EVT_DATE and bot_ok = flaky_bot and fromisoformat = iso_date
      and int_of_str = read_int and t = "''/cancel''" and w = evt_world,
      THEN conjunct2, THEN conjunct2, THEN conjunct1]
  have c2: "evt_conv flaky_bot iso_date read_int EVT_DATE (Command ''cancel'' ''/cancel'') evt_world =
     Some (Inr (Some END), reply MSG_evt_cancelled evt_world)"
    by simp
  from T [where state = INFO_TITLE and t = "''/cancel''" and w = full_world,
      THEN conjunct2, THEN conjunct2, THEN conjunct2, THEN conjunct2, THEN conjunct1]
  have c3: "info_conv INFO_TITLE (Command ''cancel'' ''/cancel'') full_world =
     Some (Inr (Some END), reply MSG_info_cancelled full_world)"
    by simp
  from T [where state = WAIT_CONFIRM and t = "''/cancel''" and w = full_world
      and text_cmd_parse = "\<lambda>t w. (Inr (Some WAIT_CONFIRM), w)"
      and execute = "\<lambda>w. (Inr (Some END), w)",
      THEN conjunct2, THEN conjunct2, THEN conjunct2, THEN conjunct2, THEN conjunct2,
      THEN conjunct2, THEN conjunct1]
  have c4: "ai_conv (\<lambda>t w. (Inr (Some WAIT_CONFIRM), w)) (\<lambda>w. (Inr (Some END), w)) WAIT_CONFIRM
       (Command ''cancel'' ''/cancel'') full_world =
     Some (Inr (Some END), reply MSG_ai_command_cancelled full_world)"
    by simp
  from T [where state = BC_CONFIRM and t = "''/cancel''" and w = hello_world
      and bot_ok = flaky_bot,
      THEN conjunct2, THEN conjunct2, THEN conjunct2, THEN conjunct2, THEN conjunct2,
      THEN conjunct2, THEN conjunct2, THEN conjunct2, THEN conjunct1]
  have c5: "bc_conv flaky_bot BC_CONFIRM (Command ''cancel'' ''/cancel'') hello_world =
     Some (Inr (Some END), reply MSG_bc_cancelled hello_world)"
    by simp
  note tail = T [THEN conjunct2, THEN conjunct2, THEN conjunct2, THEN conjunct2, THEN conjunct2,
      THEN conjunct2, THEN conjunct2, THEN conjunct2, THEN conjunct2, THEN conjunct2,
      THEN conjunct2, THEN conjunct2, THEN conjunct2, THEN conjunct2]
  have ev: "get_event (w_db (reply MSG_reg_cancelled roomy_confirm_world)) 1 =
        Some (camp\<lparr>e_max_participants := 2\<rparr>) \<and>
      \<not> (0 < e_max_participants (camp\<lparr>e_max_participants := 2\<rparr>) \<and>
         e_max_participants (camp\<lparr>e_max_participants := 2\<rparr>)
           \<le> count_event_registrations (w_db (reply MSG_reg_cancelled roomy_confirm_world)) 1)"
    by (simp add: roomy_confirm_world_def roomy_world_def world_of_def reply_def get_event_def
        count_event_registrations_def example_db_def camp_def carol_reg_def)
  from tail [THEN conjunct1, rule_format, OF ev, of carol_tg]
  have c6: "w_user_data (snd (reg_start 1 carol_tg (reply MSG_reg_cancelled roomy_confirm_world))) =
     (w_user_data roomy_confirm_world)\<lparr>reg_name := Some ''Carol''\<rparr>"
    by (simp add: roomy_confirm_world_def roomy_world_def carol_confirm_world_def world_of_def
        reply_def get_user_def example_db_def empty_user_data_def camp_def carol_tg_def alice_def
        bob_def carol_def)
  have adm: "get_user (w_db evt_world) (tg_id bob_tg) = Some bob \<and> u_role bob \<in> {ADMIN, SUPER_ADMIN}"
    by (simp add: evt_world_def world_of_def get_user_def example_db_def bob_tg_def alice_def
        bob_def)
  from tail [THEN conjunct2, THEN conjunct1, rule_format, OF adm, THEN conjunct1]
  have c7: "w_user_data (snd (evt_start (Some bob_tg) evt_world)) =
     (w_user_data evt_world)\<lparr>db_user := Some bob\<rparr>" .
  have sup: "get_user (w_db hello_world) (tg_id alice_tg) = Some alice \<and> u_role alice = SUPER_ADMIN"
    by (simp add: hello_world_def world_of_def get_user_def example_db_def alice_tg_def alice_def)
  from tail [THEN conjunct2, THEN conjunct2, rule_format, OF sup]
  have c8: "w_user_data (snd (broadcast_start (Some alice_tg) hello_world)) =
     (w_user_data hello_world)\<lparr>db_user := Some alice\<rparr>" .
  from c1 c2 c3 c4 c5 c6 c7 c8 show ?thesis
    by simp
qed

end
